theory Spec2Isabelle
  imports Main "HOL-Library.Word"
begin

section \<open>The event registry and the namespace bootstrap of tracee-ebpf\<close>

text \<open>
  This theory embeds two source files of package \<open>tracee\<close>: the file that synthesises
  the \<open>init_namespaces\<close> event from the directory \<open>/proc/1/ns\<close>, and the file
  that declares the enumerations shared with the eBPF code together with the tables
  \<open>EventsIDToEvent\<close> and \<open>EventsIDToParams\<close>. Go structs are records, Go
  enumerations of attach mechanisms are a datatype, Go maps written as literals are
  association lists in the order of the literal (looked up with \<open>map_of\<close>), discarded
  error results are kept in the model and dropped where the code drops them, and the
  32-bit and 64-bit unsigned integers of the parsing code are machine words.
\<close>

subsection \<open>Data model\<close>

datatype error = PathError | ErrSyntax | ErrRange

datatype probeType = sysCall | kprobe | kretprobe | tracepoint | rawTracepoint

record probe =
  event :: string
  attach :: probeType
  fn :: string

record EventConfig =
  ID :: int
  ID32Bit :: int
  Name :: string
  Probes :: "probe list"
  EssentialEvent :: bool
  Sets :: "string list"

text \<open>
  \<open>external.ArgMeta\<close>, \<open>external.Argument\<close> and \<open>external.Event\<close> are
  declared in another package; the records below have the fields the two files use. The
  fields \<open>Type\<close> and \<open>Name\<close> of \<open>ArgMeta\<close> are called \<open>ArgType\<close> and
  \<open>ArgName\<close> here, because \<open>Name\<close> is already a field of \<open>EventConfig\<close>.
  \<open>Argument\<close> embeds \<open>ArgMeta\<close>; its \<open>Value\<close> is an empty interface, which
  in these files is either nil or holds a \<open>uint32\<close>. Of \<open>Event\<close> only the fields
  that \<open>CreateInitNamespacesEvent\<close> sets are modelled; the others keep their zero values.
\<close>

record ArgMeta =
  ArgType :: string
  ArgName :: string

datatype ifaceValue = NilValue | Uint32Value "32 word"

record Argument = ArgMeta +
  Value :: ifaceValue

record Event =
  Timestamp :: int
  ProcessName :: string
  EventID :: int
  EventName :: string
  ArgsNum :: int
  Args :: "Argument list"

subsection \<open>Enumerations shared with the eBPF code\<close>

text \<open>
  \<open>bpfConfig\<close> is \<open>uint32\<close>; its constants are declared as \<open>iota + 1\<close>, so
  each definition below is the value of \<open>iota\<close> on its line plus one.
  \<open>bpfConfigSlots\<close> lists the constants in the order of their declaration.
\<close>

definition configDetectOrigSyscall :: "32 word" where "configDetectOrigSyscall = 0 + 1"
definition configExecEnv :: "32 word" where "configExecEnv = 1 + 1"
definition configCaptureFiles :: "32 word" where "configCaptureFiles = 2 + 1"
definition configExtractDynCode :: "32 word" where "configExtractDynCode = 3 + 1"
definition configTraceePid :: "32 word" where "configTraceePid = 4 + 1"
definition configStackAddresses :: "32 word" where "configStackAddresses = 5 + 1"
definition configUIDFilter :: "32 word" where "configUIDFilter = 6 + 1"
definition configMntNsFilter :: "32 word" where "configMntNsFilter = 7 + 1"
definition configPidNsFilter :: "32 word" where "configPidNsFilter = 8 + 1"
definition configUTSNsFilter :: "32 word" where "configUTSNsFilter = 9 + 1"
definition configCommFilter :: "32 word" where "configCommFilter = 10 + 1"
definition configPidFilter :: "32 word" where "configPidFilter = 11 + 1"
definition configContFilter :: "32 word" where "configContFilter = 12 + 1"
definition configFollowFilter :: "32 word" where "configFollowFilter = 13 + 1"
definition configNewPidFilter :: "32 word" where "configNewPidFilter = 14 + 1"
definition configNewContFilter :: "32 word" where "configNewContFilter = 15 + 1"
definition configDebugNet :: "32 word" where "configDebugNet = 16 + 1"
definition configProcTreeFilter :: "32 word" where "configProcTreeFilter = 17 + 1"
definition configCaptureModules :: "32 word" where "configCaptureModules = 18 + 1"
definition configCgroupV1 :: "32 word" where "configCgroupV1 = 19 + 1"

definition bpfConfigSlots :: "32 word list" where
  "bpfConfigSlots = [configDetectOrigSyscall, configExecEnv, configCaptureFiles, configExtractDynCode, configTraceePid, configStackAddresses, configUIDFilter, configMntNsFilter, configPidNsFilter, configUTSNsFilter, configCommFilter, configPidFilter, configContFilter, configFollowFilter, configNewPidFilter, configNewContFilter, configDebugNet, configProcTreeFilter, configCaptureModules, configCgroupV1]"


text \<open>
  The tail-call indexes are declared as \<open>uint32 = iota\<close>.
  \<open>tailSlots\<close> lists them in the order of their declaration.
\<close>

definition tailVfsWrite :: "32 word" where "tailVfsWrite = 0"
definition tailVfsWritev :: "32 word" where "tailVfsWritev = 1"
definition tailSendBin :: "32 word" where "tailSendBin = 2"
definition tailSendBinTP :: "32 word" where "tailSendBinTP = 3"

definition tailSlots :: "32 word list" where
  "tailSlots = [tailVfsWrite, tailVfsWritev, tailSendBin, tailSendBinTP]"

text \<open>
  The identifiers of the events that are not system calls are declared as
  \<open>int32 = iota + 1000\<close>, and the one event that originates in user space as
  \<open>int32 = iota + 2000\<close>. All values are far inside the range of \<open>int32\<close>, so
  the identifiers are integers here.
\<close>

definition SysEnterEventID :: int where "SysEnterEventID = 0 + 1000"
definition SysExitEventID :: int where "SysExitEventID = 1 + 1000"
definition SchedProcessForkEventID :: int where "SchedProcessForkEventID = 2 + 1000"
definition SchedProcessExecEventID :: int where "SchedProcessExecEventID = 3 + 1000"
definition SchedProcessExitEventID :: int where "SchedProcessExitEventID = 4 + 1000"
definition SchedSwitchEventID :: int where "SchedSwitchEventID = 5 + 1000"
definition DoExitEventID :: int where "DoExitEventID = 6 + 1000"
definition CapCapableEventID :: int where "CapCapableEventID = 7 + 1000"
definition VfsWriteEventID :: int where "VfsWriteEventID = 8 + 1000"
definition VfsWritevEventID :: int where "VfsWritevEventID = 9 + 1000"
definition MemProtAlertEventID :: int where "MemProtAlertEventID = 10 + 1000"
definition CommitCredsEventID :: int where "CommitCredsEventID = 11 + 1000"
definition SwitchTaskNSEventID :: int where "SwitchTaskNSEventID = 12 + 1000"
definition MagicWriteEventID :: int where "MagicWriteEventID = 13 + 1000"
definition CgroupAttachTaskEventID :: int where "CgroupAttachTaskEventID = 14 + 1000"
definition CgroupMkdirEventID :: int where "CgroupMkdirEventID = 15 + 1000"
definition CgroupRmdirEventID :: int where "CgroupRmdirEventID = 16 + 1000"
definition SecurityBprmCheckEventID :: int where "SecurityBprmCheckEventID = 17 + 1000"
definition SecurityFileOpenEventID :: int where "SecurityFileOpenEventID = 18 + 1000"
definition SecurityInodeUnlinkEventID :: int where "SecurityInodeUnlinkEventID = 19 + 1000"
definition SecuritySocketCreateEventID :: int where "SecuritySocketCreateEventID = 20 + 1000"
definition SecuritySocketListenEventID :: int where "SecuritySocketListenEventID = 21 + 1000"
definition SecuritySocketConnectEventID :: int where "SecuritySocketConnectEventID = 22 + 1000"
definition SecuritySocketAcceptEventID :: int where "SecuritySocketAcceptEventID = 23 + 1000"
definition SecuritySocketBindEventID :: int where "SecuritySocketBindEventID = 24 + 1000"
definition SecuritySbMountEventID :: int where "SecuritySbMountEventID = 25 + 1000"
definition SecurityBPFEventID :: int where "SecurityBPFEventID = 26 + 1000"
definition SecurityBPFMapEventID :: int where "SecurityBPFMapEventID = 27 + 1000"
definition SecurityKernelReadFileEventID :: int where "SecurityKernelReadFileEventID = 28 + 1000"
definition SecurityInodeMknodEventID :: int where "SecurityInodeMknodEventID = 29 + 1000"
definition SecurityPostReadFileEventID :: int where "SecurityPostReadFileEventID = 30 + 1000"
definition SocketDupEventID :: int where "SocketDupEventID = 31 + 1000"
definition MaxEventID :: int where "MaxEventID = 32 + 1000"
definition InitNamespacesEventID :: int where "InitNamespacesEventID = 0 + 2000"

subsection \<open>The registry\<close>

text \<open>
  The identifiers of the system-call events (\<open>ReadEventID\<close>, \<open>WriteEventID\<close>, ...)
  and the compatibility identifiers (\<open>sys32read\<close>, ..., \<open>sys32undefined\<close>) are
  declared in an architecture-specific file that is not among the sources. They are a
  parameter of the tables: an environment \<open>K\<close> gives the value of each such constant,
  addressed by its Go name.
\<close>

type_synonym constEnv = "string \<Rightarrow> int"

text \<open>
  \<open>EventsIDToEvent\<close>, in the order of the literal. The entries of the system-call
  events come first in the source; they are kept in consecutive blocks of thirty entries,
  followed by the block of the remaining events. An omitted \<open>EssentialEvent\<close> is
  \<open>False\<close>, the zero value.
\<close>

definition syscallEvents_0 :: "constEnv \<Rightarrow> (int \<times> EventConfig) list" where
  "syscallEvents_0 K = [
     (K ''ReadEventID'', \<lparr>ID = K ''ReadEventID'', ID32Bit = K ''sys32read'', Name = ''read'', Probes = [\<lparr>event = ''read'', attach = sysCall, fn = ''read''\<rparr>], EssentialEvent = False, Sets = [''syscalls'', ''fs'', ''fs_read_write'']\<rparr>),
     (K ''WriteEventID'', \<lparr>ID = K ''WriteEventID'', ID32Bit = K ''sys32write'', Name = ''write'', Probes = [\<lparr>event = ''write'', attach = sysCall, fn = ''write''\<rparr>], EssentialEvent = False, Sets = [''syscalls'', ''fs'', ''fs_read_write'']\<rparr>),
     (K ''OpenEventID'', \<lparr>ID = K ''OpenEventID'', ID32Bit = K ''sys32open'', Name = ''open'', Probes = [\<lparr>event = ''open'', attach = sysCall, fn = ''open''\<rparr>], EssentialEvent = False, Sets = [''default'', ''syscalls'', ''fs'', ''fs_file_ops'']\<rparr>),
     (K ''CloseEventID'', \<lparr>ID = K ''CloseEventID'', ID32Bit = K ''sys32close'', Name = ''close'', Probes = [\<lparr>event = ''close'', attach = sysCall, fn = ''close''\<rparr>], EssentialEvent = False, Sets = [''default'', ''syscalls'', ''fs'', ''fs_file_ops'']\<rparr>),
     (K ''StatEventID'', \<lparr>ID = K ''StatEventID'', ID32Bit = K ''sys32stat'', Name = ''stat'', Probes = [\<lparr>event = ''newstat'', attach = sysCall, fn = ''newstat''\<rparr>], EssentialEvent = False, Sets = [''default'', ''syscalls'', ''fs'', ''fs_file_attr'']\<rparr>),
     (K ''FstatEventID'', \<lparr>ID = K ''FstatEventID'', ID32Bit = K ''sys32fstat'', Name = ''fstat'', Probes = [\<lparr>event = ''newfstat'', attach = sysCall, fn = ''newfstat''\<rparr>], EssentialEvent = False, Sets = [''default'', ''syscalls'', ''fs'', ''fs_file_attr'']\<rparr>),
     (K ''LstatEventID'', \<lparr>ID = K ''LstatEventID'', ID32Bit = K ''sys32lstat'', Name = ''lstat'', Probes = [\<lparr>event = ''newlstat'', attach = sysCall, fn = ''newlstat''\<rparr>], EssentialEvent = False, Sets = [''default'', ''syscalls'', ''fs'', ''fs_file_attr'']\<rparr>),
     (K ''PollEventID'', \<lparr>ID = K ''PollEventID'', ID32Bit = K ''sys32poll'', Name = ''poll'', Probes = [\<lparr>event = ''poll'', attach = sysCall, fn = ''poll''\<rparr>], EssentialEvent = False, Sets = [''syscalls'', ''fs'', ''fs_mux_io'']\<rparr>),
     (K ''LseekEventID'', \<lparr>ID = K ''LseekEventID'', ID32Bit = K ''sys32lseek'', Name = ''lseek'', Probes = [\<lparr>event = ''lseek'', attach = sysCall, fn = ''lseek''\<rparr>], EssentialEvent = False, Sets = [''syscalls'', ''fs'', ''fs_read_write'']\<rparr>),
     (K ''MmapEventID'', \<lparr>ID = K ''MmapEventID'', ID32Bit = K ''sys32mmap'', Name = ''mmap'', Probes = [\<lparr>event = ''mmap'', attach = sysCall, fn = ''mmap''\<rparr>], EssentialEvent = False, Sets = [''syscalls'', ''proc'', ''proc_mem'']\<rparr>),
     (K ''MprotectEventID'', \<lparr>ID = K ''MprotectEventID'', ID32Bit = K ''sys32mprotect'', Name = ''mprotect'', Probes = [\<lparr>event = ''mprotect'', attach = sysCall, fn = ''mprotect''\<rparr>], EssentialEvent = False, Sets = [''syscalls'', ''proc'', ''proc_mem'']\<rparr>),
     (K ''MunmapEventID'', \<lparr>ID = K ''MunmapEventID'', ID32Bit = K ''sys32munmap'', Name = ''munmap'', Probes = [\<lparr>event = ''munmap'', attach = sysCall, fn = ''munmap''\<rparr>], EssentialEvent = False, Sets = [''syscalls'', ''proc'', ''proc_mem'']\<rparr>),
     (K ''BrkEventID'', \<lparr>ID = K ''BrkEventID'', ID32Bit = K ''sys32brk'', Name = ''brk'', Probes = [\<lparr>event = ''brk'', attach = sysCall, fn = ''brk''\<rparr>], EssentialEvent = False, Sets = [''syscalls'', ''proc'', ''proc_mem'']\<rparr>),
     (K ''RtSigactionEventID'', \<lparr>ID = K ''RtSigactionEventID'', ID32Bit = K ''sys32rt_sigaction'', Name = ''rt_sigaction'', Probes = [\<lparr>event = ''rt_sigaction'', attach = sysCall, fn = ''rt_sigaction''\<rparr>], EssentialEvent = False, Sets = [''syscalls'', ''signals'']\<rparr>),
     (K ''RtSigprocmaskEventID'', \<lparr>ID = K ''RtSigprocmaskEventID'', ID32Bit = K ''sys32rt_sigprocmask'', Name = ''rt_sigprocmask'', Probes = [\<lparr>event = ''rt_sigprocmask'', attach = sysCall, fn = ''rt_sigprocmask''\<rparr>], EssentialEvent = False, Sets = [''syscalls'', ''signals'']\<rparr>),
     (K ''RtSigreturnEventID'', \<lparr>ID = K ''RtSigreturnEventID'', ID32Bit = K ''sys32rt_sigreturn'', Name = ''rt_sigreturn'', Probes = [\<lparr>event = ''rt_sigreturn'', attach = sysCall, fn = ''rt_sigreturn''\<rparr>], EssentialEvent = False, Sets = [''syscalls'', ''signals'']\<rparr>),
     (K ''IoctlEventID'', \<lparr>ID = K ''IoctlEventID'', ID32Bit = K ''sys32ioctl'', Name = ''ioctl'', Probes = [\<lparr>event = ''ioctl'', attach = sysCall, fn = ''ioctl''\<rparr>], EssentialEvent = False, Sets = [''syscalls'', ''fs'', ''fs_fd_ops'']\<rparr>),
     (K ''Pread64EventID'', \<lparr>ID = K ''Pread64EventID'', ID32Bit = K ''sys32pread64'', Name = ''pread64'', Probes = [\<lparr>event = ''pread64'', attach = sysCall, fn = ''pread64''\<rparr>], EssentialEvent = False, Sets = [''syscalls'', ''fs'', ''fs_read_write'']\<rparr>),
     (K ''Pwrite64EventID'', \<lparr>ID = K ''Pwrite64EventID'', ID32Bit = K ''sys32pwrite64'', Name = ''pwrite64'', Probes = [\<lparr>event = ''pwrite64'', attach = sysCall, fn = ''pwrite64''\<rparr>], EssentialEvent = False, Sets = [''syscalls'', ''fs'', ''fs_read_write'']\<rparr>),
     (K ''ReadvEventID'', \<lparr>ID = K ''ReadvEventID'', ID32Bit = K ''sys32readv'', Name = ''readv'', Probes = [\<lparr>event = ''readv'', attach = sysCall, fn = ''readv''\<rparr>], EssentialEvent = False, Sets = [''syscalls'', ''fs'', ''fs_read_write'']\<rparr>),
     (K ''WritevEventID'', \<lparr>ID = K ''WritevEventID'', ID32Bit = K ''sys32writev'', Name = ''writev'', Probes = [\<lparr>event = ''writev'', attach = sysCall, fn = ''writev''\<rparr>], EssentialEvent = False, Sets = [''syscalls'', ''fs'', ''fs_read_write'']\<rparr>),
     (K ''AccessEventID'', \<lparr>ID = K ''AccessEventID'', ID32Bit = K ''sys32access'', Name = ''access'', Probes = [\<lparr>event = ''access'', attach = sysCall, fn = ''access''\<rparr>], EssentialEvent = False, Sets = [''default'', ''syscalls'', ''fs'', ''fs_file_attr'']\<rparr>),
     (K ''PipeEventID'', \<lparr>ID = K ''PipeEventID'', ID32Bit = K ''sys32pipe'', Name = ''pipe'', Probes = [\<lparr>event = ''pipe'', attach = sysCall, fn = ''pipe''\<rparr>], EssentialEvent = False, Sets = [''syscalls'', ''ipc'', ''ipc_pipe'']\<rparr>),
     (K ''SelectEventID'', \<lparr>ID = K ''SelectEventID'', ID32Bit = K ''sys32select'', Name = ''select'', Probes = [\<lparr>event = ''select'', attach = sysCall, fn = ''select''\<rparr>], EssentialEvent = False, Sets = [''syscalls'', ''fs'', ''fs_mux_io'']\<rparr>),
     (K ''SchedYieldEventID'', \<lparr>ID = K ''SchedYieldEventID'', ID32Bit = K ''sys32sched_yield'', Name = ''sched_yield'', Probes = [\<lparr>event = ''sched_yield'', attach = sysCall, fn = ''sched_yield''\<rparr>], EssentialEvent = False, Sets = [''syscalls'', ''proc'', ''proc_sched'']\<rparr>),
     (K ''MremapEventID'', \<lparr>ID = K ''MremapEventID'', ID32Bit = K ''sys32mremap'', Name = ''mremap'', Probes = [\<lparr>event = ''mremap'', attach = sysCall, fn = ''mremap''\<rparr>], EssentialEvent = False, Sets = [''syscalls'', ''proc'', ''proc_mem'']\<rparr>),
     (K ''MsyncEventID'', \<lparr>ID = K ''MsyncEventID'', ID32Bit = K ''sys32msync'', Name = ''msync'', Probes = [\<lparr>event = ''msync'', attach = sysCall, fn = ''msync''\<rparr>], EssentialEvent = False, Sets = [''syscalls'', ''fs'', ''fs_sync'']\<rparr>),
     (K ''MincoreEventID'', \<lparr>ID = K ''MincoreEventID'', ID32Bit = K ''sys32mincore'', Name = ''mincore'', Probes = [\<lparr>event = ''mincore'', attach = sysCall, fn = ''mincore''\<rparr>], EssentialEvent = False, Sets = [''syscalls'', ''proc'', ''proc_mem'']\<rparr>),
     (K ''MadviseEventID'', \<lparr>ID = K ''MadviseEventID'', ID32Bit = K ''sys32madvise'', Name = ''madvise'', Probes = [\<lparr>event = ''madvise'', attach = sysCall, fn = ''madvise''\<rparr>], EssentialEvent = False, Sets = [''syscalls'', ''proc'', ''proc_mem'']\<rparr>),
     (K ''ShmgetEventID'', \<lparr>ID = K ''ShmgetEventID'', ID32Bit = K ''sys32shmget'', Name = ''shmget'', Probes = [\<lparr>event = ''shmget'', attach = sysCall, fn = ''shmget''\<rparr>], EssentialEvent = False, Sets = [''syscalls'', ''ipc'', ''ipc_shm'']\<rparr>)
    ]"

definition syscallEvents_1 :: "constEnv \<Rightarrow> (int \<times> EventConfig) list" where
  "syscallEvents_1 K = [
     (K ''ShmatEventID'', \<lparr>ID = K ''ShmatEventID'', ID32Bit = K ''sys32shmat'', Name = ''shmat'', Probes = [\<lparr>event = ''shmat'', attach = sysCall, fn = ''shmat''\<rparr>], EssentialEvent = False, Sets = [''syscalls'', ''ipc'', ''ipc_shm'']\<rparr>),
     (K ''ShmctlEventID'', \<lparr>ID = K ''ShmctlEventID'', ID32Bit = K ''sys32shmctl'', Name = ''shmctl'', Probes = [\<lparr>event = ''shmctl'', attach = sysCall, fn = ''shmctl''\<rparr>], EssentialEvent = False, Sets = [''syscalls'', ''ipc'', ''ipc_shm'']\<rparr>),
     (K ''DupEventID'', \<lparr>ID = K ''DupEventID'', ID32Bit = K ''sys32dup'', Name = ''dup'', Probes = [\<lparr>event = ''dup'', attach = sysCall, fn = ''dup''\<rparr>], EssentialEvent = False, Sets = [''default'', ''syscalls'', ''fs'', ''fs_fd_ops'']\<rparr>),
     (K ''Dup2EventID'', \<lparr>ID = K ''Dup2EventID'', ID32Bit = K ''sys32dup2'', Name = ''dup2'', Probes = [\<lparr>event = ''dup2'', attach = sysCall, fn = ''dup2''\<rparr>], EssentialEvent = False, Sets = [''default'', ''syscalls'', ''fs'', ''fs_fd_ops'']\<rparr>),
     (K ''PauseEventID'', \<lparr>ID = K ''PauseEventID'', ID32Bit = K ''sys32pause'', Name = ''pause'', Probes = [\<lparr>event = ''pause'', attach = sysCall, fn = ''pause''\<rparr>], EssentialEvent = False, Sets = [''syscalls'', ''signals'']\<rparr>),
     (K ''NanosleepEventID'', \<lparr>ID = K ''NanosleepEventID'', ID32Bit = K ''sys32nanosleep'', Name = ''nanosleep'', Probes = [\<lparr>event = ''nanosleep'', attach = sysCall, fn = ''nanosleep''\<rparr>], EssentialEvent = False, Sets = [''syscalls'', ''time'', ''time_timer'']\<rparr>),
     (K ''GetitimerEventID'', \<lparr>ID = K ''GetitimerEventID'', ID32Bit = K ''sys32getitimer'', Name = ''getitimer'', Probes = [\<lparr>event = ''getitimer'', attach = sysCall, fn = ''getitimer''\<rparr>], EssentialEvent = False, Sets = [''syscalls'', ''time'', ''time_timer'']\<rparr>),
     (K ''AlarmEventID'', \<lparr>ID = K ''AlarmEventID'', ID32Bit = K ''sys32alarm'', Name = ''alarm'', Probes = [\<lparr>event = ''alarm'', attach = sysCall, fn = ''alarm''\<rparr>], EssentialEvent = False, Sets = [''syscalls'', ''time'', ''time_timer'']\<rparr>),
     (K ''SetitimerEventID'', \<lparr>ID = K ''SetitimerEventID'', ID32Bit = K ''sys32setitimer'', Name = ''setitimer'', Probes = [\<lparr>event = ''setitimer'', attach = sysCall, fn = ''setitimer''\<rparr>], EssentialEvent = False, Sets = [''syscalls'', ''time'', ''time_timer'']\<rparr>),
     (K ''GetpidEventID'', \<lparr>ID = K ''GetpidEventID'', ID32Bit = K ''sys32getpid'', Name = ''getpid'', Probes = [\<lparr>event = ''getpid'', attach = sysCall, fn = ''getpid''\<rparr>], EssentialEvent = False, Sets = [''syscalls'', ''proc'', ''proc_ids'']\<rparr>),
     (K ''SendfileEventID'', \<lparr>ID = K ''SendfileEventID'', ID32Bit = K ''sys32sendfile'', Name = ''sendfile'', Probes = [\<lparr>event = ''sendfile'', attach = sysCall, fn = ''sendfile''\<rparr>], EssentialEvent = False, Sets = [''syscalls'', ''fs'', ''fs_read_write'']\<rparr>),
     (K ''SocketEventID'', \<lparr>ID = K ''SocketEventID'', ID32Bit = K ''sys32socket'', Name = ''socket'', Probes = [\<lparr>event = ''socket'', attach = sysCall, fn = ''socket''\<rparr>], EssentialEvent = False, Sets = [''default'', ''syscalls'', ''net'', ''net_sock'']\<rparr>),
     (K ''ConnectEventID'', \<lparr>ID = K ''ConnectEventID'', ID32Bit = K ''sys32connect'', Name = ''connect'', Probes = [\<lparr>event = ''connect'', attach = sysCall, fn = ''connect''\<rparr>], EssentialEvent = False, Sets = [''default'', ''syscalls'', ''net'', ''net_sock'']\<rparr>),
     (K ''AcceptEventID'', \<lparr>ID = K ''AcceptEventID'', ID32Bit = K ''sys32undefined'', Name = ''accept'', Probes = [\<lparr>event = ''accept'', attach = sysCall, fn = ''accept''\<rparr>], EssentialEvent = False, Sets = [''default'', ''syscalls'', ''net'', ''net_sock'']\<rparr>),
     (K ''SendtoEventID'', \<lparr>ID = K ''SendtoEventID'', ID32Bit = K ''sys32sendto'', Name = ''sendto'', Probes = [\<lparr>event = ''sendto'', attach = sysCall, fn = ''sendto''\<rparr>], EssentialEvent = False, Sets = [''syscalls'', ''net'', ''net_snd_rcv'']\<rparr>),
     (K ''RecvfromEventID'', \<lparr>ID = K ''RecvfromEventID'', ID32Bit = K ''sys32recvfrom'', Name = ''recvfrom'', Probes = [\<lparr>event = ''recvfrom'', attach = sysCall, fn = ''recvfrom''\<rparr>], EssentialEvent = False, Sets = [''syscalls'', ''net'', ''net_snd_rcv'']\<rparr>),
     (K ''SendmsgEventID'', \<lparr>ID = K ''SendmsgEventID'', ID32Bit = K ''sys32sendmsg'', Name = ''sendmsg'', Probes = [\<lparr>event = ''sendmsg'', attach = sysCall, fn = ''sendmsg''\<rparr>], EssentialEvent = False, Sets = [''syscalls'', ''net'', ''net_snd_rcv'']\<rparr>),
     (K ''RecvmsgEventID'', \<lparr>ID = K ''RecvmsgEventID'', ID32Bit = K ''sys32recvmsg'', Name = ''recvmsg'', Probes = [\<lparr>event = ''recvmsg'', attach = sysCall, fn = ''recvmsg''\<rparr>], EssentialEvent = False, Sets = [''syscalls'', ''net'', ''net_snd_rcv'']\<rparr>),
     (K ''ShutdownEventID'', \<lparr>ID = K ''ShutdownEventID'', ID32Bit = K ''sys32shutdown'', Name = ''shutdown'', Probes = [\<lparr>event = ''shutdown'', attach = sysCall, fn = ''shutdown''\<rparr>], EssentialEvent = False, Sets = [''syscalls'', ''net'', ''net_sock'']\<rparr>),
     (K ''BindEventID'', \<lparr>ID = K ''BindEventID'', ID32Bit = K ''sys32bind'', Name = ''bind'', Probes = [\<lparr>event = ''bind'', attach = sysCall, fn = ''bind''\<rparr>], EssentialEvent = False, Sets = [''default'', ''syscalls'', ''net'', ''net_sock'']\<rparr>),
     (K ''ListenEventID'', \<lparr>ID = K ''ListenEventID'', ID32Bit = K ''sys32listen'', Name = ''listen'', Probes = [\<lparr>event = ''listen'', attach = sysCall, fn = ''listen''\<rparr>], EssentialEvent = False, Sets = [''default'', ''syscalls'', ''net'', ''net_sock'']\<rparr>),
     (K ''GetsocknameEventID'', \<lparr>ID = K ''GetsocknameEventID'', ID32Bit = K ''sys32getsockname'', Name = ''getsockname'', Probes = [\<lparr>event = ''getsockname'', attach = sysCall, fn = ''getsockname''\<rparr>], EssentialEvent = False, Sets = [''default'', ''syscalls'', ''net'', ''net_sock'']\<rparr>),
     (K ''GetpeernameEventID'', \<lparr>ID = K ''GetpeernameEventID'', ID32Bit = K ''sys32getpeername'', Name = ''getpeername'', Probes = [\<lparr>event = ''getpeername'', attach = sysCall, fn = ''getpeername''\<rparr>], EssentialEvent = False, Sets = [''syscalls'', ''net'', ''net_sock'']\<rparr>),
     (K ''SocketpairEventID'', \<lparr>ID = K ''SocketpairEventID'', ID32Bit = K ''sys32socketpair'', Name = ''socketpair'', Probes = [\<lparr>event = ''socketpair'', attach = sysCall, fn = ''socketpair''\<rparr>], EssentialEvent = False, Sets = [''syscalls'', ''net'', ''net_sock'']\<rparr>),
     (K ''SetsockoptEventID'', \<lparr>ID = K ''SetsockoptEventID'', ID32Bit = K ''sys32setsockopt'', Name = ''setsockopt'', Probes = [\<lparr>event = ''setsockopt'', attach = sysCall, fn = ''setsockopt''\<rparr>], EssentialEvent = False, Sets = [''syscalls'', ''net'', ''net_sock'']\<rparr>),
     (K ''GetsockoptEventID'', \<lparr>ID = K ''GetsockoptEventID'', ID32Bit = K ''sys32getsockopt'', Name = ''getsockopt'', Probes = [\<lparr>event = ''getsockopt'', attach = sysCall, fn = ''getsockopt''\<rparr>], EssentialEvent = False, Sets = [''syscalls'', ''net'', ''net_sock'']\<rparr>),
     (K ''CloneEventID'', \<lparr>ID = K ''CloneEventID'', ID32Bit = K ''sys32clone'', Name = ''clone'', Probes = [\<lparr>event = ''clone'', attach = sysCall, fn = ''clone''\<rparr>], EssentialEvent = False, Sets = [''default'', ''syscalls'', ''proc'', ''proc_life'']\<rparr>),
     (K ''ForkEventID'', \<lparr>ID = K ''ForkEventID'', ID32Bit = K ''sys32fork'', Name = ''fork'', Probes = [\<lparr>event = ''fork'', attach = sysCall, fn = ''fork''\<rparr>], EssentialEvent = False, Sets = [''default'', ''syscalls'', ''proc'', ''proc_life'']\<rparr>),
     (K ''VforkEventID'', \<lparr>ID = K ''VforkEventID'', ID32Bit = K ''sys32vfork'', Name = ''vfork'', Probes = [\<lparr>event = ''vfork'', attach = sysCall, fn = ''vfork''\<rparr>], EssentialEvent = False, Sets = [''default'', ''syscalls'', ''proc'', ''proc_life'']\<rparr>),
     (K ''ExecveEventID'', \<lparr>ID = K ''ExecveEventID'', ID32Bit = K ''sys32execve'', Name = ''execve'', Probes = [\<lparr>event = ''execve'', attach = sysCall, fn = ''execve''\<rparr>], EssentialEvent = False, Sets = [''default'', ''syscalls'', ''proc'', ''proc_life'']\<rparr>)
    ]"

definition syscallEvents_2 :: "constEnv \<Rightarrow> (int \<times> EventConfig) list" where
  "syscallEvents_2 K = [
     (K ''ExitEventID'', \<lparr>ID = K ''ExitEventID'', ID32Bit = K ''sys32exit'', Name = ''exit'', Probes = [\<lparr>event = ''exit'', attach = sysCall, fn = ''exit''\<rparr>], EssentialEvent = False, Sets = [''syscalls'', ''proc'', ''proc_life'']\<rparr>),
     (K ''Wait4EventID'', \<lparr>ID = K ''Wait4EventID'', ID32Bit = K ''sys32wait4'', Name = ''wait4'', Probes = [\<lparr>event = ''wait4'', attach = sysCall, fn = ''wait4''\<rparr>], EssentialEvent = False, Sets = [''syscalls'', ''proc'', ''proc_life'']\<rparr>),
     (K ''KillEventID'', \<lparr>ID = K ''KillEventID'', ID32Bit = K ''sys32kill'', Name = ''kill'', Probes = [\<lparr>event = ''kill'', attach = sysCall, fn = ''kill''\<rparr>], EssentialEvent = False, Sets = [''default'', ''syscalls'', ''signals'']\<rparr>),
     (K ''UnameEventID'', \<lparr>ID = K ''UnameEventID'', ID32Bit = K ''sys32uname'', Name = ''uname'', Probes = [\<lparr>event = ''uname'', attach = sysCall, fn = ''uname''\<rparr>], EssentialEvent = False, Sets = [''syscalls'', ''system'']\<rparr>),
     (K ''SemgetEventID'', \<lparr>ID = K ''SemgetEventID'', ID32Bit = K ''sys32semget'', Name = ''semget'', Probes = [\<lparr>event = ''semget'', attach = sysCall, fn = ''semget''\<rparr>], EssentialEvent = False, Sets = [''syscalls'', ''ipc'', ''ipc_sem'']\<rparr>),
     (K ''SemopEventID'', \<lparr>ID = K ''SemopEventID'', ID32Bit = K ''sys32undefined'', Name = ''semop'', Probes = [\<lparr>event = ''semop'', attach = sysCall, fn = ''semop''\<rparr>], EssentialEvent = False, Sets = [''syscalls'', ''ipc'', ''ipc_sem'']\<rparr>),
     (K ''SemctlEventID'', \<lparr>ID = K ''SemctlEventID'', ID32Bit = K ''sys32semctl'', Name = ''semctl'', Probes = [\<lparr>event = ''semctl'', attach = sysCall, fn = ''semctl''\<rparr>], EssentialEvent = False, Sets = [''syscalls'', ''ipc'', ''ipc_sem'']\<rparr>),
     (K ''ShmdtEventID'', \<lparr>ID = K ''ShmdtEventID'', ID32Bit = K ''sys32shmdt'', Name = ''shmdt'', Probes = [\<lparr>event = ''shmdt'', attach = sysCall, fn = ''shmdt''\<rparr>], EssentialEvent = False, Sets = [''syscalls'', ''ipc'', ''ipc_shm'']\<rparr>),
     (K ''MsggetEventID'', \<lparr>ID = K ''MsggetEventID'', ID32Bit = K ''sys32msgget'', Name = ''msgget'', Probes = [\<lparr>event = ''msgget'', attach = sysCall, fn = ''msgget''\<rparr>], EssentialEvent = False, Sets = [''syscalls'', ''ipc'', ''ipc_msgq'']\<rparr>),
     (K ''MsgsndEventID'', \<lparr>ID = K ''MsgsndEventID'', ID32Bit = K ''sys32msgsnd'', Name = ''msgsnd'', Probes = [\<lparr>event = ''msgsnd'', attach = sysCall, fn = ''msgsnd''\<rparr>], EssentialEvent = False, Sets = [''syscalls'', ''ipc'', ''ipc_msgq'']\<rparr>),
     (K ''MsgrcvEventID'', \<lparr>ID = K ''MsgrcvEventID'', ID32Bit = K ''sys32msgrcv'', Name = ''msgrcv'', Probes = [\<lparr>event = ''msgrcv'', attach = sysCall, fn = ''msgrcv''\<rparr>], EssentialEvent = False, Sets = [''syscalls'', ''ipc'', ''ipc_msgq'']\<rparr>),
     (K ''MsgctlEventID'', \<lparr>ID = K ''MsgctlEventID'', ID32Bit = K ''sys32msgctl'', Name = ''msgctl'', Probes = [\<lparr>event = ''msgctl'', attach = sysCall, fn = ''msgctl''\<rparr>], EssentialEvent = False, Sets = [''syscalls'', ''ipc'', ''ipc_msgq'']\<rparr>),
     (K ''FcntlEventID'', \<lparr>ID = K ''FcntlEventID'', ID32Bit = K ''sys32fcntl'', Name = ''fcntl'', Probes = [\<lparr>event = ''fcntl'', attach = sysCall, fn = ''fcntl''\<rparr>], EssentialEvent = False, Sets = [''syscalls'', ''fs'', ''fs_fd_ops'']\<rparr>),
     (K ''FlockEventID'', \<lparr>ID = K ''FlockEventID'', ID32Bit = K ''sys32flock'', Name = ''flock'', Probes = [\<lparr>event = ''flock'', attach = sysCall, fn = ''flock''\<rparr>], EssentialEvent = False, Sets = [''syscalls'', ''fs'', ''fs_fd_ops'']\<rparr>),
     (K ''FsyncEventID'', \<lparr>ID = K ''FsyncEventID'', ID32Bit = K ''sys32fsync'', Name = ''fsync'', Probes = [\<lparr>event = ''fsync'', attach = sysCall, fn = ''fsync''\<rparr>], EssentialEvent = False, Sets = [''syscalls'', ''fs'', ''fs_sync'']\<rparr>),
     (K ''FdatasyncEventID'', \<lparr>ID = K ''FdatasyncEventID'', ID32Bit = K ''sys32fdatasync'', Name = ''fdatasync'', Probes = [\<lparr>event = ''fdatasync'', attach = sysCall, fn = ''fdatasync''\<rparr>], EssentialEvent = False, Sets = [''syscalls'', ''fs'', ''fs_sync'']\<rparr>),
     (K ''TruncateEventID'', \<lparr>ID = K ''TruncateEventID'', ID32Bit = K ''sys32truncate'', Name = ''truncate'', Probes = [\<lparr>event = ''truncate'', attach = sysCall, fn = ''truncate''\<rparr>], EssentialEvent = False, Sets = [''syscalls'', ''fs'', ''fs_file_ops'']\<rparr>),
     (K ''FtruncateEventID'', \<lparr>ID = K ''FtruncateEventID'', ID32Bit = K ''sys32ftruncate'', Name = ''ftruncate'', Probes = [\<lparr>event = ''ftruncate'', attach = sysCall, fn = ''ftruncate''\<rparr>], EssentialEvent = False, Sets = [''syscalls'', ''fs'', ''fs_file_ops'']\<rparr>),
     (K ''GetdentsEventID'', \<lparr>ID = K ''GetdentsEventID'', ID32Bit = K ''sys32getdents'', Name = ''getdents'', Probes = [\<lparr>event = ''getdents'', attach = sysCall, fn = ''getdents''\<rparr>], EssentialEvent = False, Sets = [''default'', ''syscalls'', ''fs'', ''fs_dir_ops'']\<rparr>),
     (K ''GetcwdEventID'', \<lparr>ID = K ''GetcwdEventID'', ID32Bit = K ''sys32getcwd'', Name = ''getcwd'', Probes = [\<lparr>event = ''getcwd'', attach = sysCall, fn = ''getcwd''\<rparr>], EssentialEvent = False, Sets = [''syscalls'', ''fs'', ''fs_dir_ops'']\<rparr>),
     (K ''ChdirEventID'', \<lparr>ID = K ''ChdirEventID'', ID32Bit = K ''sys32chdir'', Name = ''chdir'', Probes = [\<lparr>event = ''chdir'', attach = sysCall, fn = ''chdir''\<rparr>], EssentialEvent = False, Sets = [''syscalls'', ''fs'', ''fs_dir_ops'']\<rparr>),
     (K ''FchdirEventID'', \<lparr>ID = K ''FchdirEventID'', ID32Bit = K ''sys32fchdir'', Name = ''fchdir'', Probes = [\<lparr>event = ''fchdir'', attach = sysCall, fn = ''fchdir''\<rparr>], EssentialEvent = False, Sets = [''syscalls'', ''fs'', ''fs_dir_ops'']\<rparr>),
     (K ''RenameEventID'', \<lparr>ID = K ''RenameEventID'', ID32Bit = K ''sys32rename'', Name = ''rename'', Probes = [\<lparr>event = ''rename'', attach = sysCall, fn = ''rename''\<rparr>], EssentialEvent = False, Sets = [''syscalls'', ''fs'', ''fs_file_ops'']\<rparr>),
     (K ''MkdirEventID'', \<lparr>ID = K ''MkdirEventID'', ID32Bit = K ''sys32mkdir'', Name = ''mkdir'', Probes = [\<lparr>event = ''mkdir'', attach = sysCall, fn = ''mkdir''\<rparr>], EssentialEvent = False, Sets = [''syscalls'', ''fs'', ''fs_dir_ops'']\<rparr>),
     (K ''RmdirEventID'', \<lparr>ID = K ''RmdirEventID'', ID32Bit = K ''sys32rmdir'', Name = ''rmdir'', Probes = [\<lparr>event = ''rmdir'', attach = sysCall, fn = ''rmdir''\<rparr>], EssentialEvent = False, Sets = [''syscalls'', ''fs'', ''fs_dir_ops'']\<rparr>),
     (K ''CreatEventID'', \<lparr>ID = K ''CreatEventID'', ID32Bit = K ''sys32creat'', Name = ''creat'', Probes = [\<lparr>event = ''creat'', attach = sysCall, fn = ''creat''\<rparr>], EssentialEvent = False, Sets = [''default'', ''syscalls'', ''fs'', ''fs_file_ops'']\<rparr>),
     (K ''LinkEventID'', \<lparr>ID = K ''LinkEventID'', ID32Bit = K ''sys32link'', Name = ''link'', Probes = [\<lparr>event = ''link'', attach = sysCall, fn = ''link''\<rparr>], EssentialEvent = False, Sets = [''syscalls'', ''fs'', ''fs_link_ops'']\<rparr>),
     (K ''UnlinkEventID'', \<lparr>ID = K ''UnlinkEventID'', ID32Bit = K ''sys32unlink'', Name = ''unlink'', Probes = [\<lparr>event = ''unlink'', attach = sysCall, fn = ''unlink''\<rparr>], EssentialEvent = False, Sets = [''default'', ''syscalls'', ''fs'', ''fs_link_ops'']\<rparr>),
     (K ''SymlinkEventID'', \<lparr>ID = K ''SymlinkEventID'', ID32Bit = K ''sys32symlink'', Name = ''symlink'', Probes = [\<lparr>event = ''symlink'', attach = sysCall, fn = ''symlink''\<rparr>], EssentialEvent = False, Sets = [''default'', ''syscalls'', ''fs'', ''fs_link_ops'']\<rparr>),
     (K ''ReadlinkEventID'', \<lparr>ID = K ''ReadlinkEventID'', ID32Bit = K ''sys32readlink'', Name = ''readlink'', Probes = [\<lparr>event = ''readlink'', attach = sysCall, fn = ''readlink''\<rparr>], EssentialEvent = False, Sets = [''syscalls'', ''fs'', ''fs_link_ops'']\<rparr>)
    ]"

definition syscallEvents_3 :: "constEnv \<Rightarrow> (int \<times> EventConfig) list" where
  "syscallEvents_3 K = [
     (K ''ChmodEventID'', \<lparr>ID = K ''ChmodEventID'', ID32Bit = K ''sys32chmod'', Name = ''chmod'', Probes = [\<lparr>event = ''chmod'', attach = sysCall, fn = ''chmod''\<rparr>], EssentialEvent = False, Sets = [''default'', ''syscalls'', ''fs'', ''fs_file_attr'']\<rparr>),
     (K ''FchmodEventID'', \<lparr>ID = K ''FchmodEventID'', ID32Bit = K ''sys32fchmod'', Name = ''fchmod'', Probes = [\<lparr>event = ''fchmod'', attach = sysCall, fn = ''fchmod''\<rparr>], EssentialEvent = False, Sets = [''default'', ''syscalls'', ''fs'', ''fs_file_attr'']\<rparr>),
     (K ''ChownEventID'', \<lparr>ID = K ''ChownEventID'', ID32Bit = K ''sys32chown'', Name = ''chown'', Probes = [\<lparr>event = ''chown'', attach = sysCall, fn = ''chown''\<rparr>], EssentialEvent = False, Sets = [''default'', ''syscalls'', ''fs'', ''fs_file_attr'']\<rparr>),
     (K ''FchownEventID'', \<lparr>ID = K ''FchownEventID'', ID32Bit = K ''sys32fchown'', Name = ''fchown'', Probes = [\<lparr>event = ''fchown'', attach = sysCall, fn = ''fchown''\<rparr>], EssentialEvent = False, Sets = [''default'', ''syscalls'', ''fs'', ''fs_file_attr'']\<rparr>),
     (K ''LchownEventID'', \<lparr>ID = K ''LchownEventID'', ID32Bit = K ''sys32lchown'', Name = ''lchown'', Probes = [\<lparr>event = ''lchown'', attach = sysCall, fn = ''lchown''\<rparr>], EssentialEvent = False, Sets = [''default'', ''syscalls'', ''fs'', ''fs_file_attr'']\<rparr>),
     (K ''UmaskEventID'', \<lparr>ID = K ''UmaskEventID'', ID32Bit = K ''sys32umask'', Name = ''umask'', Probes = [\<lparr>event = ''umask'', attach = sysCall, fn = ''umask''\<rparr>], EssentialEvent = False, Sets = [''syscalls'', ''fs'', ''fs_file_attr'']\<rparr>),
     (K ''GettimeofdayEventID'', \<lparr>ID = K ''GettimeofdayEventID'', ID32Bit = K ''sys32gettimeofday'', Name = ''gettimeofday'', Probes = [\<lparr>event = ''gettimeofday'', attach = sysCall, fn = ''gettimeofday''\<rparr>], EssentialEvent = False, Sets = [''syscalls'', ''time'', ''time_tod'']\<rparr>),
     (K ''GetrlimitEventID'', \<lparr>ID = K ''GetrlimitEventID'', ID32Bit = K ''sys32getrlimit'', Name = ''getrlimit'', Probes = [\<lparr>event = ''getrlimit'', attach = sysCall, fn = ''getrlimit''\<rparr>], EssentialEvent = False, Sets = [''syscalls'', ''proc'']\<rparr>),
     (K ''GetrusageEventID'', \<lparr>ID = K ''GetrusageEventID'', ID32Bit = K ''sys32getrusage'', Name = ''getrusage'', Probes = [\<lparr>event = ''getrusage'', attach = sysCall, fn = ''getrusage''\<rparr>], EssentialEvent = False, Sets = [''syscalls'', ''proc'']\<rparr>),
     (K ''SysinfoEventID'', \<lparr>ID = K ''SysinfoEventID'', ID32Bit = K ''sys32sysinfo'', Name = ''sysinfo'', Probes = [\<lparr>event = ''sysinfo'', attach = sysCall, fn = ''sysinfo''\<rparr>], EssentialEvent = False, Sets = [''syscalls'', ''system'']\<rparr>),
     (K ''TimesEventID'', \<lparr>ID = K ''TimesEventID'', ID32Bit = K ''sys32times'', Name = ''times'', Probes = [\<lparr>event = ''times'', attach = sysCall, fn = ''times''\<rparr>], EssentialEvent = False, Sets = [''syscalls'', ''proc'']\<rparr>),
     (K ''PtraceEventID'', \<lparr>ID = K ''PtraceEventID'', ID32Bit = K ''sys32ptrace'', Name = ''ptrace'', Probes = [\<lparr>event = ''ptrace'', attach = sysCall, fn = ''ptrace''\<rparr>], EssentialEvent = False, Sets = [''default'', ''syscalls'', ''proc'']\<rparr>),
     (K ''GetuidEventID'', \<lparr>ID = K ''GetuidEventID'', ID32Bit = K ''sys32getuid'', Name = ''getuid'', Probes = [\<lparr>event = ''getuid'', attach = sysCall, fn = ''getuid''\<rparr>], EssentialEvent = False, Sets = [''syscalls'', ''proc'', ''proc_ids'']\<rparr>),
     (K ''SyslogEventID'', \<lparr>ID = K ''SyslogEventID'', ID32Bit = K ''sys32syslog'', Name = ''syslog'', Probes = [\<lparr>event = ''syslog'', attach = sysCall, fn = ''syslog''\<rparr>], EssentialEvent = False, Sets = [''syscalls'', ''system'']\<rparr>),
     (K ''GetgidEventID'', \<lparr>ID = K ''GetgidEventID'', ID32Bit = K ''sys32getgid'', Name = ''getgid'', Probes = [\<lparr>event = ''getgid'', attach = sysCall, fn = ''getgid''\<rparr>], EssentialEvent = False, Sets = [''syscalls'', ''proc'', ''proc_ids'']\<rparr>),
     (K ''SetuidEventID'', \<lparr>ID = K ''SetuidEventID'', ID32Bit = K ''sys32setuid'', Name = ''setuid'', Probes = [\<lparr>event = ''setuid'', attach = sysCall, fn = ''setuid''\<rparr>], EssentialEvent = False, Sets = [''default'', ''syscalls'', ''proc'', ''proc_ids'']\<rparr>),
     (K ''SetgidEventID'', \<lparr>ID = K ''SetgidEventID'', ID32Bit = K ''sys32setgid'', Name = ''setgid'', Probes = [\<lparr>event = ''setgid'', attach = sysCall, fn = ''setgid''\<rparr>], EssentialEvent = False, Sets = [''default'', ''syscalls'', ''proc'', ''proc_ids'']\<rparr>),
     (K ''GeteuidEventID'', \<lparr>ID = K ''GeteuidEventID'', ID32Bit = K ''sys32geteuid'', Name = ''geteuid'', Probes = [\<lparr>event = ''geteuid'', attach = sysCall, fn = ''geteuid''\<rparr>], EssentialEvent = False, Sets = [''syscalls'', ''proc'', ''proc_ids'']\<rparr>),
     (K ''GetegidEventID'', \<lparr>ID = K ''GetegidEventID'', ID32Bit = K ''sys32getegid'', Name = ''getegid'', Probes = [\<lparr>event = ''getegid'', attach = sysCall, fn = ''getegid''\<rparr>], EssentialEvent = False, Sets = [''syscalls'', ''proc'', ''proc_ids'']\<rparr>),
     (K ''SetpgidEventID'', \<lparr>ID = K ''SetpgidEventID'', ID32Bit = K ''sys32setpgid'', Name = ''setpgid'', Probes = [\<lparr>event = ''setpgid'', attach = sysCall, fn = ''setpgid''\<rparr>], EssentialEvent = False, Sets = [''syscalls'', ''proc'', ''proc_ids'']\<rparr>),
     (K ''GetppidEventID'', \<lparr>ID = K ''GetppidEventID'', ID32Bit = K ''sys32getppid'', Name = ''getppid'', Probes = [\<lparr>event = ''getppid'', attach = sysCall, fn = ''getppid''\<rparr>], EssentialEvent = False, Sets = [''syscalls'', ''proc'', ''proc_ids'']\<rparr>),
     (K ''GetpgrpEventID'', \<lparr>ID = K ''GetpgrpEventID'', ID32Bit = K ''sys32getpgrp'', Name = ''getpgrp'', Probes = [\<lparr>event = ''getpgrp'', attach = sysCall, fn = ''getpgrp''\<rparr>], EssentialEvent = False, Sets = [''syscalls'', ''proc'', ''proc_ids'']\<rparr>),
     (K ''SetsidEventID'', \<lparr>ID = K ''SetsidEventID'', ID32Bit = K ''sys32setsid'', Name = ''setsid'', Probes = [\<lparr>event = ''setsid'', attach = sysCall, fn = ''setsid''\<rparr>], EssentialEvent = False, Sets = [''syscalls'', ''proc'', ''proc_ids'']\<rparr>),
     (K ''SetreuidEventID'', \<lparr>ID = K ''SetreuidEventID'', ID32Bit = K ''sys32setreuid'', Name = ''setreuid'', Probes = [\<lparr>event = ''setreuid'', attach = sysCall, fn = ''setreuid''\<rparr>], EssentialEvent = False, Sets = [''default'', ''syscalls'', ''proc'', ''proc_ids'']\<rparr>),
     (K ''SetregidEventID'', \<lparr>ID = K ''SetregidEventID'', ID32Bit = K ''sys32setregid'', Name = ''setregid'', Probes = [\<lparr>event = ''setregid'', attach = sysCall, fn = ''setregid''\<rparr>], EssentialEvent = False, Sets = [''default'', ''syscalls'', ''proc'', ''proc_ids'']\<rparr>),
     (K ''GetgroupsEventID'', \<lparr>ID = K ''GetgroupsEventID'', ID32Bit = K ''sys32getgroups'', Name = ''getgroups'', Probes = [\<lparr>event = ''getgroups'', attach = sysCall, fn = ''getgroups''\<rparr>], EssentialEvent = False, Sets = [''syscalls'', ''proc'', ''proc_ids'']\<rparr>),
     (K ''SetgroupsEventID'', \<lparr>ID = K ''SetgroupsEventID'', ID32Bit = K ''sys32setgroups'', Name = ''setgroups'', Probes = [\<lparr>event = ''setgroups'', attach = sysCall, fn = ''setgroups''\<rparr>], EssentialEvent = False, Sets = [''syscalls'', ''proc'', ''proc_ids'']\<rparr>),
     (K ''SetresuidEventID'', \<lparr>ID = K ''SetresuidEventID'', ID32Bit = K ''sys32setresuid'', Name = ''setresuid'', Probes = [\<lparr>event = ''setresuid'', attach = sysCall, fn = ''setresuid''\<rparr>], EssentialEvent = False, Sets = [''syscalls'', ''proc'', ''proc_ids'']\<rparr>),
     (K ''GetresuidEventID'', \<lparr>ID = K ''GetresuidEventID'', ID32Bit = K ''sys32getresuid'', Name = ''getresuid'', Probes = [\<lparr>event = ''getresuid'', attach = sysCall, fn = ''getresuid''\<rparr>], EssentialEvent = False, Sets = [''syscalls'', ''proc'', ''proc_ids'']\<rparr>),
     (K ''SetresgidEventID'', \<lparr>ID = K ''SetresgidEventID'', ID32Bit = K ''sys32setresgid'', Name = ''setresgid'', Probes = [\<lparr>event = ''setresgid'', attach = sysCall, fn = ''setresgid''\<rparr>], EssentialEvent = False, Sets = [''syscalls'', ''proc'', ''proc_ids'']\<rparr>)
    ]"

definition syscallEvents_4 :: "constEnv \<Rightarrow> (int \<times> EventConfig) list" where
  "syscallEvents_4 K = [
     (K ''GetresgidEventID'', \<lparr>ID = K ''GetresgidEventID'', ID32Bit = K ''sys32getresgid'', Name = ''getresgid'', Probes = [\<lparr>event = ''getresgid'', attach = sysCall, fn = ''getresgid''\<rparr>], EssentialEvent = False, Sets = [''syscalls'', ''proc'', ''proc_ids'']\<rparr>),
     (K ''GetpgidEventID'', \<lparr>ID = K ''GetpgidEventID'', ID32Bit = K ''sys32getpgid'', Name = ''getpgid'', Probes = [\<lparr>event = ''getpgid'', attach = sysCall, fn = ''getpgid''\<rparr>], EssentialEvent = False, Sets = [''syscalls'', ''proc'', ''proc_ids'']\<rparr>),
     (K ''SetfsuidEventID'', \<lparr>ID = K ''SetfsuidEventID'', ID32Bit = K ''sys32setfsuid'', Name = ''setfsuid'', Probes = [\<lparr>event = ''setfsuid'', attach = sysCall, fn = ''setfsuid''\<rparr>], EssentialEvent = False, Sets = [''default'', ''syscalls'', ''proc'', ''proc_ids'']\<rparr>),
     (K ''SetfsgidEventID'', \<lparr>ID = K ''SetfsgidEventID'', ID32Bit = K ''sys32setfsgid'', Name = ''setfsgid'', Probes = [\<lparr>event = ''setfsgid'', attach = sysCall, fn = ''setfsgid''\<rparr>], EssentialEvent = False, Sets = [''default'', ''syscalls'', ''proc'', ''proc_ids'']\<rparr>),
     (K ''GetsidEventID'', \<lparr>ID = K ''GetsidEventID'', ID32Bit = K ''sys32getsid'', Name = ''getsid'', Probes = [\<lparr>event = ''getsid'', attach = sysCall, fn = ''getsid''\<rparr>], EssentialEvent = False, Sets = [''syscalls'', ''proc'', ''proc_ids'']\<rparr>),
     (K ''CapgetEventID'', \<lparr>ID = K ''CapgetEventID'', ID32Bit = K ''sys32capget'', Name = ''capget'', Probes = [\<lparr>event = ''capget'', attach = sysCall, fn = ''capget''\<rparr>], EssentialEvent = False, Sets = [''syscalls'', ''proc'']\<rparr>),
     (K ''CapsetEventID'', \<lparr>ID = K ''CapsetEventID'', ID32Bit = K ''sys32capset'', Name = ''capset'', Probes = [\<lparr>event = ''capset'', attach = sysCall, fn = ''capset''\<rparr>], EssentialEvent = False, Sets = [''syscalls'', ''proc'']\<rparr>),
     (K ''RtSigpendingEventID'', \<lparr>ID = K ''RtSigpendingEventID'', ID32Bit = K ''sys32rt_sigpending'', Name = ''rt_sigpending'', Probes = [\<lparr>event = ''rt_sigpending'', attach = sysCall, fn = ''rt_sigpending''\<rparr>], EssentialEvent = False, Sets = [''syscalls'', ''signals'']\<rparr>),
     (K ''RtSigtimedwaitEventID'', \<lparr>ID = K ''RtSigtimedwaitEventID'', ID32Bit = K ''sys32rt_sigtimedwait'', Name = ''rt_sigtimedwait'', Probes = [\<lparr>event = ''rt_sigtimedwait'', attach = sysCall, fn = ''rt_sigtimedwait''\<rparr>], EssentialEvent = False, Sets = [''syscalls'', ''signals'']\<rparr>),
     (K ''RtSigqueueinfoEventID'', \<lparr>ID = K ''RtSigqueueinfoEventID'', ID32Bit = K ''sys32rt_sigqueueinfo'', Name = ''rt_sigqueueinfo'', Probes = [\<lparr>event = ''rt_sigqueueinfo'', attach = sysCall, fn = ''rt_sigqueueinfo''\<rparr>], EssentialEvent = False, Sets = [''syscalls'', ''signals'']\<rparr>),
     (K ''RtSigsuspendEventID'', \<lparr>ID = K ''RtSigsuspendEventID'', ID32Bit = K ''sys32rt_sigsuspend'', Name = ''rt_sigsuspend'', Probes = [\<lparr>event = ''rt_sigsuspend'', attach = sysCall, fn = ''rt_sigsuspend''\<rparr>], EssentialEvent = False, Sets = [''syscalls'', ''signals'']\<rparr>),
     (K ''SigaltstackEventID'', \<lparr>ID = K ''SigaltstackEventID'', ID32Bit = K ''sys32sigaltstack'', Name = ''sigaltstack'', Probes = [\<lparr>event = ''sigaltstack'', attach = sysCall, fn = ''sigaltstack''\<rparr>], EssentialEvent = False, Sets = [''syscalls'', ''signals'']\<rparr>),
     (K ''UtimeEventID'', \<lparr>ID = K ''UtimeEventID'', ID32Bit = K ''sys32utime'', Name = ''utime'', Probes = [\<lparr>event = ''utime'', attach = sysCall, fn = ''utime''\<rparr>], EssentialEvent = False, Sets = [''syscalls'', ''fs'', ''fs_file_attr'']\<rparr>),
     (K ''MknodEventID'', \<lparr>ID = K ''MknodEventID'', ID32Bit = K ''sys32mknod'', Name = ''mknod'', Probes = [\<lparr>event = ''mknod'', attach = sysCall, fn = ''mknod''\<rparr>], EssentialEvent = False, Sets = [''default'', ''syscalls'', ''fs'', ''fs_file_ops'']\<rparr>),
     (K ''UselibEventID'', \<lparr>ID = K ''UselibEventID'', ID32Bit = K ''sys32uselib'', Name = ''uselib'', Probes = [\<lparr>event = ''uselib'', attach = sysCall, fn = ''uselib''\<rparr>], EssentialEvent = False, Sets = [''syscalls'', ''proc'']\<rparr>),
     (K ''PersonalityEventID'', \<lparr>ID = K ''PersonalityEventID'', ID32Bit = K ''sys32personality'', Name = ''personality'', Probes = [\<lparr>event = ''personality'', attach = sysCall, fn = ''personality''\<rparr>], EssentialEvent = False, Sets = [''syscalls'', ''system'']\<rparr>),
     (K ''UstatEventID'', \<lparr>ID = K ''UstatEventID'', ID32Bit = K ''sys32ustat'', Name = ''ustat'', Probes = [\<lparr>event = ''ustat'', attach = sysCall, fn = ''ustat''\<rparr>], EssentialEvent = False, Sets = [''syscalls'', ''fs'', ''fs_info'']\<rparr>),
     (K ''StatfsEventID'', \<lparr>ID = K ''StatfsEventID'', ID32Bit = K ''sys32statfs'', Name = ''statfs'', Probes = [\<lparr>event = ''statfs'', attach = sysCall, fn = ''statfs''\<rparr>], EssentialEvent = False, Sets = [''syscalls'', ''fs'', ''fs_info'']\<rparr>),
     (K ''FstatfsEventID'', \<lparr>ID = K ''FstatfsEventID'', ID32Bit = K ''sys32fstatfs'', Name = ''fstatfs'', Probes = [\<lparr>event = ''fstatfs'', attach = sysCall, fn = ''fstatfs''\<rparr>], EssentialEvent = False, Sets = [''syscalls'', ''fs'', ''fs_info'']\<rparr>),
     (K ''SysfsEventID'', \<lparr>ID = K ''SysfsEventID'', ID32Bit = K ''sys32sysfs'', Name = ''sysfs'', Probes = [\<lparr>event = ''sysfs'', attach = sysCall, fn = ''sysfs''\<rparr>], EssentialEvent = False, Sets = [''syscalls'', ''fs'', ''fs_info'']\<rparr>),
     (K ''GetpriorityEventID'', \<lparr>ID = K ''GetpriorityEventID'', ID32Bit = K ''sys32getpriority'', Name = ''getpriority'', Probes = [\<lparr>event = ''getpriority'', attach = sysCall, fn = ''getpriority''\<rparr>], EssentialEvent = False, Sets = [''syscalls'', ''proc'', ''proc_sched'']\<rparr>),
     (K ''SetpriorityEventID'', \<lparr>ID = K ''SetpriorityEventID'', ID32Bit = K ''sys32setpriority'', Name = ''setpriority'', Probes = [\<lparr>event = ''setpriority'', attach = sysCall, fn = ''setpriority''\<rparr>], EssentialEvent = False, Sets = [''syscalls'', ''proc'', ''proc_sched'']\<rparr>),
     (K ''SchedSetparamEventID'', \<lparr>ID = K ''SchedSetparamEventID'', ID32Bit = K ''sys32sched_setparam'', Name = ''sched_setparam'', Probes = [\<lparr>event = ''sched_setparam'', attach = sysCall, fn = ''sched_setparam''\<rparr>], EssentialEvent = False, Sets = [''syscalls'', ''proc'', ''proc_sched'']\<rparr>),
     (K ''SchedGetparamEventID'', \<lparr>ID = K ''SchedGetparamEventID'', ID32Bit = K ''sys32sched_getparam'', Name = ''sched_getparam'', Probes = [\<lparr>event = ''sched_getparam'', attach = sysCall, fn = ''sched_getparam''\<rparr>], EssentialEvent = False, Sets = [''syscalls'', ''proc'', ''proc_sched'']\<rparr>),
     (K ''SchedSetschedulerEventID'', \<lparr>ID = K ''SchedSetschedulerEventID'', ID32Bit = K ''sys32sched_setscheduler'', Name = ''sched_setscheduler'', Probes = [\<lparr>event = ''sched_setscheduler'', attach = sysCall, fn = ''sched_setscheduler''\<rparr>], EssentialEvent = False, Sets = [''syscalls'', ''proc'', ''proc_sched'']\<rparr>),
     (K ''SchedGetschedulerEventID'', \<lparr>ID = K ''SchedGetschedulerEventID'', ID32Bit = K ''sys32sched_getscheduler'', Name = ''sched_getscheduler'', Probes = [\<lparr>event = ''sched_getscheduler'', attach = sysCall, fn = ''sched_getscheduler''\<rparr>], EssentialEvent = False, Sets = [''syscalls'', ''proc'', ''proc_sched'']\<rparr>),
     (K ''SchedGetPriorityMaxEventID'', \<lparr>ID = K ''SchedGetPriorityMaxEventID'', ID32Bit = K ''sys32sched_get_priority_max'', Name = ''sched_get_priority_max'', Probes = [\<lparr>event = ''sched_get_priority_max'', attach = sysCall, fn = ''sched_get_priority_max''\<rparr>], EssentialEvent = False, Sets = [''syscalls'', ''proc'', ''proc_sched'']\<rparr>),
     (K ''SchedGetPriorityMinEventID'', \<lparr>ID = K ''SchedGetPriorityMinEventID'', ID32Bit = K ''sys32sched_get_priority_min'', Name = ''sched_get_priority_min'', Probes = [\<lparr>event = ''sched_get_priority_min'', attach = sysCall, fn = ''sched_get_priority_min''\<rparr>], EssentialEvent = False, Sets = [''syscalls'', ''proc'', ''proc_sched'']\<rparr>),
     (K ''SchedRrGetIntervalEventID'', \<lparr>ID = K ''SchedRrGetIntervalEventID'', ID32Bit = K ''sys32sched_rr_get_interval'', Name = ''sched_rr_get_interval'', Probes = [\<lparr>event = ''sched_rr_get_interval'', attach = sysCall, fn = ''sched_rr_get_interval''\<rparr>], EssentialEvent = False, Sets = [''syscalls'', ''proc'', ''proc_sched'']\<rparr>),
     (K ''MlockEventID'', \<lparr>ID = K ''MlockEventID'', ID32Bit = K ''sys32mlock'', Name = ''mlock'', Probes = [\<lparr>event = ''mlock'', attach = sysCall, fn = ''mlock''\<rparr>], EssentialEvent = False, Sets = [''syscalls'', ''proc'', ''proc_mem'']\<rparr>)
    ]"

definition syscallEvents_5 :: "constEnv \<Rightarrow> (int \<times> EventConfig) list" where
  "syscallEvents_5 K = [
     (K ''MunlockEventID'', \<lparr>ID = K ''MunlockEventID'', ID32Bit = K ''sys32munlock'', Name = ''munlock'', Probes = [\<lparr>event = ''munlock'', attach = sysCall, fn = ''munlock''\<rparr>], EssentialEvent = False, Sets = [''syscalls'', ''proc'', ''proc_mem'']\<rparr>),
     (K ''MlockallEventID'', \<lparr>ID = K ''MlockallEventID'', ID32Bit = K ''sys32mlockall'', Name = ''mlockall'', Probes = [\<lparr>event = ''mlockall'', attach = sysCall, fn = ''mlockall''\<rparr>], EssentialEvent = False, Sets = [''syscalls'', ''proc'', ''proc_mem'']\<rparr>),
     (K ''MunlockallEventID'', \<lparr>ID = K ''MunlockallEventID'', ID32Bit = K ''sys32munlockall'', Name = ''munlockall'', Probes = [\<lparr>event = ''munlockall'', attach = sysCall, fn = ''munlockall''\<rparr>], EssentialEvent = False, Sets = [''syscalls'', ''proc'', ''proc_mem'']\<rparr>),
     (K ''VhangupEventID'', \<lparr>ID = K ''VhangupEventID'', ID32Bit = K ''sys32vhangup'', Name = ''vhangup'', Probes = [\<lparr>event = ''vhangup'', attach = sysCall, fn = ''vhangup''\<rparr>], EssentialEvent = False, Sets = [''syscalls'', ''system'']\<rparr>),
     (K ''ModifyLdtEventID'', \<lparr>ID = K ''ModifyLdtEventID'', ID32Bit = K ''sys32modify_ldt'', Name = ''modify_ldt'', Probes = [\<lparr>event = ''modify_ldt'', attach = sysCall, fn = ''modify_ldt''\<rparr>], EssentialEvent = False, Sets = [''syscalls'', ''proc'', ''proc_mem'']\<rparr>),
     (K ''PivotRootEventID'', \<lparr>ID = K ''PivotRootEventID'', ID32Bit = K ''sys32pivot_root'', Name = ''pivot_root'', Probes = [\<lparr>event = ''pivot_root'', attach = sysCall, fn = ''pivot_root''\<rparr>], EssentialEvent = False, Sets = [''syscalls'', ''fs'']\<rparr>),
     (K ''SysctlEventID'', \<lparr>ID = K ''SysctlEventID'', ID32Bit = K ''sys32undefined'', Name = ''sysctl'', Probes = [\<lparr>event = ''sysctl'', attach = sysCall, fn = ''sysctl''\<rparr>], EssentialEvent = False, Sets = [''syscalls'', ''system'']\<rparr>),
     (K ''PrctlEventID'', \<lparr>ID = K ''PrctlEventID'', ID32Bit = K ''sys32prctl'', Name = ''prctl'', Probes = [\<lparr>event = ''prctl'', attach = sysCall, fn = ''prctl''\<rparr>], EssentialEvent = False, Sets = [''default'', ''syscalls'', ''proc'']\<rparr>),
     (K ''ArchPrctlEventID'', \<lparr>ID = K ''ArchPrctlEventID'', ID32Bit = K ''sys32arch_prctl'', Name = ''arch_prctl'', Probes = [\<lparr>event = ''arch_prctl'', attach = sysCall, fn = ''arch_prctl''\<rparr>], EssentialEvent = False, Sets = [''syscalls'', ''proc'']\<rparr>),
     (K ''AdjtimexEventID'', \<lparr>ID = K ''AdjtimexEventID'', ID32Bit = K ''sys32adjtimex'', Name = ''adjtimex'', Probes = [\<lparr>event = ''adjtimex'', attach = sysCall, fn = ''adjtimex''\<rparr>], EssentialEvent = False, Sets = [''syscalls'', ''time'', ''time_clock'']\<rparr>),
     (K ''SetrlimitEventID'', \<lparr>ID = K ''SetrlimitEventID'', ID32Bit = K ''sys32setrlimit'', Name = ''setrlimit'', Probes = [\<lparr>event = ''setrlimit'', attach = sysCall, fn = ''setrlimit''\<rparr>], EssentialEvent = False, Sets = [''syscalls'', ''proc'']\<rparr>),
     (K ''ChrootEventID'', \<lparr>ID = K ''ChrootEventID'', ID32Bit = K ''sys32chroot'', Name = ''chroot'', Probes = [\<lparr>event = ''chroot'', attach = sysCall, fn = ''chroot''\<rparr>], EssentialEvent = False, Sets = [''syscalls'', ''fs'', ''fs_dir_ops'']\<rparr>),
     (K ''SyncEventID'', \<lparr>ID = K ''SyncEventID'', ID32Bit = K ''sys32sync'', Name = ''sync'', Probes = [\<lparr>event = ''sync'', attach = sysCall, fn = ''sync''\<rparr>], EssentialEvent = False, Sets = [''syscalls'', ''fs'', ''fs_sync'']\<rparr>),
     (K ''AcctEventID'', \<lparr>ID = K ''AcctEventID'', ID32Bit = K ''sys32acct'', Name = ''acct'', Probes = [\<lparr>event = ''acct'', attach = sysCall, fn = ''acct''\<rparr>], EssentialEvent = False, Sets = [''syscalls'', ''system'']\<rparr>),
     (K ''SettimeofdayEventID'', \<lparr>ID = K ''SettimeofdayEventID'', ID32Bit = K ''sys32settimeofday'', Name = ''settimeofday'', Probes = [\<lparr>event = ''settimeofday'', attach = sysCall, fn = ''settimeofday''\<rparr>], EssentialEvent = False, Sets = [''syscalls'', ''time'', ''time_tod'']\<rparr>),
     (K ''MountEventID'', \<lparr>ID = K ''MountEventID'', ID32Bit = K ''sys32mount'', Name = ''mount'', Probes = [\<lparr>event = ''mount'', attach = sysCall, fn = ''mount''\<rparr>], EssentialEvent = False, Sets = [''default'', ''syscalls'', ''fs'']\<rparr>),
     (K ''UmountEventID'', \<lparr>ID = K ''UmountEventID'', ID32Bit = K ''sys32umount'', Name = ''umount'', Probes = [\<lparr>event = ''umount'', attach = sysCall, fn = ''umount''\<rparr>], EssentialEvent = False, Sets = [''default'', ''syscalls'', ''fs'']\<rparr>),
     (K ''SwaponEventID'', \<lparr>ID = K ''SwaponEventID'', ID32Bit = K ''sys32swapon'', Name = ''swapon'', Probes = [\<lparr>event = ''swapon'', attach = sysCall, fn = ''swapon''\<rparr>], EssentialEvent = False, Sets = [''syscalls'', ''fs'']\<rparr>),
     (K ''SwapoffEventID'', \<lparr>ID = K ''SwapoffEventID'', ID32Bit = K ''sys32swapoff'', Name = ''swapoff'', Probes = [\<lparr>event = ''swapoff'', attach = sysCall, fn = ''swapoff''\<rparr>], EssentialEvent = False, Sets = [''syscalls'', ''fs'']\<rparr>),
     (K ''RebootEventID'', \<lparr>ID = K ''RebootEventID'', ID32Bit = K ''sys32reboot'', Name = ''reboot'', Probes = [\<lparr>event = ''reboot'', attach = sysCall, fn = ''reboot''\<rparr>], EssentialEvent = False, Sets = [''syscalls'', ''system'']\<rparr>),
     (K ''SethostnameEventID'', \<lparr>ID = K ''SethostnameEventID'', ID32Bit = K ''sys32sethostname'', Name = ''sethostname'', Probes = [\<lparr>event = ''sethostname'', attach = sysCall, fn = ''sethostname''\<rparr>], EssentialEvent = False, Sets = [''syscalls'', ''net'']\<rparr>),
     (K ''SetdomainnameEventID'', \<lparr>ID = K ''SetdomainnameEventID'', ID32Bit = K ''sys32setdomainname'', Name = ''setdomainname'', Probes = [\<lparr>event = ''setdomainname'', attach = sysCall, fn = ''setdomainname''\<rparr>], EssentialEvent = False, Sets = [''syscalls'', ''net'']\<rparr>),
     (K ''IoplEventID'', \<lparr>ID = K ''IoplEventID'', ID32Bit = K ''sys32iopl'', Name = ''iopl'', Probes = [\<lparr>event = ''iopl'', attach = sysCall, fn = ''iopl''\<rparr>], EssentialEvent = False, Sets = [''syscalls'', ''system'']\<rparr>),
     (K ''IopermEventID'', \<lparr>ID = K ''IopermEventID'', ID32Bit = K ''sys32ioperm'', Name = ''ioperm'', Probes = [\<lparr>event = ''ioperm'', attach = sysCall, fn = ''ioperm''\<rparr>], EssentialEvent = False, Sets = [''syscalls'', ''system'']\<rparr>),
     (K ''CreateModuleEventID'', \<lparr>ID = K ''CreateModuleEventID'', ID32Bit = K ''sys32create_module'', Name = ''create_module'', Probes = [\<lparr>event = ''create_module'', attach = sysCall, fn = ''create_module''\<rparr>], EssentialEvent = False, Sets = [''syscalls'', ''system'', ''system_module'']\<rparr>),
     (K ''InitModuleEventID'', \<lparr>ID = K ''InitModuleEventID'', ID32Bit = K ''sys32init_module'', Name = ''init_module'', Probes = [\<lparr>event = ''init_module'', attach = sysCall, fn = ''init_module''\<rparr>], EssentialEvent = False, Sets = [''default'', ''syscalls'', ''system'', ''system_module'']\<rparr>),
     (K ''DeleteModuleEventID'', \<lparr>ID = K ''DeleteModuleEventID'', ID32Bit = K ''sys32delete_module'', Name = ''delete_module'', Probes = [\<lparr>event = ''delete_module'', attach = sysCall, fn = ''delete_module''\<rparr>], EssentialEvent = False, Sets = [''default'', ''syscalls'', ''system'', ''system_module'']\<rparr>),
     (K ''GetKernelSymsEventID'', \<lparr>ID = K ''GetKernelSymsEventID'', ID32Bit = K ''sys32get_kernel_syms'', Name = ''get_kernel_syms'', Probes = [\<lparr>event = ''get_kernel_syms'', attach = sysCall, fn = ''get_kernel_syms''\<rparr>], EssentialEvent = False, Sets = [''syscalls'', ''system'', ''system_module'']\<rparr>),
     (K ''QueryModuleEventID'', \<lparr>ID = K ''QueryModuleEventID'', ID32Bit = K ''sys32query_module'', Name = ''query_module'', Probes = [\<lparr>event = ''query_module'', attach = sysCall, fn = ''query_module''\<rparr>], EssentialEvent = False, Sets = [''syscalls'', ''system'', ''system_module'']\<rparr>),
     (K ''QuotactlEventID'', \<lparr>ID = K ''QuotactlEventID'', ID32Bit = K ''sys32quotactl'', Name = ''quotactl'', Probes = [\<lparr>event = ''quotactl'', attach = sysCall, fn = ''quotactl''\<rparr>], EssentialEvent = False, Sets = [''syscalls'', ''system'']\<rparr>)
    ]"

definition syscallEvents_6 :: "constEnv \<Rightarrow> (int \<times> EventConfig) list" where
  "syscallEvents_6 K = [
     (K ''NfsservctlEventID'', \<lparr>ID = K ''NfsservctlEventID'', ID32Bit = K ''sys32nfsservctl'', Name = ''nfsservctl'', Probes = [\<lparr>event = ''nfsservctl'', attach = sysCall, fn = ''nfsservctl''\<rparr>], EssentialEvent = False, Sets = [''syscalls'', ''fs'']\<rparr>),
     (K ''GetpmsgEventID'', \<lparr>ID = K ''GetpmsgEventID'', ID32Bit = K ''sys32getpmsg'', Name = ''getpmsg'', Probes = [\<lparr>event = ''getpmsg'', attach = sysCall, fn = ''getpmsg''\<rparr>], EssentialEvent = False, Sets = [''syscalls'']\<rparr>),
     (K ''PutpmsgEventID'', \<lparr>ID = K ''PutpmsgEventID'', ID32Bit = K ''sys32putpmsg'', Name = ''putpmsg'', Probes = [\<lparr>event = ''putpmsg'', attach = sysCall, fn = ''putpmsg''\<rparr>], EssentialEvent = False, Sets = [''syscalls'']\<rparr>),
     (K ''AfsEventID'', \<lparr>ID = K ''AfsEventID'', ID32Bit = K ''sys32undefined'', Name = ''afs'', Probes = [\<lparr>event = ''afs'', attach = sysCall, fn = ''afs''\<rparr>], EssentialEvent = False, Sets = [''syscalls'']\<rparr>),
     (K ''TuxcallEventID'', \<lparr>ID = K ''TuxcallEventID'', ID32Bit = K ''sys32undefined'', Name = ''tuxcall'', Probes = [\<lparr>event = ''tuxcall'', attach = sysCall, fn = ''tuxcall''\<rparr>], EssentialEvent = False, Sets = [''syscalls'']\<rparr>),
     (K ''SecurityEventID'', \<lparr>ID = K ''SecurityEventID'', ID32Bit = K ''sys32undefined'', Name = ''security'', Probes = [\<lparr>event = ''security'', attach = sysCall, fn = ''security''\<rparr>], EssentialEvent = False, Sets = [''syscalls'']\<rparr>),
     (K ''GettidEventID'', \<lparr>ID = K ''GettidEventID'', ID32Bit = K ''sys32gettid'', Name = ''gettid'', Probes = [\<lparr>event = ''gettid'', attach = sysCall, fn = ''gettid''\<rparr>], EssentialEvent = False, Sets = [''syscalls'', ''proc'', ''proc_ids'']\<rparr>),
     (K ''ReadaheadEventID'', \<lparr>ID = K ''ReadaheadEventID'', ID32Bit = K ''sys32readahead'', Name = ''readahead'', Probes = [\<lparr>event = ''readahead'', attach = sysCall, fn = ''readahead''\<rparr>], EssentialEvent = False, Sets = [''syscalls'', ''fs'']\<rparr>),
     (K ''SetxattrEventID'', \<lparr>ID = K ''SetxattrEventID'', ID32Bit = K ''sys32setxattr'', Name = ''setxattr'', Probes = [\<lparr>event = ''setxattr'', attach = sysCall, fn = ''setxattr''\<rparr>], EssentialEvent = False, Sets = [''syscalls'', ''fs'', ''fs_file_attr'']\<rparr>),
     (K ''LsetxattrEventID'', \<lparr>ID = K ''LsetxattrEventID'', ID32Bit = K ''sys32lsetxattr'', Name = ''lsetxattr'', Probes = [\<lparr>event = ''lsetxattr'', attach = sysCall, fn = ''lsetxattr''\<rparr>], EssentialEvent = False, Sets = [''syscalls'', ''fs'', ''fs_file_attr'']\<rparr>),
     (K ''FsetxattrEventID'', \<lparr>ID = K ''FsetxattrEventID'', ID32Bit = K ''sys32fsetxattr'', Name = ''fsetxattr'', Probes = [\<lparr>event = ''fsetxattr'', attach = sysCall, fn = ''fsetxattr''\<rparr>], EssentialEvent = False, Sets = [''syscalls'', ''fs'', ''fs_file_attr'']\<rparr>),
     (K ''GetxattrEventID'', \<lparr>ID = K ''GetxattrEventID'', ID32Bit = K ''sys32getxattr'', Name = ''getxattr'', Probes = [\<lparr>event = ''getxattr'', attach = sysCall, fn = ''getxattr''\<rparr>], EssentialEvent = False, Sets = [''syscalls'', ''fs'', ''fs_file_attr'']\<rparr>),
     (K ''LgetxattrEventID'', \<lparr>ID = K ''LgetxattrEventID'', ID32Bit = K ''sys32lgetxattr'', Name = ''lgetxattr'', Probes = [\<lparr>event = ''lgetxattr'', attach = sysCall, fn = ''lgetxattr''\<rparr>], EssentialEvent = False, Sets = [''syscalls'', ''fs'', ''fs_file_attr'']\<rparr>),
     (K ''FgetxattrEventID'', \<lparr>ID = K ''FgetxattrEventID'', ID32Bit = K ''sys32fgetxattr'', Name = ''fgetxattr'', Probes = [\<lparr>event = ''fgetxattr'', attach = sysCall, fn = ''fgetxattr''\<rparr>], EssentialEvent = False, Sets = [''syscalls'', ''fs'', ''fs_file_attr'']\<rparr>),
     (K ''ListxattrEventID'', \<lparr>ID = K ''ListxattrEventID'', ID32Bit = K ''sys32listxattr'', Name = ''listxattr'', Probes = [\<lparr>event = ''listxattr'', attach = sysCall, fn = ''listxattr''\<rparr>], EssentialEvent = False, Sets = [''syscalls'', ''fs'', ''fs_file_attr'']\<rparr>),
     (K ''LlistxattrEventID'', \<lparr>ID = K ''LlistxattrEventID'', ID32Bit = K ''sys32llistxattr'', Name = ''llistxattr'', Probes = [\<lparr>event = ''llistxattr'', attach = sysCall, fn = ''llistxattr''\<rparr>], EssentialEvent = False, Sets = [''syscalls'', ''fs'', ''fs_file_attr'']\<rparr>),
     (K ''FlistxattrEventID'', \<lparr>ID = K ''FlistxattrEventID'', ID32Bit = K ''sys32flistxattr'', Name = ''flistxattr'', Probes = [\<lparr>event = ''flistxattr'', attach = sysCall, fn = ''flistxattr''\<rparr>], EssentialEvent = False, Sets = [''syscalls'', ''fs'', ''fs_file_attr'']\<rparr>),
     (K ''RemovexattrEventID'', \<lparr>ID = K ''RemovexattrEventID'', ID32Bit = K ''sys32removexattr'', Name = ''removexattr'', Probes = [\<lparr>event = ''removexattr'', attach = sysCall, fn = ''removexattr''\<rparr>], EssentialEvent = False, Sets = [''syscalls'', ''fs'', ''fs_file_attr'']\<rparr>),
     (K ''LremovexattrEventID'', \<lparr>ID = K ''LremovexattrEventID'', ID32Bit = K ''sys32lremovexattr'', Name = ''lremovexattr'', Probes = [\<lparr>event = ''lremovexattr'', attach = sysCall, fn = ''lremovexattr''\<rparr>], EssentialEvent = False, Sets = [''syscalls'', ''fs'', ''fs_file_attr'']\<rparr>),
     (K ''FremovexattrEventID'', \<lparr>ID = K ''FremovexattrEventID'', ID32Bit = K ''sys32fremovexattr'', Name = ''fremovexattr'', Probes = [\<lparr>event = ''fremovexattr'', attach = sysCall, fn = ''fremovexattr''\<rparr>], EssentialEvent = False, Sets = [''syscalls'', ''fs'', ''fs_file_attr'']\<rparr>),
     (K ''TkillEventID'', \<lparr>ID = K ''TkillEventID'', ID32Bit = K ''sys32tkill'', Name = ''tkill'', Probes = [\<lparr>event = ''tkill'', attach = sysCall, fn = ''tkill''\<rparr>], EssentialEvent = False, Sets = [''syscalls'', ''signals'']\<rparr>),
     (K ''TimeEventID'', \<lparr>ID = K ''TimeEventID'', ID32Bit = K ''sys32time'', Name = ''time'', Probes = [\<lparr>event = ''time'', attach = sysCall, fn = ''time''\<rparr>], EssentialEvent = False, Sets = [''syscalls'', ''time'', ''time_tod'']\<rparr>),
     (K ''FutexEventID'', \<lparr>ID = K ''FutexEventID'', ID32Bit = K ''sys32futex'', Name = ''futex'', Probes = [\<lparr>event = ''futex'', attach = sysCall, fn = ''futex''\<rparr>], EssentialEvent = False, Sets = [''syscalls'', ''ipc'', ''ipc_futex'']\<rparr>),
     (K ''SchedSetaffinityEventID'', \<lparr>ID = K ''SchedSetaffinityEventID'', ID32Bit = K ''sys32sched_setaffinity'', Name = ''sched_setaffinity'', Probes = [\<lparr>event = ''sched_setaffinity'', attach = sysCall, fn = ''sched_setaffinity''\<rparr>], EssentialEvent = False, Sets = [''syscalls'', ''proc'', ''proc_sched'']\<rparr>),
     (K ''SchedGetaffinityEventID'', \<lparr>ID = K ''SchedGetaffinityEventID'', ID32Bit = K ''sys32sched_getaffinity'', Name = ''sched_getaffinity'', Probes = [\<lparr>event = ''sched_getaffinity'', attach = sysCall, fn = ''sched_getaffinity''\<rparr>], EssentialEvent = False, Sets = [''syscalls'', ''proc'', ''proc_sched'']\<rparr>),
     (K ''SetThreadAreaEventID'', \<lparr>ID = K ''SetThreadAreaEventID'', ID32Bit = K ''sys32set_thread_area'', Name = ''set_thread_area'', Probes = [\<lparr>event = ''set_thread_area'', attach = sysCall, fn = ''set_thread_area''\<rparr>], EssentialEvent = False, Sets = [''syscalls'', ''proc'']\<rparr>),
     (K ''IoSetupEventID'', \<lparr>ID = K ''IoSetupEventID'', ID32Bit = K ''sys32io_setup'', Name = ''io_setup'', Probes = [\<lparr>event = ''io_setup'', attach = sysCall, fn = ''io_setup''\<rparr>], EssentialEvent = False, Sets = [''syscalls'', ''fs'', ''fs_async_io'']\<rparr>),
     (K ''IoDestroyEventID'', \<lparr>ID = K ''IoDestroyEventID'', ID32Bit = K ''sys32io_destroy'', Name = ''io_destroy'', Probes = [\<lparr>event = ''io_destroy'', attach = sysCall, fn = ''io_destroy''\<rparr>], EssentialEvent = False, Sets = [''syscalls'', ''fs'', ''fs_async_io'']\<rparr>),
     (K ''IoGeteventsEventID'', \<lparr>ID = K ''IoGeteventsEventID'', ID32Bit = K ''sys32io_getevents'', Name = ''io_getevents'', Probes = [\<lparr>event = ''io_getevents'', attach = sysCall, fn = ''io_getevents''\<rparr>], EssentialEvent = False, Sets = [''syscalls'', ''fs'', ''fs_async_io'']\<rparr>),
     (K ''IoSubmitEventID'', \<lparr>ID = K ''IoSubmitEventID'', ID32Bit = K ''sys32io_submit'', Name = ''io_submit'', Probes = [\<lparr>event = ''io_submit'', attach = sysCall, fn = ''io_submit''\<rparr>], EssentialEvent = False, Sets = [''syscalls'', ''fs'', ''fs_async_io'']\<rparr>)
    ]"

definition syscallEvents_7 :: "constEnv \<Rightarrow> (int \<times> EventConfig) list" where
  "syscallEvents_7 K = [
     (K ''IoCancelEventID'', \<lparr>ID = K ''IoCancelEventID'', ID32Bit = K ''sys32io_cancel'', Name = ''io_cancel'', Probes = [\<lparr>event = ''io_cancel'', attach = sysCall, fn = ''io_cancel''\<rparr>], EssentialEvent = False, Sets = [''syscalls'', ''fs'', ''fs_async_io'']\<rparr>),
     (K ''GetThreadAreaEventID'', \<lparr>ID = K ''GetThreadAreaEventID'', ID32Bit = K ''sys32get_thread_area'', Name = ''get_thread_area'', Probes = [\<lparr>event = ''get_thread_area'', attach = sysCall, fn = ''get_thread_area''\<rparr>], EssentialEvent = False, Sets = [''syscalls'', ''proc'']\<rparr>),
     (K ''LookupDcookieEventID'', \<lparr>ID = K ''LookupDcookieEventID'', ID32Bit = K ''sys32lookup_dcookie'', Name = ''lookup_dcookie'', Probes = [\<lparr>event = ''lookup_dcookie'', attach = sysCall, fn = ''lookup_dcookie''\<rparr>], EssentialEvent = False, Sets = [''syscalls'', ''fs'', ''fs_dir_ops'']\<rparr>),
     (K ''EpollCreateEventID'', \<lparr>ID = K ''EpollCreateEventID'', ID32Bit = K ''sys32epoll_create'', Name = ''epoll_create'', Probes = [\<lparr>event = ''epoll_create'', attach = sysCall, fn = ''epoll_create''\<rparr>], EssentialEvent = False, Sets = [''syscalls'', ''fs'', ''fs_mux_io'']\<rparr>),
     (K ''EpollCtlOldEventID'', \<lparr>ID = K ''EpollCtlOldEventID'', ID32Bit = K ''sys32undefined'', Name = ''epoll_ctl_old'', Probes = [\<lparr>event = ''epoll_ctl_old'', attach = sysCall, fn = ''epoll_ctl_old''\<rparr>], EssentialEvent = False, Sets = [''syscalls'', ''fs'', ''fs_mux_io'']\<rparr>),
     (K ''EpollWaitOldEventID'', \<lparr>ID = K ''EpollWaitOldEventID'', ID32Bit = K ''sys32undefined'', Name = ''epoll_wait_old'', Probes = [\<lparr>event = ''epoll_wait_old'', attach = sysCall, fn = ''epoll_wait_old''\<rparr>], EssentialEvent = False, Sets = [''syscalls'', ''fs'', ''fs_mux_io'']\<rparr>),
     (K ''RemapFilePagesEventID'', \<lparr>ID = K ''RemapFilePagesEventID'', ID32Bit = K ''sys32remap_file_pages'', Name = ''remap_file_pages'', Probes = [\<lparr>event = ''remap_file_pages'', attach = sysCall, fn = ''remap_file_pages''\<rparr>], EssentialEvent = False, Sets = [''syscalls'']\<rparr>),
     (K ''Getdents64EventID'', \<lparr>ID = K ''Getdents64EventID'', ID32Bit = K ''sys32getdents64'', Name = ''getdents64'', Probes = [\<lparr>event = ''getdents64'', attach = sysCall, fn = ''getdents64''\<rparr>], EssentialEvent = False, Sets = [''default'', ''syscalls'', ''fs'', ''fs_dir_ops'']\<rparr>),
     (K ''SetTidAddressEventID'', \<lparr>ID = K ''SetTidAddressEventID'', ID32Bit = K ''sys32set_tid_address'', Name = ''set_tid_address'', Probes = [\<lparr>event = ''set_tid_address'', attach = sysCall, fn = ''set_tid_address''\<rparr>], EssentialEvent = False, Sets = [''syscalls'', ''proc'']\<rparr>),
     (K ''RestartSyscallEventID'', \<lparr>ID = K ''RestartSyscallEventID'', ID32Bit = K ''sys32restart_syscall'', Name = ''restart_syscall'', Probes = [\<lparr>event = ''restart_syscall'', attach = sysCall, fn = ''restart_syscall''\<rparr>], EssentialEvent = False, Sets = [''syscalls'', ''signals'']\<rparr>),
     (K ''SemtimedopEventID'', \<lparr>ID = K ''SemtimedopEventID'', ID32Bit = K ''sys32semtimedop_time64'', Name = ''semtimedop'', Probes = [\<lparr>event = ''semtimedop'', attach = sysCall, fn = ''semtimedop''\<rparr>], EssentialEvent = False, Sets = [''syscalls'', ''ipc'', ''ipc_sem'']\<rparr>),
     (K ''Fadvise64EventID'', \<lparr>ID = K ''Fadvise64EventID'', ID32Bit = K ''sys32fadvise64'', Name = ''fadvise64'', Probes = [\<lparr>event = ''fadvise64'', attach = sysCall, fn = ''fadvise64''\<rparr>], EssentialEvent = False, Sets = [''syscalls'', ''fs'']\<rparr>),
     (K ''TimerCreateEventID'', \<lparr>ID = K ''TimerCreateEventID'', ID32Bit = K ''sys32timer_create'', Name = ''timer_create'', Probes = [\<lparr>event = ''timer_create'', attach = sysCall, fn = ''timer_create''\<rparr>], EssentialEvent = False, Sets = [''syscalls'', ''time'', ''time_timer'']\<rparr>),
     (K ''TimerSettimeEventID'', \<lparr>ID = K ''TimerSettimeEventID'', ID32Bit = K ''sys32timer_settime'', Name = ''timer_settime'', Probes = [\<lparr>event = ''timer_settime'', attach = sysCall, fn = ''timer_settime''\<rparr>], EssentialEvent = False, Sets = [''syscalls'', ''time'', ''time_timer'']\<rparr>),
     (K ''TimerGettimeEventID'', \<lparr>ID = K ''TimerGettimeEventID'', ID32Bit = K ''sys32timer_gettime'', Name = ''timer_gettime'', Probes = [\<lparr>event = ''timer_gettime'', attach = sysCall, fn = ''timer_gettime''\<rparr>], EssentialEvent = False, Sets = [''syscalls'', ''time'', ''time_timer'']\<rparr>),
     (K ''TimerGetoverrunEventID'', \<lparr>ID = K ''TimerGetoverrunEventID'', ID32Bit = K ''sys32timer_getoverrun'', Name = ''timer_getoverrun'', Probes = [\<lparr>event = ''timer_getoverrun'', attach = sysCall, fn = ''timer_getoverrun''\<rparr>], EssentialEvent = False, Sets = [''syscalls'', ''time'', ''time_timer'']\<rparr>),
     (K ''TimerDeleteEventID'', \<lparr>ID = K ''TimerDeleteEventID'', ID32Bit = K ''sys32timer_delete'', Name = ''timer_delete'', Probes = [\<lparr>event = ''timer_delete'', attach = sysCall, fn = ''timer_delete''\<rparr>], EssentialEvent = False, Sets = [''syscalls'', ''time'', ''time_timer'']\<rparr>),
     (K ''ClockSettimeEventID'', \<lparr>ID = K ''ClockSettimeEventID'', ID32Bit = K ''sys32clock_settime'', Name = ''clock_settime'', Probes = [\<lparr>event = ''clock_settime'', attach = sysCall, fn = ''clock_settime''\<rparr>], EssentialEvent = False, Sets = [''syscalls'', ''time'', ''time_clock'']\<rparr>),
     (K ''ClockGettimeEventID'', \<lparr>ID = K ''ClockGettimeEventID'', ID32Bit = K ''sys32clock_gettime'', Name = ''clock_gettime'', Probes = [\<lparr>event = ''clock_gettime'', attach = sysCall, fn = ''clock_gettime''\<rparr>], EssentialEvent = False, Sets = [''syscalls'', ''time'', ''time_clock'']\<rparr>),
     (K ''ClockGetresEventID'', \<lparr>ID = K ''ClockGetresEventID'', ID32Bit = K ''sys32clock_getres'', Name = ''clock_getres'', Probes = [\<lparr>event = ''clock_getres'', attach = sysCall, fn = ''clock_getres''\<rparr>], EssentialEvent = False, Sets = [''syscalls'', ''time'', ''time_clock'']\<rparr>),
     (K ''ClockNanosleepEventID'', \<lparr>ID = K ''ClockNanosleepEventID'', ID32Bit = K ''sys32clock_nanosleep'', Name = ''clock_nanosleep'', Probes = [\<lparr>event = ''clock_nanosleep'', attach = sysCall, fn = ''clock_nanosleep''\<rparr>], EssentialEvent = False, Sets = [''syscalls'', ''time'', ''time_clock'']\<rparr>),
     (K ''ExitGroupEventID'', \<lparr>ID = K ''ExitGroupEventID'', ID32Bit = K ''sys32exit_group'', Name = ''exit_group'', Probes = [\<lparr>event = ''exit_group'', attach = sysCall, fn = ''exit_group''\<rparr>], EssentialEvent = False, Sets = [''syscalls'', ''proc'', ''proc_life'']\<rparr>),
     (K ''EpollWaitEventID'', \<lparr>ID = K ''EpollWaitEventID'', ID32Bit = K ''sys32epoll_wait'', Name = ''epoll_wait'', Probes = [\<lparr>event = ''epoll_wait'', attach = sysCall, fn = ''epoll_wait''\<rparr>], EssentialEvent = False, Sets = [''syscalls'', ''fs'', ''fs_mux_io'']\<rparr>),
     (K ''EpollCtlEventID'', \<lparr>ID = K ''EpollCtlEventID'', ID32Bit = K ''sys32epoll_ctl'', Name = ''epoll_ctl'', Probes = [\<lparr>event = ''epoll_ctl'', attach = sysCall, fn = ''epoll_ctl''\<rparr>], EssentialEvent = False, Sets = [''syscalls'', ''fs'', ''fs_mux_io'']\<rparr>),
     (K ''TgkillEventID'', \<lparr>ID = K ''TgkillEventID'', ID32Bit = K ''sys32tgkill'', Name = ''tgkill'', Probes = [\<lparr>event = ''tgkill'', attach = sysCall, fn = ''tgkill''\<rparr>], EssentialEvent = False, Sets = [''syscalls'', ''signals'']\<rparr>),
     (K ''UtimesEventID'', \<lparr>ID = K ''UtimesEventID'', ID32Bit = K ''sys32utimes'', Name = ''utimes'', Probes = [\<lparr>event = ''utimes'', attach = sysCall, fn = ''utimes''\<rparr>], EssentialEvent = False, Sets = [''syscalls'', ''fs'', ''fs_file_attr'']\<rparr>),
     (K ''VserverEventID'', \<lparr>ID = K ''VserverEventID'', ID32Bit = K ''sys32vserver'', Name = ''vserver'', Probes = [\<lparr>event = ''vserver'', attach = sysCall, fn = ''vserver''\<rparr>], EssentialEvent = False, Sets = [''syscalls'']\<rparr>),
     (K ''MbindEventID'', \<lparr>ID = K ''MbindEventID'', ID32Bit = K ''sys32mbind'', Name = ''mbind'', Probes = [\<lparr>event = ''mbind'', attach = sysCall, fn = ''mbind''\<rparr>], EssentialEvent = False, Sets = [''syscalls'', ''system'', ''system_numa'']\<rparr>),
     (K ''SetMempolicyEventID'', \<lparr>ID = K ''SetMempolicyEventID'', ID32Bit = K ''sys32set_mempolicy'', Name = ''set_mempolicy'', Probes = [\<lparr>event = ''set_mempolicy'', attach = sysCall, fn = ''set_mempolicy''\<rparr>], EssentialEvent = False, Sets = [''syscalls'', ''system'', ''system_numa'']\<rparr>),
     (K ''GetMempolicyEventID'', \<lparr>ID = K ''GetMempolicyEventID'', ID32Bit = K ''sys32get_mempolicy'', Name = ''get_mempolicy'', Probes = [\<lparr>event = ''get_mempolicy'', attach = sysCall, fn = ''get_mempolicy''\<rparr>], EssentialEvent = False, Sets = [''syscalls'', ''system'', ''system_numa'']\<rparr>)
    ]"

definition syscallEvents_8 :: "constEnv \<Rightarrow> (int \<times> EventConfig) list" where
  "syscallEvents_8 K = [
     (K ''MqOpenEventID'', \<lparr>ID = K ''MqOpenEventID'', ID32Bit = K ''sys32mq_open'', Name = ''mq_open'', Probes = [\<lparr>event = ''mq_open'', attach = sysCall, fn = ''mq_open''\<rparr>], EssentialEvent = False, Sets = [''syscalls'', ''ipc'', ''ipc_msgq'']\<rparr>),
     (K ''MqUnlinkEventID'', \<lparr>ID = K ''MqUnlinkEventID'', ID32Bit = K ''sys32mq_unlink'', Name = ''mq_unlink'', Probes = [\<lparr>event = ''mq_unlink'', attach = sysCall, fn = ''mq_unlink''\<rparr>], EssentialEvent = False, Sets = [''syscalls'', ''ipc'', ''ipc_msgq'']\<rparr>),
     (K ''MqTimedsendEventID'', \<lparr>ID = K ''MqTimedsendEventID'', ID32Bit = K ''sys32mq_timedsend'', Name = ''mq_timedsend'', Probes = [\<lparr>event = ''mq_timedsend'', attach = sysCall, fn = ''mq_timedsend''\<rparr>], EssentialEvent = False, Sets = [''syscalls'', ''ipc'', ''ipc_msgq'']\<rparr>),
     (K ''MqTimedreceiveEventID'', \<lparr>ID = K ''MqTimedreceiveEventID'', ID32Bit = K ''sys32mq_timedreceive'', Name = ''mq_timedreceive'', Probes = [\<lparr>event = ''mq_timedreceive'', attach = sysCall, fn = ''mq_timedreceive''\<rparr>], EssentialEvent = False, Sets = [''syscalls'', ''ipc'', ''ipc_msgq'']\<rparr>),
     (K ''MqNotifyEventID'', \<lparr>ID = K ''MqNotifyEventID'', ID32Bit = K ''sys32mq_notify'', Name = ''mq_notify'', Probes = [\<lparr>event = ''mq_notify'', attach = sysCall, fn = ''mq_notify''\<rparr>], EssentialEvent = False, Sets = [''syscalls'', ''ipc'', ''ipc_msgq'']\<rparr>),
     (K ''MqGetsetattrEventID'', \<lparr>ID = K ''MqGetsetattrEventID'', ID32Bit = K ''sys32mq_getsetattr'', Name = ''mq_getsetattr'', Probes = [\<lparr>event = ''mq_getsetattr'', attach = sysCall, fn = ''mq_getsetattr''\<rparr>], EssentialEvent = False, Sets = [''syscalls'', ''ipc'', ''ipc_msgq'']\<rparr>),
     (K ''KexecLoadEventID'', \<lparr>ID = K ''KexecLoadEventID'', ID32Bit = K ''sys32kexec_load'', Name = ''kexec_load'', Probes = [\<lparr>event = ''kexec_load'', attach = sysCall, fn = ''kexec_load''\<rparr>], EssentialEvent = False, Sets = [''syscalls'', ''system'']\<rparr>),
     (K ''WaitidEventID'', \<lparr>ID = K ''WaitidEventID'', ID32Bit = K ''sys32waitid'', Name = ''waitid'', Probes = [\<lparr>event = ''waitid'', attach = sysCall, fn = ''waitid''\<rparr>], EssentialEvent = False, Sets = [''syscalls'', ''proc'', ''proc_life'']\<rparr>),
     (K ''AddKeyEventID'', \<lparr>ID = K ''AddKeyEventID'', ID32Bit = K ''sys32add_key'', Name = ''add_key'', Probes = [\<lparr>event = ''add_key'', attach = sysCall, fn = ''add_key''\<rparr>], EssentialEvent = False, Sets = [''syscalls'', ''system'', ''system_keys'']\<rparr>),
     (K ''RequestKeyEventID'', \<lparr>ID = K ''RequestKeyEventID'', ID32Bit = K ''sys32request_key'', Name = ''request_key'', Probes = [\<lparr>event = ''request_key'', attach = sysCall, fn = ''request_key''\<rparr>], EssentialEvent = False, Sets = [''syscalls'', ''system'', ''system_keys'']\<rparr>),
     (K ''KeyctlEventID'', \<lparr>ID = K ''KeyctlEventID'', ID32Bit = K ''sys32keyctl'', Name = ''keyctl'', Probes = [\<lparr>event = ''keyctl'', attach = sysCall, fn = ''keyctl''\<rparr>], EssentialEvent = False, Sets = [''syscalls'', ''system'', ''system_keys'']\<rparr>),
     (K ''IoprioSetEventID'', \<lparr>ID = K ''IoprioSetEventID'', ID32Bit = K ''sys32ioprio_set'', Name = ''ioprio_set'', Probes = [\<lparr>event = ''ioprio_set'', attach = sysCall, fn = ''ioprio_set''\<rparr>], EssentialEvent = False, Sets = [''syscalls'', ''proc'', ''proc_sched'']\<rparr>),
     (K ''IoprioGetEventID'', \<lparr>ID = K ''IoprioGetEventID'', ID32Bit = K ''sys32ioprio_get'', Name = ''ioprio_get'', Probes = [\<lparr>event = ''ioprio_get'', attach = sysCall, fn = ''ioprio_get''\<rparr>], EssentialEvent = False, Sets = [''syscalls'', ''proc'', ''proc_sched'']\<rparr>),
     (K ''InotifyInitEventID'', \<lparr>ID = K ''InotifyInitEventID'', ID32Bit = K ''sys32inotify_init'', Name = ''inotify_init'', Probes = [\<lparr>event = ''inotify_init'', attach = sysCall, fn = ''inotify_init''\<rparr>], EssentialEvent = False, Sets = [''syscalls'', ''fs'', ''fs_monitor'']\<rparr>),
     (K ''InotifyAddWatchEventID'', \<lparr>ID = K ''InotifyAddWatchEventID'', ID32Bit = K ''sys32inotify_add_watch'', Name = ''inotify_add_watch'', Probes = [\<lparr>event = ''inotify_add_watch'', attach = sysCall, fn = ''inotify_add_watch''\<rparr>], EssentialEvent = False, Sets = [''syscalls'', ''fs'', ''fs_monitor'']\<rparr>),
     (K ''InotifyRmWatchEventID'', \<lparr>ID = K ''InotifyRmWatchEventID'', ID32Bit = K ''sys32inotify_rm_watch'', Name = ''inotify_rm_watch'', Probes = [\<lparr>event = ''inotify_rm_watch'', attach = sysCall, fn = ''inotify_rm_watch''\<rparr>], EssentialEvent = False, Sets = [''syscalls'', ''fs'', ''fs_monitor'']\<rparr>),
     (K ''MigratePagesEventID'', \<lparr>ID = K ''MigratePagesEventID'', ID32Bit = K ''sys32migrate_pages'', Name = ''migrate_pages'', Probes = [\<lparr>event = ''migrate_pages'', attach = sysCall, fn = ''migrate_pages''\<rparr>], EssentialEvent = False, Sets = [''syscalls'', ''system'', ''system_numa'']\<rparr>),
     (K ''OpenatEventID'', \<lparr>ID = K ''OpenatEventID'', ID32Bit = K ''sys32openat'', Name = ''openat'', Probes = [\<lparr>event = ''openat'', attach = sysCall, fn = ''openat''\<rparr>], EssentialEvent = False, Sets = [''default'', ''syscalls'', ''fs'', ''fs_file_ops'']\<rparr>),
     (K ''MkdiratEventID'', \<lparr>ID = K ''MkdiratEventID'', ID32Bit = K ''sys32mkdirat'', Name = ''mkdirat'', Probes = [\<lparr>event = ''mkdirat'', attach = sysCall, fn = ''mkdirat''\<rparr>], EssentialEvent = False, Sets = [''syscalls'', ''fs'', ''fs_dir_ops'']\<rparr>),
     (K ''MknodatEventID'', \<lparr>ID = K ''MknodatEventID'', ID32Bit = K ''sys32mknodat'', Name = ''mknodat'', Probes = [\<lparr>event = ''mknodat'', attach = sysCall, fn = ''mknodat''\<rparr>], EssentialEvent = False, Sets = [''default'', ''syscalls'', ''fs'', ''fs_file_ops'']\<rparr>),
     (K ''FchownatEventID'', \<lparr>ID = K ''FchownatEventID'', ID32Bit = K ''sys32fchownat'', Name = ''fchownat'', Probes = [\<lparr>event = ''fchownat'', attach = sysCall, fn = ''fchownat''\<rparr>], EssentialEvent = False, Sets = [''default'', ''syscalls'', ''fs'', ''fs_file_attr'']\<rparr>),
     (K ''FutimesatEventID'', \<lparr>ID = K ''FutimesatEventID'', ID32Bit = K ''sys32futimesat'', Name = ''futimesat'', Probes = [\<lparr>event = ''futimesat'', attach = sysCall, fn = ''futimesat''\<rparr>], EssentialEvent = False, Sets = [''syscalls'', ''fs'', ''fs_file_attr'']\<rparr>),
     (K ''NewfstatatEventID'', \<lparr>ID = K ''NewfstatatEventID'', ID32Bit = K ''sys32fstatat64'', Name = ''newfstatat'', Probes = [\<lparr>event = ''newfstatat'', attach = sysCall, fn = ''newfstatat''\<rparr>], EssentialEvent = False, Sets = [''syscalls'', ''fs'', ''fs_file_attr'']\<rparr>),
     (K ''UnlinkatEventID'', \<lparr>ID = K ''UnlinkatEventID'', ID32Bit = K ''sys32unlinkat'', Name = ''unlinkat'', Probes = [\<lparr>event = ''unlinkat'', attach = sysCall, fn = ''unlinkat''\<rparr>], EssentialEvent = False, Sets = [''default'', ''syscalls'', ''fs'', ''fs_link_ops'']\<rparr>),
     (K ''RenameatEventID'', \<lparr>ID = K ''RenameatEventID'', ID32Bit = K ''sys32renameat'', Name = ''renameat'', Probes = [\<lparr>event = ''renameat'', attach = sysCall, fn = ''renameat''\<rparr>], EssentialEvent = False, Sets = [''syscalls'', ''fs'', ''fs_file_ops'']\<rparr>),
     (K ''LinkatEventID'', \<lparr>ID = K ''LinkatEventID'', ID32Bit = K ''sys32linkat'', Name = ''linkat'', Probes = [\<lparr>event = ''linkat'', attach = sysCall, fn = ''linkat''\<rparr>], EssentialEvent = False, Sets = [''syscalls'', ''fs'', ''fs_link_ops'']\<rparr>),
     (K ''SymlinkatEventID'', \<lparr>ID = K ''SymlinkatEventID'', ID32Bit = K ''sys32symlinkat'', Name = ''symlinkat'', Probes = [\<lparr>event = ''symlinkat'', attach = sysCall, fn = ''symlinkat''\<rparr>], EssentialEvent = False, Sets = [''default'', ''syscalls'', ''fs'', ''fs_link_ops'']\<rparr>),
     (K ''ReadlinkatEventID'', \<lparr>ID = K ''ReadlinkatEventID'', ID32Bit = K ''sys32readlinkat'', Name = ''readlinkat'', Probes = [\<lparr>event = ''readlinkat'', attach = sysCall, fn = ''readlinkat''\<rparr>], EssentialEvent = False, Sets = [''syscalls'', ''fs'', ''fs_link_ops'']\<rparr>),
     (K ''FchmodatEventID'', \<lparr>ID = K ''FchmodatEventID'', ID32Bit = K ''sys32fchmodat'', Name = ''fchmodat'', Probes = [\<lparr>event = ''fchmodat'', attach = sysCall, fn = ''fchmodat''\<rparr>], EssentialEvent = False, Sets = [''default'', ''syscalls'', ''fs'', ''fs_file_attr'']\<rparr>),
     (K ''FaccessatEventID'', \<lparr>ID = K ''FaccessatEventID'', ID32Bit = K ''sys32faccessat'', Name = ''faccessat'', Probes = [\<lparr>event = ''faccessat'', attach = sysCall, fn = ''faccessat''\<rparr>], EssentialEvent = False, Sets = [''default'', ''syscalls'', ''fs'', ''fs_file_attr'']\<rparr>)
    ]"

definition syscallEvents_9 :: "constEnv \<Rightarrow> (int \<times> EventConfig) list" where
  "syscallEvents_9 K = [
     (K ''Pselect6EventID'', \<lparr>ID = K ''Pselect6EventID'', ID32Bit = K ''sys32pselect6'', Name = ''pselect6'', Probes = [\<lparr>event = ''pselect6'', attach = sysCall, fn = ''pselect6''\<rparr>], EssentialEvent = False, Sets = [''syscalls'', ''fs'', ''fs_mux_io'']\<rparr>),
     (K ''PpollEventID'', \<lparr>ID = K ''PpollEventID'', ID32Bit = K ''sys32ppoll'', Name = ''ppoll'', Probes = [\<lparr>event = ''ppoll'', attach = sysCall, fn = ''ppoll''\<rparr>], EssentialEvent = False, Sets = [''syscalls'', ''fs'', ''fs_mux_io'']\<rparr>),
     (K ''UnshareEventID'', \<lparr>ID = K ''UnshareEventID'', ID32Bit = K ''sys32unshare'', Name = ''unshare'', Probes = [\<lparr>event = ''unshare'', attach = sysCall, fn = ''unshare''\<rparr>], EssentialEvent = False, Sets = [''syscalls'', ''proc'']\<rparr>),
     (K ''SetRobustListEventID'', \<lparr>ID = K ''SetRobustListEventID'', ID32Bit = K ''sys32set_robust_list'', Name = ''set_robust_list'', Probes = [\<lparr>event = ''set_robust_list'', attach = sysCall, fn = ''set_robust_list''\<rparr>], EssentialEvent = False, Sets = [''syscalls'', ''ipc'', ''ipc_futex'']\<rparr>),
     (K ''GetRobustListEventID'', \<lparr>ID = K ''GetRobustListEventID'', ID32Bit = K ''sys32get_robust_list'', Name = ''get_robust_list'', Probes = [\<lparr>event = ''get_robust_list'', attach = sysCall, fn = ''get_robust_list''\<rparr>], EssentialEvent = False, Sets = [''syscalls'', ''ipc'', ''ipc_futex'']\<rparr>),
     (K ''SpliceEventID'', \<lparr>ID = K ''SpliceEventID'', ID32Bit = K ''sys32splice'', Name = ''splice'', Probes = [\<lparr>event = ''splice'', attach = sysCall, fn = ''splice''\<rparr>], EssentialEvent = False, Sets = [''syscalls'', ''ipc'', ''ipc_pipe'']\<rparr>),
     (K ''TeeEventID'', \<lparr>ID = K ''TeeEventID'', ID32Bit = K ''sys32tee'', Name = ''tee'', Probes = [\<lparr>event = ''tee'', attach = sysCall, fn = ''tee''\<rparr>], EssentialEvent = False, Sets = [''syscalls'', ''ipc'', ''ipc_pipe'']\<rparr>),
     (K ''SyncFileRangeEventID'', \<lparr>ID = K ''SyncFileRangeEventID'', ID32Bit = K ''sys32sync_file_range'', Name = ''sync_file_range'', Probes = [\<lparr>event = ''sync_file_range'', attach = sysCall, fn = ''sync_file_range''\<rparr>], EssentialEvent = False, Sets = [''syscalls'', ''fs'', ''fs_sync'']\<rparr>),
     (K ''VmspliceEventID'', \<lparr>ID = K ''VmspliceEventID'', ID32Bit = K ''sys32vmsplice'', Name = ''vmsplice'', Probes = [\<lparr>event = ''vmsplice'', attach = sysCall, fn = ''vmsplice''\<rparr>], EssentialEvent = False, Sets = [''syscalls'', ''ipc'', ''ipc_pipe'']\<rparr>),
     (K ''MovePagesEventID'', \<lparr>ID = K ''MovePagesEventID'', ID32Bit = K ''sys32move_pages'', Name = ''move_pages'', Probes = [\<lparr>event = ''move_pages'', attach = sysCall, fn = ''move_pages''\<rparr>], EssentialEvent = False, Sets = [''syscalls'', ''system'', ''system_numa'']\<rparr>),
     (K ''UtimensatEventID'', \<lparr>ID = K ''UtimensatEventID'', ID32Bit = K ''sys32utimensat'', Name = ''utimensat'', Probes = [\<lparr>event = ''utimensat'', attach = sysCall, fn = ''utimensat''\<rparr>], EssentialEvent = False, Sets = [''syscalls'', ''fs'', ''fs_file_attr'']\<rparr>),
     (K ''EpollPwaitEventID'', \<lparr>ID = K ''EpollPwaitEventID'', ID32Bit = K ''sys32epoll_pwait'', Name = ''epoll_pwait'', Probes = [\<lparr>event = ''epoll_pwait'', attach = sysCall, fn = ''epoll_pwait''\<rparr>], EssentialEvent = False, Sets = [''syscalls'', ''fs'', ''fs_mux_io'']\<rparr>),
     (K ''SignalfdEventID'', \<lparr>ID = K ''SignalfdEventID'', ID32Bit = K ''sys32signalfd'', Name = ''signalfd'', Probes = [\<lparr>event = ''signalfd'', attach = sysCall, fn = ''signalfd''\<rparr>], EssentialEvent = False, Sets = [''syscalls'', ''signals'']\<rparr>),
     (K ''TimerfdCreateEventID'', \<lparr>ID = K ''TimerfdCreateEventID'', ID32Bit = K ''sys32timerfd_create'', Name = ''timerfd_create'', Probes = [\<lparr>event = ''timerfd_create'', attach = sysCall, fn = ''timerfd_create''\<rparr>], EssentialEvent = False, Sets = [''syscalls'', ''time'', ''time_timer'']\<rparr>),
     (K ''EventfdEventID'', \<lparr>ID = K ''EventfdEventID'', ID32Bit = K ''sys32eventfd'', Name = ''eventfd'', Probes = [\<lparr>event = ''eventfd'', attach = sysCall, fn = ''eventfd''\<rparr>], EssentialEvent = False, Sets = [''syscalls'', ''signals'']\<rparr>),
     (K ''FallocateEventID'', \<lparr>ID = K ''FallocateEventID'', ID32Bit = K ''sys32fallocate'', Name = ''fallocate'', Probes = [\<lparr>event = ''fallocate'', attach = sysCall, fn = ''fallocate''\<rparr>], EssentialEvent = False, Sets = [''syscalls'', ''fs'', ''fs_file_ops'']\<rparr>),
     (K ''TimerfdSettimeEventID'', \<lparr>ID = K ''TimerfdSettimeEventID'', ID32Bit = K ''sys32timerfd_settime'', Name = ''timerfd_settime'', Probes = [\<lparr>event = ''timerfd_settime'', attach = sysCall, fn = ''timerfd_settime''\<rparr>], EssentialEvent = False, Sets = [''syscalls'', ''time'', ''time_timer'']\<rparr>),
     (K ''TimerfdGettimeEventID'', \<lparr>ID = K ''TimerfdGettimeEventID'', ID32Bit = K ''sys32timerfd_gettime'', Name = ''timerfd_gettime'', Probes = [\<lparr>event = ''timerfd_gettime'', attach = sysCall, fn = ''timerfd_gettime''\<rparr>], EssentialEvent = False, Sets = [''syscalls'', ''time'', ''time_timer'']\<rparr>),
     (K ''Accept4EventID'', \<lparr>ID = K ''Accept4EventID'', ID32Bit = K ''sys32accept4'', Name = ''accept4'', Probes = [\<lparr>event = ''accept4'', attach = sysCall, fn = ''accept4''\<rparr>], EssentialEvent = False, Sets = [''default'', ''syscalls'', ''net'', ''net_sock'']\<rparr>),
     (K ''Signalfd4EventID'', \<lparr>ID = K ''Signalfd4EventID'', ID32Bit = K ''sys32signalfd4'', Name = ''signalfd4'', Probes = [\<lparr>event = ''signalfd4'', attach = sysCall, fn = ''signalfd4''\<rparr>], EssentialEvent = False, Sets = [''syscalls'', ''signals'']\<rparr>),
     (K ''Eventfd2EventID'', \<lparr>ID = K ''Eventfd2EventID'', ID32Bit = K ''sys32eventfd2'', Name = ''eventfd2'', Probes = [\<lparr>event = ''eventfd2'', attach = sysCall, fn = ''eventfd2''\<rparr>], EssentialEvent = False, Sets = [''syscalls'', ''signals'']\<rparr>),
     (K ''EpollCreate1EventID'', \<lparr>ID = K ''EpollCreate1EventID'', ID32Bit = K ''sys32epoll_create1'', Name = ''epoll_create1'', Probes = [\<lparr>event = ''epoll_create1'', attach = sysCall, fn = ''epoll_create1''\<rparr>], EssentialEvent = False, Sets = [''syscalls'', ''fs'', ''fs_mux_io'']\<rparr>),
     (K ''Dup3EventID'', \<lparr>ID = K ''Dup3EventID'', ID32Bit = K ''sys32dup3'', Name = ''dup3'', Probes = [\<lparr>event = ''dup3'', attach = sysCall, fn = ''dup3''\<rparr>], EssentialEvent = False, Sets = [''default'', ''syscalls'', ''fs'', ''fs_fd_ops'']\<rparr>),
     (K ''Pipe2EventID'', \<lparr>ID = K ''Pipe2EventID'', ID32Bit = K ''sys32pipe2'', Name = ''pipe2'', Probes = [\<lparr>event = ''pipe2'', attach = sysCall, fn = ''pipe2''\<rparr>], EssentialEvent = False, Sets = [''syscalls'', ''ipc'', ''ipc_pipe'']\<rparr>),
     (K ''InotifyInit1EventID'', \<lparr>ID = K ''InotifyInit1EventID'', ID32Bit = K ''sys32inotify_init1'', Name = ''inotify_init1'', Probes = [\<lparr>event = ''inotify_init1'', attach = sysCall, fn = ''inotify_init1''\<rparr>], EssentialEvent = False, Sets = [''syscalls'', ''fs'', ''fs_monitor'']\<rparr>),
     (K ''PreadvEventID'', \<lparr>ID = K ''PreadvEventID'', ID32Bit = K ''sys32preadv'', Name = ''preadv'', Probes = [\<lparr>event = ''preadv'', attach = sysCall, fn = ''preadv''\<rparr>], EssentialEvent = False, Sets = [''syscalls'', ''fs'', ''fs_read_write'']\<rparr>),
     (K ''PwritevEventID'', \<lparr>ID = K ''PwritevEventID'', ID32Bit = K ''sys32pwritev'', Name = ''pwritev'', Probes = [\<lparr>event = ''pwritev'', attach = sysCall, fn = ''pwritev''\<rparr>], EssentialEvent = False, Sets = [''syscalls'', ''fs'', ''fs_read_write'']\<rparr>),
     (K ''RtTgsigqueueinfoEventID'', \<lparr>ID = K ''RtTgsigqueueinfoEventID'', ID32Bit = K ''sys32rt_tgsigqueueinfo'', Name = ''rt_tgsigqueueinfo'', Probes = [\<lparr>event = ''rt_tgsigqueueinfo'', attach = sysCall, fn = ''rt_tgsigqueueinfo''\<rparr>], EssentialEvent = False, Sets = [''syscalls'', ''signals'']\<rparr>),
     (K ''PerfEventOpenEventID'', \<lparr>ID = K ''PerfEventOpenEventID'', ID32Bit = K ''sys32perf_event_open'', Name = ''perf_event_open'', Probes = [\<lparr>event = ''perf_event_open'', attach = sysCall, fn = ''perf_event_open''\<rparr>], EssentialEvent = False, Sets = [''syscalls'', ''system'']\<rparr>),
     (K ''RecvmmsgEventID'', \<lparr>ID = K ''RecvmmsgEventID'', ID32Bit = K ''sys32recvmmsg'', Name = ''recvmmsg'', Probes = [\<lparr>event = ''recvmmsg'', attach = sysCall, fn = ''recvmmsg''\<rparr>], EssentialEvent = False, Sets = [''syscalls'', ''net'', ''net_snd_rcv'']\<rparr>)
    ]"

definition syscallEvents_10 :: "constEnv \<Rightarrow> (int \<times> EventConfig) list" where
  "syscallEvents_10 K = [
     (K ''FanotifyInitEventID'', \<lparr>ID = K ''FanotifyInitEventID'', ID32Bit = K ''sys32fanotify_init'', Name = ''fanotify_init'', Probes = [\<lparr>event = ''fanotify_init'', attach = sysCall, fn = ''fanotify_init''\<rparr>], EssentialEvent = False, Sets = [''syscalls'', ''fs'', ''fs_monitor'']\<rparr>),
     (K ''FanotifyMarkEventID'', \<lparr>ID = K ''FanotifyMarkEventID'', ID32Bit = K ''sys32fanotify_mark'', Name = ''fanotify_mark'', Probes = [\<lparr>event = ''fanotify_mark'', attach = sysCall, fn = ''fanotify_mark''\<rparr>], EssentialEvent = False, Sets = [''syscalls'', ''fs'', ''fs_monitor'']\<rparr>),
     (K ''Prlimit64EventID'', \<lparr>ID = K ''Prlimit64EventID'', ID32Bit = K ''sys32prlimit64'', Name = ''prlimit64'', Probes = [\<lparr>event = ''prlimit64'', attach = sysCall, fn = ''prlimit64''\<rparr>], EssentialEvent = False, Sets = [''syscalls'', ''proc'']\<rparr>),
     (K ''NameToHandleAtEventID'', \<lparr>ID = K ''NameToHandleAtEventID'', ID32Bit = K ''sys32name_to_handle_at'', Name = ''name_to_handle_at'', Probes = [\<lparr>event = ''name_to_handle_at'', attach = sysCall, fn = ''name_to_handle_at''\<rparr>], EssentialEvent = False, Sets = [''syscalls'', ''fs'', ''fs_file_ops'']\<rparr>),
     (K ''OpenByHandleAtEventID'', \<lparr>ID = K ''OpenByHandleAtEventID'', ID32Bit = K ''sys32open_by_handle_at'', Name = ''open_by_handle_at'', Probes = [\<lparr>event = ''open_by_handle_at'', attach = sysCall, fn = ''open_by_handle_at''\<rparr>], EssentialEvent = False, Sets = [''syscalls'', ''fs'', ''fs_file_ops'']\<rparr>),
     (K ''ClockAdjtimeEventID'', \<lparr>ID = K ''ClockAdjtimeEventID'', ID32Bit = K ''sys32clock_adjtime'', Name = ''clock_adjtime'', Probes = [\<lparr>event = ''clock_adjtime'', attach = sysCall, fn = ''clock_adjtime''\<rparr>], EssentialEvent = False, Sets = [''syscalls'', ''time'', ''time_clock'']\<rparr>),
     (K ''SyncfsEventID'', \<lparr>ID = K ''SyncfsEventID'', ID32Bit = K ''sys32syncfs'', Name = ''syncfs'', Probes = [\<lparr>event = ''syncfs'', attach = sysCall, fn = ''syncfs''\<rparr>], EssentialEvent = False, Sets = [''syscalls'', ''fs'', ''fs_sync'']\<rparr>),
     (K ''SendmmsgEventID'', \<lparr>ID = K ''SendmmsgEventID'', ID32Bit = K ''sys32sendmmsg'', Name = ''sendmmsg'', Probes = [\<lparr>event = ''sendmmsg'', attach = sysCall, fn = ''sendmmsg''\<rparr>], EssentialEvent = False, Sets = [''syscalls'', ''net'', ''net_snd_rcv'']\<rparr>),
     (K ''SetnsEventID'', \<lparr>ID = K ''SetnsEventID'', ID32Bit = K ''sys32setns'', Name = ''setns'', Probes = [\<lparr>event = ''setns'', attach = sysCall, fn = ''setns''\<rparr>], EssentialEvent = False, Sets = [''syscalls'', ''proc'']\<rparr>),
     (K ''GetcpuEventID'', \<lparr>ID = K ''GetcpuEventID'', ID32Bit = K ''sys32getcpu'', Name = ''getcpu'', Probes = [\<lparr>event = ''getcpu'', attach = sysCall, fn = ''getcpu''\<rparr>], EssentialEvent = False, Sets = [''syscalls'', ''system'', ''system_numa'']\<rparr>),
     (K ''ProcessVmReadvEventID'', \<lparr>ID = K ''ProcessVmReadvEventID'', ID32Bit = K ''sys32process_vm_readv'', Name = ''process_vm_readv'', Probes = [\<lparr>event = ''process_vm_readv'', attach = sysCall, fn = ''process_vm_readv''\<rparr>], EssentialEvent = False, Sets = [''default'', ''syscalls'', ''proc'']\<rparr>),
     (K ''ProcessVmWritevEventID'', \<lparr>ID = K ''ProcessVmWritevEventID'', ID32Bit = K ''sys32process_vm_writev'', Name = ''process_vm_writev'', Probes = [\<lparr>event = ''process_vm_writev'', attach = sysCall, fn = ''process_vm_writev''\<rparr>], EssentialEvent = False, Sets = [''default'', ''syscalls'', ''proc'']\<rparr>),
     (K ''KcmpEventID'', \<lparr>ID = K ''KcmpEventID'', ID32Bit = K ''sys32kcmp'', Name = ''kcmp'', Probes = [\<lparr>event = ''kcmp'', attach = sysCall, fn = ''kcmp''\<rparr>], EssentialEvent = False, Sets = [''syscalls'', ''proc'']\<rparr>),
     (K ''FinitModuleEventID'', \<lparr>ID = K ''FinitModuleEventID'', ID32Bit = K ''sys32finit_module'', Name = ''finit_module'', Probes = [\<lparr>event = ''finit_module'', attach = sysCall, fn = ''finit_module''\<rparr>], EssentialEvent = False, Sets = [''default'', ''syscalls'', ''system'', ''system_module'']\<rparr>),
     (K ''SchedSetattrEventID'', \<lparr>ID = K ''SchedSetattrEventID'', ID32Bit = K ''sys32sched_setattr'', Name = ''sched_setattr'', Probes = [\<lparr>event = ''sched_setattr'', attach = sysCall, fn = ''sched_setattr''\<rparr>], EssentialEvent = False, Sets = [''syscalls'', ''proc'', ''proc_sched'']\<rparr>),
     (K ''SchedGetattrEventID'', \<lparr>ID = K ''SchedGetattrEventID'', ID32Bit = K ''sys32sched_getattr'', Name = ''sched_getattr'', Probes = [\<lparr>event = ''sched_getattr'', attach = sysCall, fn = ''sched_getattr''\<rparr>], EssentialEvent = False, Sets = [''syscalls'', ''proc'', ''proc_sched'']\<rparr>),
     (K ''Renameat2EventID'', \<lparr>ID = K ''Renameat2EventID'', ID32Bit = K ''sys32renameat2'', Name = ''renameat2'', Probes = [\<lparr>event = ''renameat2'', attach = sysCall, fn = ''renameat2''\<rparr>], EssentialEvent = False, Sets = [''syscalls'', ''fs'', ''fs_file_ops'']\<rparr>),
     (K ''SeccompEventID'', \<lparr>ID = K ''SeccompEventID'', ID32Bit = K ''sys32seccomp'', Name = ''seccomp'', Probes = [\<lparr>event = ''seccomp'', attach = sysCall, fn = ''seccomp''\<rparr>], EssentialEvent = False, Sets = [''syscalls'', ''proc'']\<rparr>),
     (K ''GetrandomEventID'', \<lparr>ID = K ''GetrandomEventID'', ID32Bit = K ''sys32getrandom'', Name = ''getrandom'', Probes = [\<lparr>event = ''getrandom'', attach = sysCall, fn = ''getrandom''\<rparr>], EssentialEvent = False, Sets = [''syscalls'', ''fs'']\<rparr>),
     (K ''MemfdCreateEventID'', \<lparr>ID = K ''MemfdCreateEventID'', ID32Bit = K ''sys32memfd_create'', Name = ''memfd_create'', Probes = [\<lparr>event = ''memfd_create'', attach = sysCall, fn = ''memfd_create''\<rparr>], EssentialEvent = False, Sets = [''default'', ''syscalls'', ''fs'', ''fs_file_ops'']\<rparr>),
     (K ''KexecFileLoadEventID'', \<lparr>ID = K ''KexecFileLoadEventID'', ID32Bit = K ''sys32undefined'', Name = ''kexec_file_load'', Probes = [\<lparr>event = ''kexec_file_load'', attach = sysCall, fn = ''kexec_file_load''\<rparr>], EssentialEvent = False, Sets = [''syscalls'', ''system'']\<rparr>),
     (K ''BpfEventID'', \<lparr>ID = K ''BpfEventID'', ID32Bit = K ''sys32bpf'', Name = ''bpf'', Probes = [\<lparr>event = ''bpf'', attach = sysCall, fn = ''bpf''\<rparr>], EssentialEvent = False, Sets = [''default'', ''syscalls'', ''system'']\<rparr>),
     (K ''ExecveatEventID'', \<lparr>ID = K ''ExecveatEventID'', ID32Bit = K ''sys32execveat'', Name = ''execveat'', Probes = [\<lparr>event = ''execveat'', attach = sysCall, fn = ''execveat''\<rparr>], EssentialEvent = False, Sets = [''default'', ''syscalls'', ''proc'', ''proc_life'']\<rparr>),
     (K ''UserfaultfdEventID'', \<lparr>ID = K ''UserfaultfdEventID'', ID32Bit = K ''sys32userfaultfd'', Name = ''userfaultfd'', Probes = [\<lparr>event = ''userfaultfd'', attach = sysCall, fn = ''userfaultfd''\<rparr>], EssentialEvent = False, Sets = [''syscalls'', ''system'']\<rparr>),
     (K ''MembarrierEventID'', \<lparr>ID = K ''MembarrierEventID'', ID32Bit = K ''sys32membarrier'', Name = ''membarrier'', Probes = [\<lparr>event = ''membarrier'', attach = sysCall, fn = ''membarrier''\<rparr>], EssentialEvent = False, Sets = [''syscalls'', ''proc'', ''proc_mem'']\<rparr>),
     (K ''Mlock2EventID'', \<lparr>ID = K ''Mlock2EventID'', ID32Bit = K ''sys32mlock2'', Name = ''mlock2'', Probes = [\<lparr>event = ''mlock2'', attach = sysCall, fn = ''mlock2''\<rparr>], EssentialEvent = False, Sets = [''syscalls'', ''proc'', ''proc_mem'']\<rparr>),
     (K ''CopyFileRangeEventID'', \<lparr>ID = K ''CopyFileRangeEventID'', ID32Bit = K ''sys32copy_file_range'', Name = ''copy_file_range'', Probes = [\<lparr>event = ''copy_file_range'', attach = sysCall, fn = ''copy_file_range''\<rparr>], EssentialEvent = False, Sets = [''syscalls'', ''fs'', ''fs_read_write'']\<rparr>),
     (K ''Preadv2EventID'', \<lparr>ID = K ''Preadv2EventID'', ID32Bit = K ''sys32preadv2'', Name = ''preadv2'', Probes = [\<lparr>event = ''preadv2'', attach = sysCall, fn = ''preadv2''\<rparr>], EssentialEvent = False, Sets = [''syscalls'', ''fs'', ''fs_read_write'']\<rparr>),
     (K ''Pwritev2EventID'', \<lparr>ID = K ''Pwritev2EventID'', ID32Bit = K ''sys32pwritev2'', Name = ''pwritev2'', Probes = [\<lparr>event = ''pwritev2'', attach = sysCall, fn = ''pwritev2''\<rparr>], EssentialEvent = False, Sets = [''syscalls'', ''fs'', ''fs_read_write'']\<rparr>),
     (K ''PkeyMprotectEventID'', \<lparr>ID = K ''PkeyMprotectEventID'', ID32Bit = K ''sys32pkey_mprotect'', Name = ''pkey_mprotect'', Probes = [\<lparr>event = ''pkey_mprotect'', attach = sysCall, fn = ''pkey_mprotect''\<rparr>], EssentialEvent = False, Sets = [''default'', ''syscalls'', ''proc'', ''proc_mem'']\<rparr>)
    ]"

definition syscallEvents_11 :: "constEnv \<Rightarrow> (int \<times> EventConfig) list" where
  "syscallEvents_11 K = [
     (K ''PkeyAllocEventID'', \<lparr>ID = K ''PkeyAllocEventID'', ID32Bit = K ''sys32pkey_alloc'', Name = ''pkey_alloc'', Probes = [\<lparr>event = ''pkey_alloc'', attach = sysCall, fn = ''pkey_alloc''\<rparr>], EssentialEvent = False, Sets = [''syscalls'', ''proc'', ''proc_mem'']\<rparr>),
     (K ''PkeyFreeEventID'', \<lparr>ID = K ''PkeyFreeEventID'', ID32Bit = K ''sys32pkey_free'', Name = ''pkey_free'', Probes = [\<lparr>event = ''pkey_free'', attach = sysCall, fn = ''pkey_free''\<rparr>], EssentialEvent = False, Sets = [''syscalls'', ''proc'', ''proc_mem'']\<rparr>),
     (K ''StatxEventID'', \<lparr>ID = K ''StatxEventID'', ID32Bit = K ''sys32statx'', Name = ''statx'', Probes = [\<lparr>event = ''statx'', attach = sysCall, fn = ''statx''\<rparr>], EssentialEvent = False, Sets = [''syscalls'', ''fs'', ''fs_file_attr'']\<rparr>),
     (K ''IoPgeteventsEventID'', \<lparr>ID = K ''IoPgeteventsEventID'', ID32Bit = K ''sys32io_pgetevents'', Name = ''io_pgetevents'', Probes = [\<lparr>event = ''io_pgetevents'', attach = sysCall, fn = ''io_pgetevents''\<rparr>], EssentialEvent = False, Sets = [''syscalls'', ''fs'', ''fs_async_io'']\<rparr>),
     (K ''RseqEventID'', \<lparr>ID = K ''RseqEventID'', ID32Bit = K ''sys32rseq'', Name = ''rseq'', Probes = [\<lparr>event = ''rseq'', attach = sysCall, fn = ''rseq''\<rparr>], EssentialEvent = False, Sets = [''syscalls'']\<rparr>),
     (K ''PidfdSendSignalEventID'', \<lparr>ID = K ''PidfdSendSignalEventID'', ID32Bit = K ''sys32pidfd_send_signal'', Name = ''pidfd_send_signal'', Probes = [\<lparr>event = ''pidfd_send_signal'', attach = sysCall, fn = ''pidfd_send_signal''\<rparr>], EssentialEvent = False, Sets = [''syscalls'', ''signals'']\<rparr>),
     (K ''IoUringSetupEventID'', \<lparr>ID = K ''IoUringSetupEventID'', ID32Bit = K ''sys32io_uring_setup'', Name = ''io_uring_setup'', Probes = [\<lparr>event = ''io_uring_setup'', attach = sysCall, fn = ''io_uring_setup''\<rparr>], EssentialEvent = False, Sets = [''syscalls'']\<rparr>),
     (K ''IoUringEnterEventID'', \<lparr>ID = K ''IoUringEnterEventID'', ID32Bit = K ''sys32io_uring_enter'', Name = ''io_uring_enter'', Probes = [\<lparr>event = ''io_uring_enter'', attach = sysCall, fn = ''io_uring_enter''\<rparr>], EssentialEvent = False, Sets = [''syscalls'']\<rparr>),
     (K ''IoUringRegisterEventID'', \<lparr>ID = K ''IoUringRegisterEventID'', ID32Bit = K ''sys32io_uring_register'', Name = ''io_uring_register'', Probes = [\<lparr>event = ''io_uring_register'', attach = sysCall, fn = ''io_uring_register''\<rparr>], EssentialEvent = False, Sets = [''syscalls'']\<rparr>),
     (K ''OpenTreeEventID'', \<lparr>ID = K ''OpenTreeEventID'', ID32Bit = K ''sys32open_tree'', Name = ''open_tree'', Probes = [\<lparr>event = ''open_tree'', attach = sysCall, fn = ''open_tree''\<rparr>], EssentialEvent = False, Sets = [''syscalls'']\<rparr>),
     (K ''MoveMountEventID'', \<lparr>ID = K ''MoveMountEventID'', ID32Bit = K ''sys32move_mount'', Name = ''move_mount'', Probes = [\<lparr>event = ''move_mount'', attach = sysCall, fn = ''move_mount''\<rparr>], EssentialEvent = False, Sets = [''default'', ''syscalls'', ''fs'']\<rparr>),
     (K ''FsopenEventID'', \<lparr>ID = K ''FsopenEventID'', ID32Bit = K ''sys32fsopen'', Name = ''fsopen'', Probes = [\<lparr>event = ''fsopen'', attach = sysCall, fn = ''fsopen''\<rparr>], EssentialEvent = False, Sets = [''syscalls'', ''fs'']\<rparr>),
     (K ''FsconfigEventID'', \<lparr>ID = K ''FsconfigEventID'', ID32Bit = K ''sys32fsconfig'', Name = ''fsconfig'', Probes = [\<lparr>event = ''fsconfig'', attach = sysCall, fn = ''fsconfig''\<rparr>], EssentialEvent = False, Sets = [''syscalls'', ''fs'']\<rparr>),
     (K ''FsmountEventID'', \<lparr>ID = K ''FsmountEventID'', ID32Bit = K ''sys32fsmount'', Name = ''fsmount'', Probes = [\<lparr>event = ''fsmount'', attach = sysCall, fn = ''fsmount''\<rparr>], EssentialEvent = False, Sets = [''syscalls'', ''fs'']\<rparr>),
     (K ''FspickEventID'', \<lparr>ID = K ''FspickEventID'', ID32Bit = K ''sys32fspick'', Name = ''fspick'', Probes = [\<lparr>event = ''fspick'', attach = sysCall, fn = ''fspick''\<rparr>], EssentialEvent = False, Sets = [''syscalls'', ''fs'']\<rparr>),
     (K ''PidfdOpenEventID'', \<lparr>ID = K ''PidfdOpenEventID'', ID32Bit = K ''sys32pidfd_open'', Name = ''pidfd_open'', Probes = [\<lparr>event = ''pidfd_open'', attach = sysCall, fn = ''pidfd_open''\<rparr>], EssentialEvent = False, Sets = [''syscalls'']\<rparr>),
     (K ''Clone3EventID'', \<lparr>ID = K ''Clone3EventID'', ID32Bit = K ''sys32clone3'', Name = ''clone3'', Probes = [\<lparr>event = ''clone3'', attach = sysCall, fn = ''clone3''\<rparr>], EssentialEvent = False, Sets = [''default'', ''syscalls'', ''proc'', ''proc_life'']\<rparr>),
     (K ''CloseRangeEventID'', \<lparr>ID = K ''CloseRangeEventID'', ID32Bit = K ''sys32close_range'', Name = ''close_range'', Probes = [\<lparr>event = ''close_range'', attach = sysCall, fn = ''close_range''\<rparr>], EssentialEvent = False, Sets = [''default'', ''syscalls'', ''fs'', ''fs_file_ops'']\<rparr>),
     (K ''Openat2EventID'', \<lparr>ID = K ''Openat2EventID'', ID32Bit = K ''sys32openat2'', Name = ''openat2'', Probes = [\<lparr>event = ''openat2'', attach = sysCall, fn = ''openat2''\<rparr>], EssentialEvent = False, Sets = [''default'', ''syscalls'', ''fs'', ''fs_file_ops'']\<rparr>),
     (K ''PidfdGetfdEventID'', \<lparr>ID = K ''PidfdGetfdEventID'', ID32Bit = K ''sys32pidfd_getfd'', Name = ''pidfd_getfd'', Probes = [\<lparr>event = ''pidfd_getfd'', attach = sysCall, fn = ''pidfd_getfd''\<rparr>], EssentialEvent = False, Sets = [''syscalls'']\<rparr>),
     (K ''Faccessat2EventID'', \<lparr>ID = K ''Faccessat2EventID'', ID32Bit = K ''sys32faccessat2'', Name = ''faccessat2'', Probes = [\<lparr>event = ''faccessat2'', attach = sysCall, fn = ''faccessat2''\<rparr>], EssentialEvent = False, Sets = [''default'', ''syscalls'', ''fs'', ''fs_file_attr'']\<rparr>),
     (K ''ProcessMadviseEventID'', \<lparr>ID = K ''ProcessMadviseEventID'', ID32Bit = K ''sys32process_madvise'', Name = ''process_madvise'', Probes = [\<lparr>event = ''process_madvise'', attach = sysCall, fn = ''process_madvise''\<rparr>], EssentialEvent = False, Sets = [''syscalls'']\<rparr>),
     (K ''EpollPwait2EventID'', \<lparr>ID = K ''EpollPwait2EventID'', ID32Bit = K ''sys32epoll_pwait2'', Name = ''epoll_pwait2'', Probes = [\<lparr>event = ''epoll_pwait2'', attach = sysCall, fn = ''epoll_pwait2''\<rparr>], EssentialEvent = False, Sets = [''syscalls'', ''fs'', ''fs_mux_io'']\<rparr>)
    ]"

definition syscallEvents :: "constEnv \<Rightarrow> (int \<times> EventConfig) list" where
  "syscallEvents K =
     syscallEvents_0 K @
     syscallEvents_1 K @
     syscallEvents_2 K @
     syscallEvents_3 K @
     syscallEvents_4 K @
     syscallEvents_5 K @
     syscallEvents_6 K @
     syscallEvents_7 K @
     syscallEvents_8 K @
     syscallEvents_9 K @
     syscallEvents_10 K @
     syscallEvents_11 K"

definition nonSyscallEvents :: "constEnv \<Rightarrow> (int \<times> EventConfig) list" where
  "nonSyscallEvents K = [
     (SysEnterEventID, \<lparr>ID = SysEnterEventID, ID32Bit = K ''sys32undefined'', Name = ''sys_enter'', Probes = [\<lparr>event = ''raw_syscalls:sys_enter'', attach = rawTracepoint, fn = ''tracepoint__raw_syscalls__sys_enter''\<rparr>], EssentialEvent = True, Sets = []\<rparr>),
     (SysExitEventID, \<lparr>ID = SysExitEventID, ID32Bit = K ''sys32undefined'', Name = ''sys_exit'', Probes = [\<lparr>event = ''raw_syscalls:sys_exit'', attach = rawTracepoint, fn = ''tracepoint__raw_syscalls__sys_exit''\<rparr>], EssentialEvent = True, Sets = []\<rparr>),
     (SchedProcessForkEventID, \<lparr>ID = SchedProcessForkEventID, ID32Bit = K ''sys32undefined'', Name = ''sched_process_fork'', Probes = [\<lparr>event = ''sched:sched_process_fork'', attach = rawTracepoint, fn = ''tracepoint__sched__sched_process_fork''\<rparr>], EssentialEvent = True, Sets = []\<rparr>),
     (SchedProcessExecEventID, \<lparr>ID = SchedProcessExecEventID, ID32Bit = K ''sys32undefined'', Name = ''sched_process_exec'', Probes = [\<lparr>event = ''sched:sched_process_exec'', attach = rawTracepoint, fn = ''tracepoint__sched__sched_process_exec''\<rparr>], EssentialEvent = True, Sets = [''default'', ''proc'']\<rparr>),
     (SchedProcessExitEventID, \<lparr>ID = SchedProcessExitEventID, ID32Bit = K ''sys32undefined'', Name = ''sched_process_exit'', Probes = [\<lparr>event = ''sched:sched_process_exit'', attach = rawTracepoint, fn = ''tracepoint__sched__sched_process_exit''\<rparr>], EssentialEvent = True, Sets = [''default'', ''proc'', ''proc_life'']\<rparr>),
     (SchedSwitchEventID, \<lparr>ID = SchedSwitchEventID, ID32Bit = K ''sys32undefined'', Name = ''sched_switch'', Probes = [\<lparr>event = ''sched:sched_switch'', attach = rawTracepoint, fn = ''tracepoint__sched__sched_switch''\<rparr>], EssentialEvent = False, Sets = []\<rparr>),
     (DoExitEventID, \<lparr>ID = DoExitEventID, ID32Bit = K ''sys32undefined'', Name = ''do_exit'', Probes = [\<lparr>event = ''do_exit'', attach = kprobe, fn = ''trace_do_exit''\<rparr>], EssentialEvent = False, Sets = [''proc'', ''proc_life'']\<rparr>),
     (CapCapableEventID, \<lparr>ID = CapCapableEventID, ID32Bit = K ''sys32undefined'', Name = ''cap_capable'', Probes = [\<lparr>event = ''cap_capable'', attach = kprobe, fn = ''trace_cap_capable''\<rparr>], EssentialEvent = False, Sets = [''default'']\<rparr>),
     (VfsWriteEventID, \<lparr>ID = VfsWriteEventID, ID32Bit = K ''sys32undefined'', Name = ''vfs_write'', Probes = [\<lparr>event = ''vfs_write'', attach = kprobe, fn = ''trace_vfs_write''\<rparr>, \<lparr>event = ''vfs_write'', attach = kretprobe, fn = ''trace_ret_vfs_write''\<rparr>], EssentialEvent = False, Sets = []\<rparr>),
     (VfsWritevEventID, \<lparr>ID = VfsWritevEventID, ID32Bit = K ''sys32undefined'', Name = ''vfs_writev'', Probes = [\<lparr>event = ''vfs_writev'', attach = kprobe, fn = ''trace_vfs_writev''\<rparr>, \<lparr>event = ''vfs_writev'', attach = kretprobe, fn = ''trace_ret_vfs_writev''\<rparr>], EssentialEvent = False, Sets = []\<rparr>),
     (MemProtAlertEventID, \<lparr>ID = MemProtAlertEventID, ID32Bit = K ''sys32undefined'', Name = ''mem_prot_alert'', Probes = [\<lparr>event = ''security_mmap_addr'', attach = kprobe, fn = ''trace_mmap_alert''\<rparr>, \<lparr>event = ''security_file_mprotect'', attach = kprobe, fn = ''trace_mprotect_alert''\<rparr>], EssentialEvent = False, Sets = []\<rparr>),
     (CommitCredsEventID, \<lparr>ID = CommitCredsEventID, ID32Bit = K ''sys32undefined'', Name = ''commit_creds'', Probes = [\<lparr>event = ''commit_creds'', attach = kprobe, fn = ''trace_commit_creds''\<rparr>], EssentialEvent = False, Sets = []\<rparr>),
     (SwitchTaskNSEventID, \<lparr>ID = SwitchTaskNSEventID, ID32Bit = K ''sys32undefined'', Name = ''switch_task_ns'', Probes = [\<lparr>event = ''switch_task_namespaces'', attach = kprobe, fn = ''trace_switch_task_namespaces''\<rparr>], EssentialEvent = False, Sets = []\<rparr>),
     (MagicWriteEventID, \<lparr>ID = MagicWriteEventID, ID32Bit = K ''sys32undefined'', Name = ''magic_write'', Probes = [], EssentialEvent = False, Sets = []\<rparr>),
     (CgroupAttachTaskEventID, \<lparr>ID = CgroupAttachTaskEventID, ID32Bit = K ''sys32undefined'', Name = ''cgroup_attach_task'', Probes = [\<lparr>event = ''cgroup:cgroup_attach_task'', attach = rawTracepoint, fn = ''tracepoint__cgroup__cgroup_attach_task''\<rparr>], EssentialEvent = False, Sets = []\<rparr>),
     (CgroupMkdirEventID, \<lparr>ID = CgroupMkdirEventID, ID32Bit = K ''sys32undefined'', Name = ''cgroup_mkdir'', Probes = [\<lparr>event = ''cgroup:cgroup_mkdir'', attach = rawTracepoint, fn = ''tracepoint__cgroup__cgroup_mkdir''\<rparr>], EssentialEvent = True, Sets = []\<rparr>),
     (CgroupRmdirEventID, \<lparr>ID = CgroupRmdirEventID, ID32Bit = K ''sys32undefined'', Name = ''cgroup_rmdir'', Probes = [\<lparr>event = ''cgroup:cgroup_rmdir'', attach = rawTracepoint, fn = ''tracepoint__cgroup__cgroup_rmdir''\<rparr>], EssentialEvent = True, Sets = []\<rparr>),
     (SecurityBprmCheckEventID, \<lparr>ID = SecurityBprmCheckEventID, ID32Bit = K ''sys32undefined'', Name = ''security_bprm_check'', Probes = [\<lparr>event = ''security_bprm_check'', attach = kprobe, fn = ''trace_security_bprm_check''\<rparr>], EssentialEvent = False, Sets = [''default'', ''lsm_hooks'', ''proc'', ''proc_life'']\<rparr>),
     (SecurityFileOpenEventID, \<lparr>ID = SecurityFileOpenEventID, ID32Bit = K ''sys32undefined'', Name = ''security_file_open'', Probes = [\<lparr>event = ''security_file_open'', attach = kprobe, fn = ''trace_security_file_open''\<rparr>], EssentialEvent = False, Sets = [''default'', ''lsm_hooks'', ''fs'', ''fs_file_ops'']\<rparr>),
     (SecurityInodeUnlinkEventID, \<lparr>ID = SecurityInodeUnlinkEventID, ID32Bit = K ''sys32undefined'', Name = ''security_inode_unlink'', Probes = [\<lparr>event = ''security_inode_unlink'', attach = kprobe, fn = ''trace_security_inode_unlink''\<rparr>], EssentialEvent = False, Sets = [''default'', ''lsm_hooks'', ''fs'', ''fs_file_ops'']\<rparr>),
     (SecuritySocketCreateEventID, \<lparr>ID = SecuritySocketCreateEventID, ID32Bit = K ''sys32undefined'', Name = ''security_socket_create'', Probes = [\<lparr>event = ''security_socket_create'', attach = kprobe, fn = ''trace_security_socket_create''\<rparr>], EssentialEvent = False, Sets = [''default'', ''lsm_hooks'', ''net'', ''net_sock'']\<rparr>),
     (SecuritySocketListenEventID, \<lparr>ID = SecuritySocketListenEventID, ID32Bit = K ''sys32undefined'', Name = ''security_socket_listen'', Probes = [\<lparr>event = ''security_socket_listen'', attach = kprobe, fn = ''trace_security_socket_listen''\<rparr>], EssentialEvent = False, Sets = [''default'', ''lsm_hooks'', ''net'', ''net_sock'']\<rparr>),
     (SecuritySocketConnectEventID, \<lparr>ID = SecuritySocketConnectEventID, ID32Bit = K ''sys32undefined'', Name = ''security_socket_connect'', Probes = [\<lparr>event = ''security_socket_connect'', attach = kprobe, fn = ''trace_security_socket_connect''\<rparr>], EssentialEvent = False, Sets = [''default'', ''lsm_hooks'', ''net'', ''net_sock'']\<rparr>),
     (SecuritySocketAcceptEventID, \<lparr>ID = SecuritySocketAcceptEventID, ID32Bit = K ''sys32undefined'', Name = ''security_socket_accept'', Probes = [\<lparr>event = ''security_socket_accept'', attach = kprobe, fn = ''trace_security_socket_accept''\<rparr>], EssentialEvent = False, Sets = [''default'', ''lsm_hooks'', ''net'', ''net_sock'']\<rparr>),
     (SecuritySocketBindEventID, \<lparr>ID = SecuritySocketBindEventID, ID32Bit = K ''sys32undefined'', Name = ''security_socket_bind'', Probes = [\<lparr>event = ''security_socket_bind'', attach = kprobe, fn = ''trace_security_socket_bind''\<rparr>], EssentialEvent = False, Sets = [''default'', ''lsm_hooks'', ''net'', ''net_sock'']\<rparr>),
     (SecuritySbMountEventID, \<lparr>ID = SecuritySbMountEventID, ID32Bit = K ''sys32undefined'', Name = ''security_sb_mount'', Probes = [\<lparr>event = ''security_sb_mount'', attach = kprobe, fn = ''trace_security_sb_mount''\<rparr>], EssentialEvent = False, Sets = [''default'', ''lsm_hooks'', ''fs'']\<rparr>),
     (SecurityBPFEventID, \<lparr>ID = SecurityBPFEventID, ID32Bit = K ''sys32undefined'', Name = ''security_bpf'', Probes = [\<lparr>event = ''security_bpf'', attach = kprobe, fn = ''trace_security_bpf''\<rparr>], EssentialEvent = False, Sets = [''lsm_hooks'']\<rparr>),
     (SecurityBPFMapEventID, \<lparr>ID = SecurityBPFMapEventID, ID32Bit = K ''sys32undefined'', Name = ''security_bpf_map'', Probes = [\<lparr>event = ''security_bpf_map'', attach = kprobe, fn = ''trace_security_bpf_map''\<rparr>], EssentialEvent = False, Sets = [''lsm_hooks'']\<rparr>),
     (SecurityKernelReadFileEventID, \<lparr>ID = SecurityKernelReadFileEventID, ID32Bit = K ''sys32undefined'', Name = ''security_kernel_read_file'', Probes = [\<lparr>event = ''security_kernel_read_file'', attach = kprobe, fn = ''trace_security_kernel_read_file''\<rparr>], EssentialEvent = False, Sets = [''lsm_hooks'']\<rparr>),
     (SecurityPostReadFileEventID, \<lparr>ID = SecurityPostReadFileEventID, ID32Bit = K ''sys32undefined'', Name = ''security_kernel_post_read_file'', Probes = [\<lparr>event = ''security_kernel_post_read_file'', attach = kprobe, fn = ''trace_security_kernel_post_read_file''\<rparr>], EssentialEvent = False, Sets = [''lsm_hooks'']\<rparr>),
     (SecurityInodeMknodEventID, \<lparr>ID = SecurityInodeMknodEventID, ID32Bit = K ''sys32undefined'', Name = ''security_inode_mknod'', Probes = [\<lparr>event = ''security_inode_mknod'', attach = kprobe, fn = ''trace_security_inode_mknod''\<rparr>], EssentialEvent = False, Sets = [''lsm_hooks'']\<rparr>),
     (InitNamespacesEventID, \<lparr>ID = InitNamespacesEventID, ID32Bit = K ''sys32undefined'', Name = ''init_namespaces'', Probes = [], EssentialEvent = False, Sets = []\<rparr>),
     (SocketDupEventID, \<lparr>ID = SocketDupEventID, ID32Bit = K ''sys32undefined'', Name = ''socket_dup'', Probes = [], EssentialEvent = False, Sets = []\<rparr>)
    ]"

definition EventsIDToEvent :: "constEnv \<Rightarrow> (int \<times> EventConfig) list" where
  "EventsIDToEvent K = syscallEvents K @ nonSyscallEvents K"

text \<open>\<open>EventsIDToParams\<close>, laid out in the same way.\<close>

definition syscallParams_0 :: "constEnv \<Rightarrow> (int \<times> ArgMeta list) list" where
  "syscallParams_0 K = [
     (K ''ReadEventID'', [\<lparr>ArgType = ''int'', ArgName = ''fd''\<rparr>, \<lparr>ArgType = ''void*'', ArgName = ''buf''\<rparr>, \<lparr>ArgType = ''size_t'', ArgName = ''count''\<rparr>]),
     (K ''WriteEventID'', [\<lparr>ArgType = ''int'', ArgName = ''fd''\<rparr>, \<lparr>ArgType = ''void*'', ArgName = ''buf''\<rparr>, \<lparr>ArgType = ''size_t'', ArgName = ''count''\<rparr>]),
     (K ''OpenEventID'', [\<lparr>ArgType = ''const char*'', ArgName = ''pathname''\<rparr>, \<lparr>ArgType = ''int'', ArgName = ''flags''\<rparr>, \<lparr>ArgType = ''mode_t'', ArgName = ''mode''\<rparr>]),
     (K ''CloseEventID'', [\<lparr>ArgType = ''int'', ArgName = ''fd''\<rparr>]),
     (K ''StatEventID'', [\<lparr>ArgType = ''const char*'', ArgName = ''pathname''\<rparr>, \<lparr>ArgType = ''struct stat*'', ArgName = ''statbuf''\<rparr>]),
     (K ''FstatEventID'', [\<lparr>ArgType = ''int'', ArgName = ''fd''\<rparr>, \<lparr>ArgType = ''struct stat*'', ArgName = ''statbuf''\<rparr>]),
     (K ''LstatEventID'', [\<lparr>ArgType = ''const char*'', ArgName = ''pathname''\<rparr>, \<lparr>ArgType = ''struct stat*'', ArgName = ''statbuf''\<rparr>]),
     (K ''PollEventID'', [\<lparr>ArgType = ''struct pollfd*'', ArgName = ''fds''\<rparr>, \<lparr>ArgType = ''unsigned int'', ArgName = ''nfds''\<rparr>, \<lparr>ArgType = ''int'', ArgName = ''timeout''\<rparr>]),
     (K ''LseekEventID'', [\<lparr>ArgType = ''int'', ArgName = ''fd''\<rparr>, \<lparr>ArgType = ''off_t'', ArgName = ''offset''\<rparr>, \<lparr>ArgType = ''unsigned int'', ArgName = ''whence''\<rparr>]),
     (K ''MmapEventID'', [\<lparr>ArgType = ''void*'', ArgName = ''addr''\<rparr>, \<lparr>ArgType = ''size_t'', ArgName = ''length''\<rparr>, \<lparr>ArgType = ''int'', ArgName = ''prot''\<rparr>, \<lparr>ArgType = ''int'', ArgName = ''flags''\<rparr>, \<lparr>ArgType = ''int'', ArgName = ''fd''\<rparr>, \<lparr>ArgType = ''off_t'', ArgName = ''off''\<rparr>]),
     (K ''MprotectEventID'', [\<lparr>ArgType = ''void*'', ArgName = ''addr''\<rparr>, \<lparr>ArgType = ''size_t'', ArgName = ''len''\<rparr>, \<lparr>ArgType = ''int'', ArgName = ''prot''\<rparr>]),
     (K ''MunmapEventID'', [\<lparr>ArgType = ''void*'', ArgName = ''addr''\<rparr>, \<lparr>ArgType = ''size_t'', ArgName = ''length''\<rparr>]),
     (K ''BrkEventID'', [\<lparr>ArgType = ''void*'', ArgName = ''addr''\<rparr>]),
     (K ''RtSigactionEventID'', [\<lparr>ArgType = ''int'', ArgName = ''signum''\<rparr>, \<lparr>ArgType = ''const struct sigaction*'', ArgName = ''act''\<rparr>, \<lparr>ArgType = ''struct sigaction*'', ArgName = ''oldact''\<rparr>, \<lparr>ArgType = ''size_t'', ArgName = ''sigsetsize''\<rparr>]),
     (K ''RtSigprocmaskEventID'', [\<lparr>ArgType = ''int'', ArgName = ''how''\<rparr>, \<lparr>ArgType = ''sigset_t*'', ArgName = ''set''\<rparr>, \<lparr>ArgType = ''sigset_t*'', ArgName = ''oldset''\<rparr>, \<lparr>ArgType = ''size_t'', ArgName = ''sigsetsize''\<rparr>]),
     (K ''RtSigreturnEventID'', []),
     (K ''IoctlEventID'', [\<lparr>ArgType = ''int'', ArgName = ''fd''\<rparr>, \<lparr>ArgType = ''unsigned long'', ArgName = ''request''\<rparr>, \<lparr>ArgType = ''unsigned long'', ArgName = ''arg''\<rparr>]),
     (K ''Pread64EventID'', [\<lparr>ArgType = ''int'', ArgName = ''fd''\<rparr>, \<lparr>ArgType = ''void*'', ArgName = ''buf''\<rparr>, \<lparr>ArgType = ''size_t'', ArgName = ''count''\<rparr>, \<lparr>ArgType = ''off_t'', ArgName = ''offset''\<rparr>]),
     (K ''Pwrite64EventID'', [\<lparr>ArgType = ''int'', ArgName = ''fd''\<rparr>, \<lparr>ArgType = ''const void*'', ArgName = ''buf''\<rparr>, \<lparr>ArgType = ''size_t'', ArgName = ''count''\<rparr>, \<lparr>ArgType = ''off_t'', ArgName = ''offset''\<rparr>]),
     (K ''ReadvEventID'', [\<lparr>ArgType = ''int'', ArgName = ''fd''\<rparr>, \<lparr>ArgType = ''const struct iovec*'', ArgName = ''iov''\<rparr>, \<lparr>ArgType = ''int'', ArgName = ''iovcnt''\<rparr>]),
     (K ''WritevEventID'', [\<lparr>ArgType = ''int'', ArgName = ''fd''\<rparr>, \<lparr>ArgType = ''const struct iovec*'', ArgName = ''iov''\<rparr>, \<lparr>ArgType = ''int'', ArgName = ''iovcnt''\<rparr>]),
     (K ''AccessEventID'', [\<lparr>ArgType = ''const char*'', ArgName = ''pathname''\<rparr>, \<lparr>ArgType = ''int'', ArgName = ''mode''\<rparr>]),
     (K ''PipeEventID'', [\<lparr>ArgType = ''int[2]'', ArgName = ''pipefd''\<rparr>]),
     (K ''SelectEventID'', [\<lparr>ArgType = ''int'', ArgName = ''nfds''\<rparr>, \<lparr>ArgType = ''fd_set*'', ArgName = ''readfds''\<rparr>, \<lparr>ArgType = ''fd_set*'', ArgName = ''writefds''\<rparr>, \<lparr>ArgType = ''fd_set*'', ArgName = ''exceptfds''\<rparr>, \<lparr>ArgType = ''struct timeval*'', ArgName = ''timeout''\<rparr>]),
     (K ''SchedYieldEventID'', []),
     (K ''MremapEventID'', [\<lparr>ArgType = ''void*'', ArgName = ''old_address''\<rparr>, \<lparr>ArgType = ''size_t'', ArgName = ''old_size''\<rparr>, \<lparr>ArgType = ''size_t'', ArgName = ''new_size''\<rparr>, \<lparr>ArgType = ''int'', ArgName = ''flags''\<rparr>, \<lparr>ArgType = ''void*'', ArgName = ''new_address''\<rparr>]),
     (K ''MsyncEventID'', [\<lparr>ArgType = ''void*'', ArgName = ''addr''\<rparr>, \<lparr>ArgType = ''size_t'', ArgName = ''length''\<rparr>, \<lparr>ArgType = ''int'', ArgName = ''flags''\<rparr>]),
     (K ''MincoreEventID'', [\<lparr>ArgType = ''void*'', ArgName = ''addr''\<rparr>, \<lparr>ArgType = ''size_t'', ArgName = ''length''\<rparr>, \<lparr>ArgType = ''unsigned char*'', ArgName = ''vec''\<rparr>]),
     (K ''MadviseEventID'', [\<lparr>ArgType = ''void*'', ArgName = ''addr''\<rparr>, \<lparr>ArgType = ''size_t'', ArgName = ''length''\<rparr>, \<lparr>ArgType = ''int'', ArgName = ''advice''\<rparr>]),
     (K ''ShmgetEventID'', [\<lparr>ArgType = ''key_t'', ArgName = ''key''\<rparr>, \<lparr>ArgType = ''size_t'', ArgName = ''size''\<rparr>, \<lparr>ArgType = ''int'', ArgName = ''shmflg''\<rparr>])
    ]"

definition syscallParams_1 :: "constEnv \<Rightarrow> (int \<times> ArgMeta list) list" where
  "syscallParams_1 K = [
     (K ''ShmatEventID'', [\<lparr>ArgType = ''int'', ArgName = ''shmid''\<rparr>, \<lparr>ArgType = ''const void*'', ArgName = ''shmaddr''\<rparr>, \<lparr>ArgType = ''int'', ArgName = ''shmflg''\<rparr>]),
     (K ''ShmctlEventID'', [\<lparr>ArgType = ''int'', ArgName = ''shmid''\<rparr>, \<lparr>ArgType = ''int'', ArgName = ''cmd''\<rparr>, \<lparr>ArgType = ''struct shmid_ds*'', ArgName = ''buf''\<rparr>]),
     (K ''DupEventID'', [\<lparr>ArgType = ''int'', ArgName = ''oldfd''\<rparr>]),
     (K ''Dup2EventID'', [\<lparr>ArgType = ''int'', ArgName = ''oldfd''\<rparr>, \<lparr>ArgType = ''int'', ArgName = ''newfd''\<rparr>]),
     (K ''PauseEventID'', []),
     (K ''NanosleepEventID'', [\<lparr>ArgType = ''const struct timespec*'', ArgName = ''req''\<rparr>, \<lparr>ArgType = ''struct timespec*'', ArgName = ''rem''\<rparr>]),
     (K ''GetitimerEventID'', [\<lparr>ArgType = ''int'', ArgName = ''which''\<rparr>, \<lparr>ArgType = ''struct itimerval*'', ArgName = ''curr_value''\<rparr>]),
     (K ''AlarmEventID'', [\<lparr>ArgType = ''unsigned int'', ArgName = ''seconds''\<rparr>]),
     (K ''SetitimerEventID'', [\<lparr>ArgType = ''int'', ArgName = ''which''\<rparr>, \<lparr>ArgType = ''struct itimerval*'', ArgName = ''new_value''\<rparr>, \<lparr>ArgType = ''struct itimerval*'', ArgName = ''old_value''\<rparr>]),
     (K ''GetpidEventID'', []),
     (K ''SendfileEventID'', [\<lparr>ArgType = ''int'', ArgName = ''out_fd''\<rparr>, \<lparr>ArgType = ''int'', ArgName = ''in_fd''\<rparr>, \<lparr>ArgType = ''off_t*'', ArgName = ''offset''\<rparr>, \<lparr>ArgType = ''size_t'', ArgName = ''count''\<rparr>]),
     (K ''SocketEventID'', [\<lparr>ArgType = ''int'', ArgName = ''domain''\<rparr>, \<lparr>ArgType = ''int'', ArgName = ''type''\<rparr>, \<lparr>ArgType = ''int'', ArgName = ''protocol''\<rparr>]),
     (K ''ConnectEventID'', [\<lparr>ArgType = ''int'', ArgName = ''sockfd''\<rparr>, \<lparr>ArgType = ''struct sockaddr*'', ArgName = ''addr''\<rparr>, \<lparr>ArgType = ''int'', ArgName = ''addrlen''\<rparr>]),
     (K ''AcceptEventID'', [\<lparr>ArgType = ''int'', ArgName = ''sockfd''\<rparr>, \<lparr>ArgType = ''struct sockaddr*'', ArgName = ''addr''\<rparr>, \<lparr>ArgType = ''int*'', ArgName = ''addrlen''\<rparr>]),
     (K ''SendtoEventID'', [\<lparr>ArgType = ''int'', ArgName = ''sockfd''\<rparr>, \<lparr>ArgType = ''void*'', ArgName = ''buf''\<rparr>, \<lparr>ArgType = ''size_t'', ArgName = ''len''\<rparr>, \<lparr>ArgType = ''int'', ArgName = ''flags''\<rparr>, \<lparr>ArgType = ''struct sockaddr*'', ArgName = ''dest_addr''\<rparr>, \<lparr>ArgType = ''int'', ArgName = ''addrlen''\<rparr>]),
     (K ''RecvfromEventID'', [\<lparr>ArgType = ''int'', ArgName = ''sockfd''\<rparr>, \<lparr>ArgType = ''void*'', ArgName = ''buf''\<rparr>, \<lparr>ArgType = ''size_t'', ArgName = ''len''\<rparr>, \<lparr>ArgType = ''int'', ArgName = ''flags''\<rparr>, \<lparr>ArgType = ''struct sockaddr*'', ArgName = ''src_addr''\<rparr>, \<lparr>ArgType = ''int*'', ArgName = ''addrlen''\<rparr>]),
     (K ''SendmsgEventID'', [\<lparr>ArgType = ''int'', ArgName = ''sockfd''\<rparr>, \<lparr>ArgType = ''struct msghdr*'', ArgName = ''msg''\<rparr>, \<lparr>ArgType = ''int'', ArgName = ''flags''\<rparr>]),
     (K ''RecvmsgEventID'', [\<lparr>ArgType = ''int'', ArgName = ''sockfd''\<rparr>, \<lparr>ArgType = ''struct msghdr*'', ArgName = ''msg''\<rparr>, \<lparr>ArgType = ''int'', ArgName = ''flags''\<rparr>]),
     (K ''ShutdownEventID'', [\<lparr>ArgType = ''int'', ArgName = ''sockfd''\<rparr>, \<lparr>ArgType = ''int'', ArgName = ''how''\<rparr>]),
     (K ''BindEventID'', [\<lparr>ArgType = ''int'', ArgName = ''sockfd''\<rparr>, \<lparr>ArgType = ''struct sockaddr*'', ArgName = ''addr''\<rparr>, \<lparr>ArgType = ''int'', ArgName = ''addrlen''\<rparr>]),
     (K ''ListenEventID'', [\<lparr>ArgType = ''int'', ArgName = ''sockfd''\<rparr>, \<lparr>ArgType = ''int'', ArgName = ''backlog''\<rparr>]),
     (K ''GetsocknameEventID'', [\<lparr>ArgType = ''int'', ArgName = ''sockfd''\<rparr>, \<lparr>ArgType = ''struct sockaddr*'', ArgName = ''addr''\<rparr>, \<lparr>ArgType = ''int*'', ArgName = ''addrlen''\<rparr>]),
     (K ''GetpeernameEventID'', [\<lparr>ArgType = ''int'', ArgName = ''sockfd''\<rparr>, \<lparr>ArgType = ''struct sockaddr*'', ArgName = ''addr''\<rparr>, \<lparr>ArgType = ''int*'', ArgName = ''addrlen''\<rparr>]),
     (K ''SocketpairEventID'', [\<lparr>ArgType = ''int'', ArgName = ''domain''\<rparr>, \<lparr>ArgType = ''int'', ArgName = ''type''\<rparr>, \<lparr>ArgType = ''int'', ArgName = ''protocol''\<rparr>, \<lparr>ArgType = ''int[2]'', ArgName = ''sv''\<rparr>]),
     (K ''SetsockoptEventID'', [\<lparr>ArgType = ''int'', ArgName = ''sockfd''\<rparr>, \<lparr>ArgType = ''int'', ArgName = ''level''\<rparr>, \<lparr>ArgType = ''int'', ArgName = ''optname''\<rparr>, \<lparr>ArgType = ''const void*'', ArgName = ''optval''\<rparr>, \<lparr>ArgType = ''int'', ArgName = ''optlen''\<rparr>]),
     (K ''GetsockoptEventID'', [\<lparr>ArgType = ''int'', ArgName = ''sockfd''\<rparr>, \<lparr>ArgType = ''int'', ArgName = ''level''\<rparr>, \<lparr>ArgType = ''int'', ArgName = ''optname''\<rparr>, \<lparr>ArgType = ''void*'', ArgName = ''optval''\<rparr>, \<lparr>ArgType = ''int*'', ArgName = ''optlen''\<rparr>]),
     (K ''CloneEventID'', [\<lparr>ArgType = ''unsigned long'', ArgName = ''flags''\<rparr>, \<lparr>ArgType = ''void*'', ArgName = ''stack''\<rparr>, \<lparr>ArgType = ''int*'', ArgName = ''parent_tid''\<rparr>, \<lparr>ArgType = ''int*'', ArgName = ''child_tid''\<rparr>, \<lparr>ArgType = ''unsigned long'', ArgName = ''tls''\<rparr>]),
     (K ''ForkEventID'', []),
     (K ''VforkEventID'', []),
     (K ''ExecveEventID'', [\<lparr>ArgType = ''const char*'', ArgName = ''pathname''\<rparr>, \<lparr>ArgType = ''const char*const*'', ArgName = ''argv''\<rparr>, \<lparr>ArgType = ''const char*const*'', ArgName = ''envp''\<rparr>])
    ]"

definition syscallParams_2 :: "constEnv \<Rightarrow> (int \<times> ArgMeta list) list" where
  "syscallParams_2 K = [
     (K ''ExitEventID'', [\<lparr>ArgType = ''int'', ArgName = ''status''\<rparr>]),
     (K ''Wait4EventID'', [\<lparr>ArgType = ''pid_t'', ArgName = ''pid''\<rparr>, \<lparr>ArgType = ''int*'', ArgName = ''wstatus''\<rparr>, \<lparr>ArgType = ''int'', ArgName = ''options''\<rparr>, \<lparr>ArgType = ''struct rusage*'', ArgName = ''rusage''\<rparr>]),
     (K ''KillEventID'', [\<lparr>ArgType = ''pid_t'', ArgName = ''pid''\<rparr>, \<lparr>ArgType = ''int'', ArgName = ''sig''\<rparr>]),
     (K ''UnameEventID'', [\<lparr>ArgType = ''struct utsname*'', ArgName = ''buf''\<rparr>]),
     (K ''SemgetEventID'', [\<lparr>ArgType = ''key_t'', ArgName = ''key''\<rparr>, \<lparr>ArgType = ''int'', ArgName = ''nsems''\<rparr>, \<lparr>ArgType = ''int'', ArgName = ''semflg''\<rparr>]),
     (K ''SemopEventID'', [\<lparr>ArgType = ''int'', ArgName = ''semid''\<rparr>, \<lparr>ArgType = ''struct sembuf*'', ArgName = ''sops''\<rparr>, \<lparr>ArgType = ''size_t'', ArgName = ''nsops''\<rparr>]),
     (K ''SemctlEventID'', [\<lparr>ArgType = ''int'', ArgName = ''semid''\<rparr>, \<lparr>ArgType = ''int'', ArgName = ''semnum''\<rparr>, \<lparr>ArgType = ''int'', ArgName = ''cmd''\<rparr>, \<lparr>ArgType = ''unsigned long'', ArgName = ''arg''\<rparr>]),
     (K ''ShmdtEventID'', [\<lparr>ArgType = ''const void*'', ArgName = ''shmaddr''\<rparr>]),
     (K ''MsggetEventID'', [\<lparr>ArgType = ''key_t'', ArgName = ''key''\<rparr>, \<lparr>ArgType = ''int'', ArgName = ''msgflg''\<rparr>]),
     (K ''MsgsndEventID'', [\<lparr>ArgType = ''int'', ArgName = ''msqid''\<rparr>, \<lparr>ArgType = ''struct msgbuf*'', ArgName = ''msgp''\<rparr>, \<lparr>ArgType = ''size_t'', ArgName = ''msgsz''\<rparr>, \<lparr>ArgType = ''int'', ArgName = ''msgflg''\<rparr>]),
     (K ''MsgrcvEventID'', [\<lparr>ArgType = ''int'', ArgName = ''msqid''\<rparr>, \<lparr>ArgType = ''struct msgbuf*'', ArgName = ''msgp''\<rparr>, \<lparr>ArgType = ''size_t'', ArgName = ''msgsz''\<rparr>, \<lparr>ArgType = ''long'', ArgName = ''msgtyp''\<rparr>, \<lparr>ArgType = ''int'', ArgName = ''msgflg''\<rparr>]),
     (K ''MsgctlEventID'', [\<lparr>ArgType = ''int'', ArgName = ''msqid''\<rparr>, \<lparr>ArgType = ''int'', ArgName = ''cmd''\<rparr>, \<lparr>ArgType = ''struct msqid_ds*'', ArgName = ''buf''\<rparr>]),
     (K ''FcntlEventID'', [\<lparr>ArgType = ''int'', ArgName = ''fd''\<rparr>, \<lparr>ArgType = ''int'', ArgName = ''cmd''\<rparr>, \<lparr>ArgType = ''unsigned long'', ArgName = ''arg''\<rparr>]),
     (K ''FlockEventID'', [\<lparr>ArgType = ''int'', ArgName = ''fd''\<rparr>, \<lparr>ArgType = ''int'', ArgName = ''operation''\<rparr>]),
     (K ''FsyncEventID'', [\<lparr>ArgType = ''int'', ArgName = ''fd''\<rparr>]),
     (K ''FdatasyncEventID'', [\<lparr>ArgType = ''int'', ArgName = ''fd''\<rparr>]),
     (K ''TruncateEventID'', [\<lparr>ArgType = ''const char*'', ArgName = ''path''\<rparr>, \<lparr>ArgType = ''off_t'', ArgName = ''length''\<rparr>]),
     (K ''FtruncateEventID'', [\<lparr>ArgType = ''int'', ArgName = ''fd''\<rparr>, \<lparr>ArgType = ''off_t'', ArgName = ''length''\<rparr>]),
     (K ''GetdentsEventID'', [\<lparr>ArgType = ''int'', ArgName = ''fd''\<rparr>, \<lparr>ArgType = ''struct linux_dirent*'', ArgName = ''dirp''\<rparr>, \<lparr>ArgType = ''unsigned int'', ArgName = ''count''\<rparr>]),
     (K ''GetcwdEventID'', [\<lparr>ArgType = ''char*'', ArgName = ''buf''\<rparr>, \<lparr>ArgType = ''size_t'', ArgName = ''size''\<rparr>]),
     (K ''ChdirEventID'', [\<lparr>ArgType = ''const char*'', ArgName = ''path''\<rparr>]),
     (K ''FchdirEventID'', [\<lparr>ArgType = ''int'', ArgName = ''fd''\<rparr>]),
     (K ''RenameEventID'', [\<lparr>ArgType = ''const char*'', ArgName = ''oldpath''\<rparr>, \<lparr>ArgType = ''const char*'', ArgName = ''newpath''\<rparr>]),
     (K ''MkdirEventID'', [\<lparr>ArgType = ''const char*'', ArgName = ''pathname''\<rparr>, \<lparr>ArgType = ''mode_t'', ArgName = ''mode''\<rparr>]),
     (K ''RmdirEventID'', [\<lparr>ArgType = ''const char*'', ArgName = ''pathname''\<rparr>]),
     (K ''CreatEventID'', [\<lparr>ArgType = ''const char*'', ArgName = ''pathname''\<rparr>, \<lparr>ArgType = ''mode_t'', ArgName = ''mode''\<rparr>]),
     (K ''LinkEventID'', [\<lparr>ArgType = ''const char*'', ArgName = ''oldpath''\<rparr>, \<lparr>ArgType = ''const char*'', ArgName = ''newpath''\<rparr>]),
     (K ''UnlinkEventID'', [\<lparr>ArgType = ''const char*'', ArgName = ''pathname''\<rparr>]),
     (K ''SymlinkEventID'', [\<lparr>ArgType = ''const char*'', ArgName = ''target''\<rparr>, \<lparr>ArgType = ''const char*'', ArgName = ''linkpath''\<rparr>]),
     (K ''ReadlinkEventID'', [\<lparr>ArgType = ''const char*'', ArgName = ''pathname''\<rparr>, \<lparr>ArgType = ''char*'', ArgName = ''buf''\<rparr>, \<lparr>ArgType = ''size_t'', ArgName = ''bufsiz''\<rparr>])
    ]"

definition syscallParams_3 :: "constEnv \<Rightarrow> (int \<times> ArgMeta list) list" where
  "syscallParams_3 K = [
     (K ''ChmodEventID'', [\<lparr>ArgType = ''const char*'', ArgName = ''pathname''\<rparr>, \<lparr>ArgType = ''mode_t'', ArgName = ''mode''\<rparr>]),
     (K ''FchmodEventID'', [\<lparr>ArgType = ''int'', ArgName = ''fd''\<rparr>, \<lparr>ArgType = ''mode_t'', ArgName = ''mode''\<rparr>]),
     (K ''ChownEventID'', [\<lparr>ArgType = ''const char*'', ArgName = ''pathname''\<rparr>, \<lparr>ArgType = ''uid_t'', ArgName = ''owner''\<rparr>, \<lparr>ArgType = ''gid_t'', ArgName = ''group''\<rparr>]),
     (K ''FchownEventID'', [\<lparr>ArgType = ''int'', ArgName = ''fd''\<rparr>, \<lparr>ArgType = ''uid_t'', ArgName = ''owner''\<rparr>, \<lparr>ArgType = ''gid_t'', ArgName = ''group''\<rparr>]),
     (K ''LchownEventID'', [\<lparr>ArgType = ''const char*'', ArgName = ''pathname''\<rparr>, \<lparr>ArgType = ''uid_t'', ArgName = ''owner''\<rparr>, \<lparr>ArgType = ''gid_t'', ArgName = ''group''\<rparr>]),
     (K ''UmaskEventID'', [\<lparr>ArgType = ''mode_t'', ArgName = ''mask''\<rparr>]),
     (K ''GettimeofdayEventID'', [\<lparr>ArgType = ''struct timeval*'', ArgName = ''tv''\<rparr>, \<lparr>ArgType = ''struct timezone*'', ArgName = ''tz''\<rparr>]),
     (K ''GetrlimitEventID'', [\<lparr>ArgType = ''int'', ArgName = ''resource''\<rparr>, \<lparr>ArgType = ''struct rlimit*'', ArgName = ''rlim''\<rparr>]),
     (K ''GetrusageEventID'', [\<lparr>ArgType = ''int'', ArgName = ''who''\<rparr>, \<lparr>ArgType = ''struct rusage*'', ArgName = ''usage''\<rparr>]),
     (K ''SysinfoEventID'', [\<lparr>ArgType = ''struct sysinfo*'', ArgName = ''info''\<rparr>]),
     (K ''TimesEventID'', [\<lparr>ArgType = ''struct tms*'', ArgName = ''buf''\<rparr>]),
     (K ''PtraceEventID'', [\<lparr>ArgType = ''long'', ArgName = ''request''\<rparr>, \<lparr>ArgType = ''pid_t'', ArgName = ''pid''\<rparr>, \<lparr>ArgType = ''void*'', ArgName = ''addr''\<rparr>, \<lparr>ArgType = ''void*'', ArgName = ''data''\<rparr>]),
     (K ''GetuidEventID'', []),
     (K ''SyslogEventID'', [\<lparr>ArgType = ''int'', ArgName = ''type''\<rparr>, \<lparr>ArgType = ''char*'', ArgName = ''bufp''\<rparr>, \<lparr>ArgType = ''int'', ArgName = ''len''\<rparr>]),
     (K ''GetgidEventID'', []),
     (K ''SetuidEventID'', [\<lparr>ArgType = ''uid_t'', ArgName = ''uid''\<rparr>]),
     (K ''SetgidEventID'', [\<lparr>ArgType = ''gid_t'', ArgName = ''gid''\<rparr>]),
     (K ''GeteuidEventID'', []),
     (K ''GetegidEventID'', []),
     (K ''SetpgidEventID'', [\<lparr>ArgType = ''pid_t'', ArgName = ''pid''\<rparr>, \<lparr>ArgType = ''pid_t'', ArgName = ''pgid''\<rparr>]),
     (K ''GetppidEventID'', []),
     (K ''GetpgrpEventID'', []),
     (K ''SetsidEventID'', []),
     (K ''SetreuidEventID'', [\<lparr>ArgType = ''uid_t'', ArgName = ''ruid''\<rparr>, \<lparr>ArgType = ''uid_t'', ArgName = ''euid''\<rparr>]),
     (K ''SetregidEventID'', [\<lparr>ArgType = ''gid_t'', ArgName = ''rgid''\<rparr>, \<lparr>ArgType = ''gid_t'', ArgName = ''egid''\<rparr>]),
     (K ''GetgroupsEventID'', [\<lparr>ArgType = ''int'', ArgName = ''size''\<rparr>, \<lparr>ArgType = ''gid_t*'', ArgName = ''list''\<rparr>]),
     (K ''SetgroupsEventID'', [\<lparr>ArgType = ''int'', ArgName = ''size''\<rparr>, \<lparr>ArgType = ''gid_t*'', ArgName = ''list''\<rparr>]),
     (K ''SetresuidEventID'', [\<lparr>ArgType = ''uid_t'', ArgName = ''ruid''\<rparr>, \<lparr>ArgType = ''uid_t'', ArgName = ''euid''\<rparr>, \<lparr>ArgType = ''uid_t'', ArgName = ''suid''\<rparr>]),
     (K ''GetresuidEventID'', [\<lparr>ArgType = ''uid_t*'', ArgName = ''ruid''\<rparr>, \<lparr>ArgType = ''uid_t*'', ArgName = ''euid''\<rparr>, \<lparr>ArgType = ''uid_t*'', ArgName = ''suid''\<rparr>]),
     (K ''SetresgidEventID'', [\<lparr>ArgType = ''gid_t'', ArgName = ''rgid''\<rparr>, \<lparr>ArgType = ''gid_t'', ArgName = ''egid''\<rparr>, \<lparr>ArgType = ''gid_t'', ArgName = ''sgid''\<rparr>])
    ]"

definition syscallParams_4 :: "constEnv \<Rightarrow> (int \<times> ArgMeta list) list" where
  "syscallParams_4 K = [
     (K ''GetresgidEventID'', [\<lparr>ArgType = ''gid_t*'', ArgName = ''rgid''\<rparr>, \<lparr>ArgType = ''gid_t*'', ArgName = ''egid''\<rparr>, \<lparr>ArgType = ''gid_t*'', ArgName = ''sgid''\<rparr>]),
     (K ''GetpgidEventID'', [\<lparr>ArgType = ''pid_t'', ArgName = ''pid''\<rparr>]),
     (K ''SetfsuidEventID'', [\<lparr>ArgType = ''uid_t'', ArgName = ''fsuid''\<rparr>]),
     (K ''SetfsgidEventID'', [\<lparr>ArgType = ''gid_t'', ArgName = ''fsgid''\<rparr>]),
     (K ''GetsidEventID'', [\<lparr>ArgType = ''pid_t'', ArgName = ''pid''\<rparr>]),
     (K ''CapgetEventID'', [\<lparr>ArgType = ''cap_user_header_t'', ArgName = ''hdrp''\<rparr>, \<lparr>ArgType = ''cap_user_data_t'', ArgName = ''datap''\<rparr>]),
     (K ''CapsetEventID'', [\<lparr>ArgType = ''cap_user_header_t'', ArgName = ''hdrp''\<rparr>, \<lparr>ArgType = ''const cap_user_data_t'', ArgName = ''datap''\<rparr>]),
     (K ''RtSigpendingEventID'', [\<lparr>ArgType = ''sigset_t*'', ArgName = ''set''\<rparr>, \<lparr>ArgType = ''size_t'', ArgName = ''sigsetsize''\<rparr>]),
     (K ''RtSigtimedwaitEventID'', [\<lparr>ArgType = ''const sigset_t*'', ArgName = ''set''\<rparr>, \<lparr>ArgType = ''siginfo_t*'', ArgName = ''info''\<rparr>, \<lparr>ArgType = ''const struct timespec*'', ArgName = ''timeout''\<rparr>, \<lparr>ArgType = ''size_t'', ArgName = ''sigsetsize''\<rparr>]),
     (K ''RtSigqueueinfoEventID'', [\<lparr>ArgType = ''pid_t'', ArgName = ''tgid''\<rparr>, \<lparr>ArgType = ''int'', ArgName = ''sig''\<rparr>, \<lparr>ArgType = ''siginfo_t*'', ArgName = ''info''\<rparr>]),
     (K ''RtSigsuspendEventID'', [\<lparr>ArgType = ''sigset_t*'', ArgName = ''mask''\<rparr>, \<lparr>ArgType = ''size_t'', ArgName = ''sigsetsize''\<rparr>]),
     (K ''SigaltstackEventID'', [\<lparr>ArgType = ''const stack_t*'', ArgName = ''ss''\<rparr>, \<lparr>ArgType = ''stack_t*'', ArgName = ''old_ss''\<rparr>]),
     (K ''UtimeEventID'', [\<lparr>ArgType = ''const char*'', ArgName = ''filename''\<rparr>, \<lparr>ArgType = ''const struct utimbuf*'', ArgName = ''times''\<rparr>]),
     (K ''MknodEventID'', [\<lparr>ArgType = ''const char*'', ArgName = ''pathname''\<rparr>, \<lparr>ArgType = ''mode_t'', ArgName = ''mode''\<rparr>, \<lparr>ArgType = ''dev_t'', ArgName = ''dev''\<rparr>]),
     (K ''UselibEventID'', [\<lparr>ArgType = ''const char*'', ArgName = ''library''\<rparr>]),
     (K ''PersonalityEventID'', [\<lparr>ArgType = ''unsigned long'', ArgName = ''persona''\<rparr>]),
     (K ''UstatEventID'', [\<lparr>ArgType = ''dev_t'', ArgName = ''dev''\<rparr>, \<lparr>ArgType = ''struct ustat*'', ArgName = ''ubuf''\<rparr>]),
     (K ''StatfsEventID'', [\<lparr>ArgType = ''const char*'', ArgName = ''path''\<rparr>, \<lparr>ArgType = ''struct statfs*'', ArgName = ''buf''\<rparr>]),
     (K ''FstatfsEventID'', [\<lparr>ArgType = ''int'', ArgName = ''fd''\<rparr>, \<lparr>ArgType = ''struct statfs*'', ArgName = ''buf''\<rparr>]),
     (K ''SysfsEventID'', [\<lparr>ArgType = ''int'', ArgName = ''option''\<rparr>]),
     (K ''GetpriorityEventID'', [\<lparr>ArgType = ''int'', ArgName = ''which''\<rparr>, \<lparr>ArgType = ''int'', ArgName = ''who''\<rparr>]),
     (K ''SetpriorityEventID'', [\<lparr>ArgType = ''int'', ArgName = ''which''\<rparr>, \<lparr>ArgType = ''int'', ArgName = ''who''\<rparr>, \<lparr>ArgType = ''int'', ArgName = ''prio''\<rparr>]),
     (K ''SchedSetparamEventID'', [\<lparr>ArgType = ''pid_t'', ArgName = ''pid''\<rparr>, \<lparr>ArgType = ''struct sched_param*'', ArgName = ''param''\<rparr>]),
     (K ''SchedGetparamEventID'', [\<lparr>ArgType = ''pid_t'', ArgName = ''pid''\<rparr>, \<lparr>ArgType = ''struct sched_param*'', ArgName = ''param''\<rparr>]),
     (K ''SchedSetschedulerEventID'', [\<lparr>ArgType = ''pid_t'', ArgName = ''pid''\<rparr>, \<lparr>ArgType = ''int'', ArgName = ''policy''\<rparr>, \<lparr>ArgType = ''struct sched_param*'', ArgName = ''param''\<rparr>]),
     (K ''SchedGetschedulerEventID'', [\<lparr>ArgType = ''pid_t'', ArgName = ''pid''\<rparr>]),
     (K ''SchedGetPriorityMaxEventID'', [\<lparr>ArgType = ''int'', ArgName = ''policy''\<rparr>]),
     (K ''SchedGetPriorityMinEventID'', [\<lparr>ArgType = ''int'', ArgName = ''policy''\<rparr>]),
     (K ''SchedRrGetIntervalEventID'', [\<lparr>ArgType = ''pid_t'', ArgName = ''pid''\<rparr>, \<lparr>ArgType = ''struct timespec*'', ArgName = ''tp''\<rparr>]),
     (K ''MlockEventID'', [\<lparr>ArgType = ''const void*'', ArgName = ''addr''\<rparr>, \<lparr>ArgType = ''size_t'', ArgName = ''len''\<rparr>])
    ]"

definition syscallParams_5 :: "constEnv \<Rightarrow> (int \<times> ArgMeta list) list" where
  "syscallParams_5 K = [
     (K ''MunlockEventID'', [\<lparr>ArgType = ''const void*'', ArgName = ''addr''\<rparr>, \<lparr>ArgType = ''size_t'', ArgName = ''len''\<rparr>]),
     (K ''MlockallEventID'', [\<lparr>ArgType = ''int'', ArgName = ''flags''\<rparr>]),
     (K ''MunlockallEventID'', []),
     (K ''VhangupEventID'', []),
     (K ''ModifyLdtEventID'', [\<lparr>ArgType = ''int'', ArgName = ''func''\<rparr>, \<lparr>ArgType = ''void*'', ArgName = ''ptr''\<rparr>, \<lparr>ArgType = ''unsigned long'', ArgName = ''bytecount''\<rparr>]),
     (K ''PivotRootEventID'', [\<lparr>ArgType = ''const char*'', ArgName = ''new_root''\<rparr>, \<lparr>ArgType = ''const char*'', ArgName = ''put_old''\<rparr>]),
     (K ''SysctlEventID'', [\<lparr>ArgType = ''struct __sysctl_args*'', ArgName = ''args''\<rparr>]),
     (K ''PrctlEventID'', [\<lparr>ArgType = ''int'', ArgName = ''option''\<rparr>, \<lparr>ArgType = ''unsigned long'', ArgName = ''arg2''\<rparr>, \<lparr>ArgType = ''unsigned long'', ArgName = ''arg3''\<rparr>, \<lparr>ArgType = ''unsigned long'', ArgName = ''arg4''\<rparr>, \<lparr>ArgType = ''unsigned long'', ArgName = ''arg5''\<rparr>]),
     (K ''ArchPrctlEventID'', [\<lparr>ArgType = ''int'', ArgName = ''option''\<rparr>, \<lparr>ArgType = ''unsigned long'', ArgName = ''addr''\<rparr>]),
     (K ''AdjtimexEventID'', [\<lparr>ArgType = ''struct timex*'', ArgName = ''buf''\<rparr>]),
     (K ''SetrlimitEventID'', [\<lparr>ArgType = ''int'', ArgName = ''resource''\<rparr>, \<lparr>ArgType = ''const struct rlimit*'', ArgName = ''rlim''\<rparr>]),
     (K ''ChrootEventID'', [\<lparr>ArgType = ''const char*'', ArgName = ''path''\<rparr>]),
     (K ''SyncEventID'', []),
     (K ''AcctEventID'', [\<lparr>ArgType = ''const char*'', ArgName = ''filename''\<rparr>]),
     (K ''SettimeofdayEventID'', [\<lparr>ArgType = ''const struct timeval*'', ArgName = ''tv''\<rparr>, \<lparr>ArgType = ''const struct timezone*'', ArgName = ''tz''\<rparr>]),
     (K ''MountEventID'', [\<lparr>ArgType = ''const char*'', ArgName = ''source''\<rparr>, \<lparr>ArgType = ''const char*'', ArgName = ''target''\<rparr>, \<lparr>ArgType = ''const char*'', ArgName = ''filesystemtype''\<rparr>, \<lparr>ArgType = ''unsigned long'', ArgName = ''mountflags''\<rparr>, \<lparr>ArgType = ''const void*'', ArgName = ''data''\<rparr>]),
     (K ''UmountEventID'', [\<lparr>ArgType = ''const char*'', ArgName = ''target''\<rparr>, \<lparr>ArgType = ''int'', ArgName = ''flags''\<rparr>]),
     (K ''SwaponEventID'', [\<lparr>ArgType = ''const char*'', ArgName = ''path''\<rparr>, \<lparr>ArgType = ''int'', ArgName = ''swapflags''\<rparr>]),
     (K ''SwapoffEventID'', [\<lparr>ArgType = ''const char*'', ArgName = ''path''\<rparr>]),
     (K ''RebootEventID'', [\<lparr>ArgType = ''int'', ArgName = ''magic''\<rparr>, \<lparr>ArgType = ''int'', ArgName = ''magic2''\<rparr>, \<lparr>ArgType = ''int'', ArgName = ''cmd''\<rparr>, \<lparr>ArgType = ''void*'', ArgName = ''arg''\<rparr>]),
     (K ''SethostnameEventID'', [\<lparr>ArgType = ''const char*'', ArgName = ''name''\<rparr>, \<lparr>ArgType = ''size_t'', ArgName = ''len''\<rparr>]),
     (K ''SetdomainnameEventID'', [\<lparr>ArgType = ''const char*'', ArgName = ''name''\<rparr>, \<lparr>ArgType = ''size_t'', ArgName = ''len''\<rparr>]),
     (K ''IoplEventID'', [\<lparr>ArgType = ''int'', ArgName = ''level''\<rparr>]),
     (K ''IopermEventID'', [\<lparr>ArgType = ''unsigned long'', ArgName = ''from''\<rparr>, \<lparr>ArgType = ''unsigned long'', ArgName = ''num''\<rparr>, \<lparr>ArgType = ''int'', ArgName = ''turn_on''\<rparr>]),
     (K ''InitModuleEventID'', [\<lparr>ArgType = ''void*'', ArgName = ''module_image''\<rparr>, \<lparr>ArgType = ''unsigned long'', ArgName = ''len''\<rparr>, \<lparr>ArgType = ''const char*'', ArgName = ''param_values''\<rparr>]),
     (K ''DeleteModuleEventID'', [\<lparr>ArgType = ''const char*'', ArgName = ''name''\<rparr>, \<lparr>ArgType = ''int'', ArgName = ''flags''\<rparr>]),
     (K ''QuotactlEventID'', [\<lparr>ArgType = ''int'', ArgName = ''cmd''\<rparr>, \<lparr>ArgType = ''const char*'', ArgName = ''special''\<rparr>, \<lparr>ArgType = ''int'', ArgName = ''id''\<rparr>, \<lparr>ArgType = ''void*'', ArgName = ''addr''\<rparr>]),
     (K ''GettidEventID'', []),
     (K ''ReadaheadEventID'', [\<lparr>ArgType = ''int'', ArgName = ''fd''\<rparr>, \<lparr>ArgType = ''off_t'', ArgName = ''offset''\<rparr>, \<lparr>ArgType = ''size_t'', ArgName = ''count''\<rparr>]),
     (K ''SetxattrEventID'', [\<lparr>ArgType = ''const char*'', ArgName = ''path''\<rparr>, \<lparr>ArgType = ''const char*'', ArgName = ''name''\<rparr>, \<lparr>ArgType = ''const void*'', ArgName = ''value''\<rparr>, \<lparr>ArgType = ''size_t'', ArgName = ''size''\<rparr>, \<lparr>ArgType = ''int'', ArgName = ''flags''\<rparr>])
    ]"

definition syscallParams_6 :: "constEnv \<Rightarrow> (int \<times> ArgMeta list) list" where
  "syscallParams_6 K = [
     (K ''LsetxattrEventID'', [\<lparr>ArgType = ''const char*'', ArgName = ''path''\<rparr>, \<lparr>ArgType = ''const char*'', ArgName = ''name''\<rparr>, \<lparr>ArgType = ''const void*'', ArgName = ''value''\<rparr>, \<lparr>ArgType = ''size_t'', ArgName = ''size''\<rparr>, \<lparr>ArgType = ''int'', ArgName = ''flags''\<rparr>]),
     (K ''FsetxattrEventID'', [\<lparr>ArgType = ''int'', ArgName = ''fd''\<rparr>, \<lparr>ArgType = ''const char*'', ArgName = ''name''\<rparr>, \<lparr>ArgType = ''const void*'', ArgName = ''value''\<rparr>, \<lparr>ArgType = ''size_t'', ArgName = ''size''\<rparr>, \<lparr>ArgType = ''int'', ArgName = ''flags''\<rparr>]),
     (K ''GetxattrEventID'', [\<lparr>ArgType = ''const char*'', ArgName = ''path''\<rparr>, \<lparr>ArgType = ''const char*'', ArgName = ''name''\<rparr>, \<lparr>ArgType = ''void*'', ArgName = ''value''\<rparr>, \<lparr>ArgType = ''size_t'', ArgName = ''size''\<rparr>]),
     (K ''LgetxattrEventID'', [\<lparr>ArgType = ''const char*'', ArgName = ''path''\<rparr>, \<lparr>ArgType = ''const char*'', ArgName = ''name''\<rparr>, \<lparr>ArgType = ''void*'', ArgName = ''value''\<rparr>, \<lparr>ArgType = ''size_t'', ArgName = ''size''\<rparr>]),
     (K ''FgetxattrEventID'', [\<lparr>ArgType = ''int'', ArgName = ''fd''\<rparr>, \<lparr>ArgType = ''const char*'', ArgName = ''name''\<rparr>, \<lparr>ArgType = ''void*'', ArgName = ''value''\<rparr>, \<lparr>ArgType = ''size_t'', ArgName = ''size''\<rparr>]),
     (K ''ListxattrEventID'', [\<lparr>ArgType = ''const char*'', ArgName = ''path''\<rparr>, \<lparr>ArgType = ''char*'', ArgName = ''list''\<rparr>, \<lparr>ArgType = ''size_t'', ArgName = ''size''\<rparr>]),
     (K ''LlistxattrEventID'', [\<lparr>ArgType = ''const char*'', ArgName = ''path''\<rparr>, \<lparr>ArgType = ''char*'', ArgName = ''list''\<rparr>, \<lparr>ArgType = ''size_t'', ArgName = ''size''\<rparr>]),
     (K ''FlistxattrEventID'', [\<lparr>ArgType = ''int'', ArgName = ''fd''\<rparr>, \<lparr>ArgType = ''char*'', ArgName = ''list''\<rparr>, \<lparr>ArgType = ''size_t'', ArgName = ''size''\<rparr>]),
     (K ''RemovexattrEventID'', [\<lparr>ArgType = ''const char*'', ArgName = ''path''\<rparr>, \<lparr>ArgType = ''const char*'', ArgName = ''name''\<rparr>]),
     (K ''LremovexattrEventID'', [\<lparr>ArgType = ''const char*'', ArgName = ''path''\<rparr>, \<lparr>ArgType = ''const char*'', ArgName = ''name''\<rparr>]),
     (K ''FremovexattrEventID'', [\<lparr>ArgType = ''int'', ArgName = ''fd''\<rparr>, \<lparr>ArgType = ''const char*'', ArgName = ''name''\<rparr>]),
     (K ''TkillEventID'', [\<lparr>ArgType = ''int'', ArgName = ''tid''\<rparr>, \<lparr>ArgType = ''int'', ArgName = ''sig''\<rparr>]),
     (K ''TimeEventID'', [\<lparr>ArgType = ''time_t*'', ArgName = ''tloc''\<rparr>]),
     (K ''FutexEventID'', [\<lparr>ArgType = ''int*'', ArgName = ''uaddr''\<rparr>, \<lparr>ArgType = ''int'', ArgName = ''futex_op''\<rparr>, \<lparr>ArgType = ''int'', ArgName = ''val''\<rparr>, \<lparr>ArgType = ''const struct timespec*'', ArgName = ''timeout''\<rparr>, \<lparr>ArgType = ''int*'', ArgName = ''uaddr2''\<rparr>, \<lparr>ArgType = ''int'', ArgName = ''val3''\<rparr>]),
     (K ''SchedSetaffinityEventID'', [\<lparr>ArgType = ''pid_t'', ArgName = ''pid''\<rparr>, \<lparr>ArgType = ''size_t'', ArgName = ''cpusetsize''\<rparr>, \<lparr>ArgType = ''unsigned long*'', ArgName = ''mask''\<rparr>]),
     (K ''SchedGetaffinityEventID'', [\<lparr>ArgType = ''pid_t'', ArgName = ''pid''\<rparr>, \<lparr>ArgType = ''size_t'', ArgName = ''cpusetsize''\<rparr>, \<lparr>ArgType = ''unsigned long*'', ArgName = ''mask''\<rparr>]),
     (K ''SetThreadAreaEventID'', [\<lparr>ArgType = ''struct user_desc*'', ArgName = ''u_info''\<rparr>]),
     (K ''IoSetupEventID'', [\<lparr>ArgType = ''unsigned int'', ArgName = ''nr_events''\<rparr>, \<lparr>ArgType = ''io_context_t*'', ArgName = ''ctx_idp''\<rparr>]),
     (K ''IoDestroyEventID'', [\<lparr>ArgType = ''io_context_t'', ArgName = ''ctx_id''\<rparr>]),
     (K ''IoGeteventsEventID'', [\<lparr>ArgType = ''io_context_t'', ArgName = ''ctx_id''\<rparr>, \<lparr>ArgType = ''long'', ArgName = ''min_nr''\<rparr>, \<lparr>ArgType = ''long'', ArgName = ''nr''\<rparr>, \<lparr>ArgType = ''struct io_event*'', ArgName = ''events''\<rparr>, \<lparr>ArgType = ''struct timespec*'', ArgName = ''timeout''\<rparr>]),
     (K ''IoSubmitEventID'', [\<lparr>ArgType = ''io_context_t'', ArgName = ''ctx_id''\<rparr>, \<lparr>ArgType = ''long'', ArgName = ''nr''\<rparr>, \<lparr>ArgType = ''struct iocb**'', ArgName = ''iocbpp''\<rparr>]),
     (K ''IoCancelEventID'', [\<lparr>ArgType = ''io_context_t'', ArgName = ''ctx_id''\<rparr>, \<lparr>ArgType = ''struct iocb*'', ArgName = ''iocb''\<rparr>, \<lparr>ArgType = ''struct io_event*'', ArgName = ''result''\<rparr>]),
     (K ''GetThreadAreaEventID'', [\<lparr>ArgType = ''struct user_desc*'', ArgName = ''u_info''\<rparr>]),
     (K ''LookupDcookieEventID'', [\<lparr>ArgType = ''u64'', ArgName = ''cookie''\<rparr>, \<lparr>ArgType = ''char*'', ArgName = ''buffer''\<rparr>, \<lparr>ArgType = ''size_t'', ArgName = ''len''\<rparr>]),
     (K ''EpollCreateEventID'', [\<lparr>ArgType = ''int'', ArgName = ''size''\<rparr>]),
     (K ''RemapFilePagesEventID'', [\<lparr>ArgType = ''void*'', ArgName = ''addr''\<rparr>, \<lparr>ArgType = ''size_t'', ArgName = ''size''\<rparr>, \<lparr>ArgType = ''int'', ArgName = ''prot''\<rparr>, \<lparr>ArgType = ''size_t'', ArgName = ''pgoff''\<rparr>, \<lparr>ArgType = ''int'', ArgName = ''flags''\<rparr>]),
     (K ''Getdents64EventID'', [\<lparr>ArgType = ''unsigned int'', ArgName = ''fd''\<rparr>, \<lparr>ArgType = ''struct linux_dirent64*'', ArgName = ''dirp''\<rparr>, \<lparr>ArgType = ''unsigned int'', ArgName = ''count''\<rparr>]),
     (K ''SetTidAddressEventID'', [\<lparr>ArgType = ''int*'', ArgName = ''tidptr''\<rparr>]),
     (K ''RestartSyscallEventID'', []),
     (K ''SemtimedopEventID'', [\<lparr>ArgType = ''int'', ArgName = ''semid''\<rparr>, \<lparr>ArgType = ''struct sembuf*'', ArgName = ''sops''\<rparr>, \<lparr>ArgType = ''size_t'', ArgName = ''nsops''\<rparr>, \<lparr>ArgType = ''const struct timespec*'', ArgName = ''timeout''\<rparr>])
    ]"

definition syscallParams_7 :: "constEnv \<Rightarrow> (int \<times> ArgMeta list) list" where
  "syscallParams_7 K = [
     (K ''Fadvise64EventID'', [\<lparr>ArgType = ''int'', ArgName = ''fd''\<rparr>, \<lparr>ArgType = ''off_t'', ArgName = ''offset''\<rparr>, \<lparr>ArgType = ''size_t'', ArgName = ''len''\<rparr>, \<lparr>ArgType = ''int'', ArgName = ''advice''\<rparr>]),
     (K ''TimerCreateEventID'', [\<lparr>ArgType = ''const clockid_t'', ArgName = ''clockid''\<rparr>, \<lparr>ArgType = ''struct sigevent*'', ArgName = ''sevp''\<rparr>, \<lparr>ArgType = ''timer_t*'', ArgName = ''timer_id''\<rparr>]),
     (K ''TimerSettimeEventID'', [\<lparr>ArgType = ''timer_t'', ArgName = ''timer_id''\<rparr>, \<lparr>ArgType = ''int'', ArgName = ''flags''\<rparr>, \<lparr>ArgType = ''const struct itimerspec*'', ArgName = ''new_value''\<rparr>, \<lparr>ArgType = ''struct itimerspec*'', ArgName = ''old_value''\<rparr>]),
     (K ''TimerGettimeEventID'', [\<lparr>ArgType = ''timer_t'', ArgName = ''timer_id''\<rparr>, \<lparr>ArgType = ''struct itimerspec*'', ArgName = ''curr_value''\<rparr>]),
     (K ''TimerGetoverrunEventID'', [\<lparr>ArgType = ''timer_t'', ArgName = ''timer_id''\<rparr>]),
     (K ''TimerDeleteEventID'', [\<lparr>ArgType = ''timer_t'', ArgName = ''timer_id''\<rparr>]),
     (K ''ClockSettimeEventID'', [\<lparr>ArgType = ''const clockid_t'', ArgName = ''clockid''\<rparr>, \<lparr>ArgType = ''const struct timespec*'', ArgName = ''tp''\<rparr>]),
     (K ''ClockGettimeEventID'', [\<lparr>ArgType = ''const clockid_t'', ArgName = ''clockid''\<rparr>, \<lparr>ArgType = ''struct timespec*'', ArgName = ''tp''\<rparr>]),
     (K ''ClockGetresEventID'', [\<lparr>ArgType = ''const clockid_t'', ArgName = ''clockid''\<rparr>, \<lparr>ArgType = ''struct timespec*'', ArgName = ''res''\<rparr>]),
     (K ''ClockNanosleepEventID'', [\<lparr>ArgType = ''const clockid_t'', ArgName = ''clockid''\<rparr>, \<lparr>ArgType = ''int'', ArgName = ''flags''\<rparr>, \<lparr>ArgType = ''const struct timespec*'', ArgName = ''request''\<rparr>, \<lparr>ArgType = ''struct timespec*'', ArgName = ''remain''\<rparr>]),
     (K ''ExitGroupEventID'', [\<lparr>ArgType = ''int'', ArgName = ''status''\<rparr>]),
     (K ''EpollWaitEventID'', [\<lparr>ArgType = ''int'', ArgName = ''epfd''\<rparr>, \<lparr>ArgType = ''struct epoll_event*'', ArgName = ''events''\<rparr>, \<lparr>ArgType = ''int'', ArgName = ''maxevents''\<rparr>, \<lparr>ArgType = ''int'', ArgName = ''timeout''\<rparr>]),
     (K ''EpollCtlEventID'', [\<lparr>ArgType = ''int'', ArgName = ''epfd''\<rparr>, \<lparr>ArgType = ''int'', ArgName = ''op''\<rparr>, \<lparr>ArgType = ''int'', ArgName = ''fd''\<rparr>, \<lparr>ArgType = ''struct epoll_event*'', ArgName = ''event''\<rparr>]),
     (K ''TgkillEventID'', [\<lparr>ArgType = ''int'', ArgName = ''tgid''\<rparr>, \<lparr>ArgType = ''int'', ArgName = ''tid''\<rparr>, \<lparr>ArgType = ''int'', ArgName = ''sig''\<rparr>]),
     (K ''UtimesEventID'', [\<lparr>ArgType = ''char*'', ArgName = ''filename''\<rparr>, \<lparr>ArgType = ''struct timeval*'', ArgName = ''times''\<rparr>]),
     (K ''MbindEventID'', [\<lparr>ArgType = ''void*'', ArgName = ''addr''\<rparr>, \<lparr>ArgType = ''unsigned long'', ArgName = ''len''\<rparr>, \<lparr>ArgType = ''int'', ArgName = ''mode''\<rparr>, \<lparr>ArgType = ''const unsigned long*'', ArgName = ''nodemask''\<rparr>, \<lparr>ArgType = ''unsigned long'', ArgName = ''maxnode''\<rparr>, \<lparr>ArgType = ''unsigned int'', ArgName = ''flags''\<rparr>]),
     (K ''SetMempolicyEventID'', [\<lparr>ArgType = ''int'', ArgName = ''mode''\<rparr>, \<lparr>ArgType = ''const unsigned long*'', ArgName = ''nodemask''\<rparr>, \<lparr>ArgType = ''unsigned long'', ArgName = ''maxnode''\<rparr>]),
     (K ''GetMempolicyEventID'', [\<lparr>ArgType = ''int*'', ArgName = ''mode''\<rparr>, \<lparr>ArgType = ''unsigned long*'', ArgName = ''nodemask''\<rparr>, \<lparr>ArgType = ''unsigned long'', ArgName = ''maxnode''\<rparr>, \<lparr>ArgType = ''void*'', ArgName = ''addr''\<rparr>, \<lparr>ArgType = ''unsigned long'', ArgName = ''flags''\<rparr>]),
     (K ''MqOpenEventID'', [\<lparr>ArgType = ''const char*'', ArgName = ''name''\<rparr>, \<lparr>ArgType = ''int'', ArgName = ''oflag''\<rparr>, \<lparr>ArgType = ''mode_t'', ArgName = ''mode''\<rparr>, \<lparr>ArgType = ''struct mq_attr*'', ArgName = ''attr''\<rparr>]),
     (K ''MqUnlinkEventID'', [\<lparr>ArgType = ''const char*'', ArgName = ''name''\<rparr>]),
     (K ''MqTimedsendEventID'', [\<lparr>ArgType = ''mqd_t'', ArgName = ''mqdes''\<rparr>, \<lparr>ArgType = ''const char*'', ArgName = ''msg_ptr''\<rparr>, \<lparr>ArgType = ''size_t'', ArgName = ''msg_len''\<rparr>, \<lparr>ArgType = ''unsigned int'', ArgName = ''msg_prio''\<rparr>, \<lparr>ArgType = ''const struct timespec*'', ArgName = ''abs_timeout''\<rparr>]),
     (K ''MqTimedreceiveEventID'', [\<lparr>ArgType = ''mqd_t'', ArgName = ''mqdes''\<rparr>, \<lparr>ArgType = ''char*'', ArgName = ''msg_ptr''\<rparr>, \<lparr>ArgType = ''size_t'', ArgName = ''msg_len''\<rparr>, \<lparr>ArgType = ''unsigned int*'', ArgName = ''msg_prio''\<rparr>, \<lparr>ArgType = ''const struct timespec*'', ArgName = ''abs_timeout''\<rparr>]),
     (K ''MqNotifyEventID'', [\<lparr>ArgType = ''mqd_t'', ArgName = ''mqdes''\<rparr>, \<lparr>ArgType = ''const struct sigevent*'', ArgName = ''sevp''\<rparr>]),
     (K ''MqGetsetattrEventID'', [\<lparr>ArgType = ''mqd_t'', ArgName = ''mqdes''\<rparr>, \<lparr>ArgType = ''const struct mq_attr*'', ArgName = ''newattr''\<rparr>, \<lparr>ArgType = ''struct mq_attr*'', ArgName = ''oldattr''\<rparr>]),
     (K ''KexecLoadEventID'', [\<lparr>ArgType = ''unsigned long'', ArgName = ''entry''\<rparr>, \<lparr>ArgType = ''unsigned long'', ArgName = ''nr_segments''\<rparr>, \<lparr>ArgType = ''struct kexec_segment*'', ArgName = ''segments''\<rparr>, \<lparr>ArgType = ''unsigned long'', ArgName = ''flags''\<rparr>]),
     (K ''WaitidEventID'', [\<lparr>ArgType = ''int'', ArgName = ''idtype''\<rparr>, \<lparr>ArgType = ''pid_t'', ArgName = ''id''\<rparr>, \<lparr>ArgType = ''struct siginfo*'', ArgName = ''infop''\<rparr>, \<lparr>ArgType = ''int'', ArgName = ''options''\<rparr>, \<lparr>ArgType = ''struct rusage*'', ArgName = ''rusage''\<rparr>]),
     (K ''AddKeyEventID'', [\<lparr>ArgType = ''const char*'', ArgName = ''type''\<rparr>, \<lparr>ArgType = ''const char*'', ArgName = ''description''\<rparr>, \<lparr>ArgType = ''const void*'', ArgName = ''payload''\<rparr>, \<lparr>ArgType = ''size_t'', ArgName = ''plen''\<rparr>, \<lparr>ArgType = ''key_serial_t'', ArgName = ''keyring''\<rparr>]),
     (K ''RequestKeyEventID'', [\<lparr>ArgType = ''const char*'', ArgName = ''type''\<rparr>, \<lparr>ArgType = ''const char*'', ArgName = ''description''\<rparr>, \<lparr>ArgType = ''const char*'', ArgName = ''callout_info''\<rparr>, \<lparr>ArgType = ''key_serial_t'', ArgName = ''dest_keyring''\<rparr>]),
     (K ''KeyctlEventID'', [\<lparr>ArgType = ''int'', ArgName = ''operation''\<rparr>, \<lparr>ArgType = ''unsigned long'', ArgName = ''arg2''\<rparr>, \<lparr>ArgType = ''unsigned long'', ArgName = ''arg3''\<rparr>, \<lparr>ArgType = ''unsigned long'', ArgName = ''arg4''\<rparr>, \<lparr>ArgType = ''unsigned long'', ArgName = ''arg5''\<rparr>]),
     (K ''IoprioSetEventID'', [\<lparr>ArgType = ''int'', ArgName = ''which''\<rparr>, \<lparr>ArgType = ''int'', ArgName = ''who''\<rparr>, \<lparr>ArgType = ''int'', ArgName = ''ioprio''\<rparr>])
    ]"

definition syscallParams_8 :: "constEnv \<Rightarrow> (int \<times> ArgMeta list) list" where
  "syscallParams_8 K = [
     (K ''IoprioGetEventID'', [\<lparr>ArgType = ''int'', ArgName = ''which''\<rparr>, \<lparr>ArgType = ''int'', ArgName = ''who''\<rparr>]),
     (K ''InotifyInitEventID'', []),
     (K ''InotifyAddWatchEventID'', [\<lparr>ArgType = ''int'', ArgName = ''fd''\<rparr>, \<lparr>ArgType = ''const char*'', ArgName = ''pathname''\<rparr>, \<lparr>ArgType = ''u32'', ArgName = ''mask''\<rparr>]),
     (K ''InotifyRmWatchEventID'', [\<lparr>ArgType = ''int'', ArgName = ''fd''\<rparr>, \<lparr>ArgType = ''int'', ArgName = ''wd''\<rparr>]),
     (K ''MigratePagesEventID'', [\<lparr>ArgType = ''int'', ArgName = ''pid''\<rparr>, \<lparr>ArgType = ''unsigned long'', ArgName = ''maxnode''\<rparr>, \<lparr>ArgType = ''const unsigned long*'', ArgName = ''old_nodes''\<rparr>, \<lparr>ArgType = ''const unsigned long*'', ArgName = ''new_nodes''\<rparr>]),
     (K ''OpenatEventID'', [\<lparr>ArgType = ''int'', ArgName = ''dirfd''\<rparr>, \<lparr>ArgType = ''const char*'', ArgName = ''pathname''\<rparr>, \<lparr>ArgType = ''int'', ArgName = ''flags''\<rparr>, \<lparr>ArgType = ''mode_t'', ArgName = ''mode''\<rparr>]),
     (K ''MkdiratEventID'', [\<lparr>ArgType = ''int'', ArgName = ''dirfd''\<rparr>, \<lparr>ArgType = ''const char*'', ArgName = ''pathname''\<rparr>, \<lparr>ArgType = ''mode_t'', ArgName = ''mode''\<rparr>]),
     (K ''MknodatEventID'', [\<lparr>ArgType = ''int'', ArgName = ''dirfd''\<rparr>, \<lparr>ArgType = ''const char*'', ArgName = ''pathname''\<rparr>, \<lparr>ArgType = ''mode_t'', ArgName = ''mode''\<rparr>, \<lparr>ArgType = ''dev_t'', ArgName = ''dev''\<rparr>]),
     (K ''FchownatEventID'', [\<lparr>ArgType = ''int'', ArgName = ''dirfd''\<rparr>, \<lparr>ArgType = ''const char*'', ArgName = ''pathname''\<rparr>, \<lparr>ArgType = ''uid_t'', ArgName = ''owner''\<rparr>, \<lparr>ArgType = ''gid_t'', ArgName = ''group''\<rparr>, \<lparr>ArgType = ''int'', ArgName = ''flags''\<rparr>]),
     (K ''FutimesatEventID'', [\<lparr>ArgType = ''int'', ArgName = ''dirfd''\<rparr>, \<lparr>ArgType = ''const char*'', ArgName = ''pathname''\<rparr>, \<lparr>ArgType = ''struct timeval*'', ArgName = ''times''\<rparr>]),
     (K ''NewfstatatEventID'', [\<lparr>ArgType = ''int'', ArgName = ''dirfd''\<rparr>, \<lparr>ArgType = ''const char*'', ArgName = ''pathname''\<rparr>, \<lparr>ArgType = ''struct stat*'', ArgName = ''statbuf''\<rparr>, \<lparr>ArgType = ''int'', ArgName = ''flags''\<rparr>]),
     (K ''UnlinkatEventID'', [\<lparr>ArgType = ''int'', ArgName = ''dirfd''\<rparr>, \<lparr>ArgType = ''const char*'', ArgName = ''pathname''\<rparr>, \<lparr>ArgType = ''int'', ArgName = ''flags''\<rparr>]),
     (K ''RenameatEventID'', [\<lparr>ArgType = ''int'', ArgName = ''olddirfd''\<rparr>, \<lparr>ArgType = ''const char*'', ArgName = ''oldpath''\<rparr>, \<lparr>ArgType = ''int'', ArgName = ''newdirfd''\<rparr>, \<lparr>ArgType = ''const char*'', ArgName = ''newpath''\<rparr>]),
     (K ''LinkatEventID'', [\<lparr>ArgType = ''int'', ArgName = ''olddirfd''\<rparr>, \<lparr>ArgType = ''const char*'', ArgName = ''oldpath''\<rparr>, \<lparr>ArgType = ''int'', ArgName = ''newdirfd''\<rparr>, \<lparr>ArgType = ''const char*'', ArgName = ''newpath''\<rparr>, \<lparr>ArgType = ''unsigned int'', ArgName = ''flags''\<rparr>]),
     (K ''SymlinkatEventID'', [\<lparr>ArgType = ''const char*'', ArgName = ''target''\<rparr>, \<lparr>ArgType = ''int'', ArgName = ''newdirfd''\<rparr>, \<lparr>ArgType = ''const char*'', ArgName = ''linkpath''\<rparr>]),
     (K ''ReadlinkatEventID'', [\<lparr>ArgType = ''int'', ArgName = ''dirfd''\<rparr>, \<lparr>ArgType = ''const char*'', ArgName = ''pathname''\<rparr>, \<lparr>ArgType = ''char*'', ArgName = ''buf''\<rparr>, \<lparr>ArgType = ''int'', ArgName = ''bufsiz''\<rparr>]),
     (K ''FchmodatEventID'', [\<lparr>ArgType = ''int'', ArgName = ''dirfd''\<rparr>, \<lparr>ArgType = ''const char*'', ArgName = ''pathname''\<rparr>, \<lparr>ArgType = ''mode_t'', ArgName = ''mode''\<rparr>, \<lparr>ArgType = ''int'', ArgName = ''flags''\<rparr>]),
     (K ''FaccessatEventID'', [\<lparr>ArgType = ''int'', ArgName = ''dirfd''\<rparr>, \<lparr>ArgType = ''const char*'', ArgName = ''pathname''\<rparr>, \<lparr>ArgType = ''int'', ArgName = ''mode''\<rparr>, \<lparr>ArgType = ''int'', ArgName = ''flags''\<rparr>]),
     (K ''Pselect6EventID'', [\<lparr>ArgType = ''int'', ArgName = ''nfds''\<rparr>, \<lparr>ArgType = ''fd_set*'', ArgName = ''readfds''\<rparr>, \<lparr>ArgType = ''fd_set*'', ArgName = ''writefds''\<rparr>, \<lparr>ArgType = ''fd_set*'', ArgName = ''exceptfds''\<rparr>, \<lparr>ArgType = ''struct timespec*'', ArgName = ''timeout''\<rparr>, \<lparr>ArgType = ''void*'', ArgName = ''sigmask''\<rparr>]),
     (K ''PpollEventID'', [\<lparr>ArgType = ''struct pollfd*'', ArgName = ''fds''\<rparr>, \<lparr>ArgType = ''unsigned int'', ArgName = ''nfds''\<rparr>, \<lparr>ArgType = ''struct timespec*'', ArgName = ''tmo_p''\<rparr>, \<lparr>ArgType = ''const sigset_t*'', ArgName = ''sigmask''\<rparr>, \<lparr>ArgType = ''size_t'', ArgName = ''sigsetsize''\<rparr>]),
     (K ''UnshareEventID'', [\<lparr>ArgType = ''int'', ArgName = ''flags''\<rparr>]),
     (K ''SetRobustListEventID'', [\<lparr>ArgType = ''struct robust_list_head*'', ArgName = ''head''\<rparr>, \<lparr>ArgType = ''size_t'', ArgName = ''len''\<rparr>]),
     (K ''GetRobustListEventID'', [\<lparr>ArgType = ''int'', ArgName = ''pid''\<rparr>, \<lparr>ArgType = ''struct robust_list_head**'', ArgName = ''head_ptr''\<rparr>, \<lparr>ArgType = ''size_t*'', ArgName = ''len_ptr''\<rparr>]),
     (K ''SpliceEventID'', [\<lparr>ArgType = ''int'', ArgName = ''fd_in''\<rparr>, \<lparr>ArgType = ''off_t*'', ArgName = ''off_in''\<rparr>, \<lparr>ArgType = ''int'', ArgName = ''fd_out''\<rparr>, \<lparr>ArgType = ''off_t*'', ArgName = ''off_out''\<rparr>, \<lparr>ArgType = ''size_t'', ArgName = ''len''\<rparr>, \<lparr>ArgType = ''unsigned int'', ArgName = ''flags''\<rparr>]),
     (K ''TeeEventID'', [\<lparr>ArgType = ''int'', ArgName = ''fd_in''\<rparr>, \<lparr>ArgType = ''int'', ArgName = ''fd_out''\<rparr>, \<lparr>ArgType = ''size_t'', ArgName = ''len''\<rparr>, \<lparr>ArgType = ''unsigned int'', ArgName = ''flags''\<rparr>]),
     (K ''SyncFileRangeEventID'', [\<lparr>ArgType = ''int'', ArgName = ''fd''\<rparr>, \<lparr>ArgType = ''off_t'', ArgName = ''offset''\<rparr>, \<lparr>ArgType = ''off_t'', ArgName = ''nbytes''\<rparr>, \<lparr>ArgType = ''unsigned int'', ArgName = ''flags''\<rparr>]),
     (K ''VmspliceEventID'', [\<lparr>ArgType = ''int'', ArgName = ''fd''\<rparr>, \<lparr>ArgType = ''const struct iovec*'', ArgName = ''iov''\<rparr>, \<lparr>ArgType = ''unsigned long'', ArgName = ''nr_segs''\<rparr>, \<lparr>ArgType = ''unsigned int'', ArgName = ''flags''\<rparr>]),
     (K ''MovePagesEventID'', [\<lparr>ArgType = ''int'', ArgName = ''pid''\<rparr>, \<lparr>ArgType = ''unsigned long'', ArgName = ''count''\<rparr>, \<lparr>ArgType = ''const void**'', ArgName = ''pages''\<rparr>, \<lparr>ArgType = ''const int*'', ArgName = ''nodes''\<rparr>, \<lparr>ArgType = ''int*'', ArgName = ''status''\<rparr>, \<lparr>ArgType = ''int'', ArgName = ''flags''\<rparr>]),
     (K ''UtimensatEventID'', [\<lparr>ArgType = ''int'', ArgName = ''dirfd''\<rparr>, \<lparr>ArgType = ''const char*'', ArgName = ''pathname''\<rparr>, \<lparr>ArgType = ''struct timespec*'', ArgName = ''times''\<rparr>, \<lparr>ArgType = ''int'', ArgName = ''flags''\<rparr>]),
     (K ''EpollPwaitEventID'', [\<lparr>ArgType = ''int'', ArgName = ''epfd''\<rparr>, \<lparr>ArgType = ''struct epoll_event*'', ArgName = ''events''\<rparr>, \<lparr>ArgType = ''int'', ArgName = ''maxevents''\<rparr>, \<lparr>ArgType = ''int'', ArgName = ''timeout''\<rparr>, \<lparr>ArgType = ''const sigset_t*'', ArgName = ''sigmask''\<rparr>, \<lparr>ArgType = ''size_t'', ArgName = ''sigsetsize''\<rparr>])
    ]"

definition syscallParams_9 :: "constEnv \<Rightarrow> (int \<times> ArgMeta list) list" where
  "syscallParams_9 K = [
     (K ''SignalfdEventID'', [\<lparr>ArgType = ''int'', ArgName = ''fd''\<rparr>, \<lparr>ArgType = ''sigset_t*'', ArgName = ''mask''\<rparr>, \<lparr>ArgType = ''int'', ArgName = ''flags''\<rparr>]),
     (K ''TimerfdCreateEventID'', [\<lparr>ArgType = ''int'', ArgName = ''clockid''\<rparr>, \<lparr>ArgType = ''int'', ArgName = ''flags''\<rparr>]),
     (K ''EventfdEventID'', [\<lparr>ArgType = ''unsigned int'', ArgName = ''initval''\<rparr>, \<lparr>ArgType = ''int'', ArgName = ''flags''\<rparr>]),
     (K ''FallocateEventID'', [\<lparr>ArgType = ''int'', ArgName = ''fd''\<rparr>, \<lparr>ArgType = ''int'', ArgName = ''mode''\<rparr>, \<lparr>ArgType = ''off_t'', ArgName = ''offset''\<rparr>, \<lparr>ArgType = ''off_t'', ArgName = ''len''\<rparr>]),
     (K ''TimerfdSettimeEventID'', [\<lparr>ArgType = ''int'', ArgName = ''fd''\<rparr>, \<lparr>ArgType = ''int'', ArgName = ''flags''\<rparr>, \<lparr>ArgType = ''const struct itimerspec*'', ArgName = ''new_value''\<rparr>, \<lparr>ArgType = ''struct itimerspec*'', ArgName = ''old_value''\<rparr>]),
     (K ''TimerfdGettimeEventID'', [\<lparr>ArgType = ''int'', ArgName = ''fd''\<rparr>, \<lparr>ArgType = ''struct itimerspec*'', ArgName = ''curr_value''\<rparr>]),
     (K ''Accept4EventID'', [\<lparr>ArgType = ''int'', ArgName = ''sockfd''\<rparr>, \<lparr>ArgType = ''struct sockaddr*'', ArgName = ''addr''\<rparr>, \<lparr>ArgType = ''int*'', ArgName = ''addrlen''\<rparr>, \<lparr>ArgType = ''int'', ArgName = ''flags''\<rparr>]),
     (K ''Signalfd4EventID'', [\<lparr>ArgType = ''int'', ArgName = ''fd''\<rparr>, \<lparr>ArgType = ''const sigset_t*'', ArgName = ''mask''\<rparr>, \<lparr>ArgType = ''size_t'', ArgName = ''sizemask''\<rparr>, \<lparr>ArgType = ''int'', ArgName = ''flags''\<rparr>]),
     (K ''Eventfd2EventID'', [\<lparr>ArgType = ''unsigned int'', ArgName = ''initval''\<rparr>, \<lparr>ArgType = ''int'', ArgName = ''flags''\<rparr>]),
     (K ''EpollCreate1EventID'', [\<lparr>ArgType = ''int'', ArgName = ''flags''\<rparr>]),
     (K ''Dup3EventID'', [\<lparr>ArgType = ''int'', ArgName = ''oldfd''\<rparr>, \<lparr>ArgType = ''int'', ArgName = ''newfd''\<rparr>, \<lparr>ArgType = ''int'', ArgName = ''flags''\<rparr>]),
     (K ''Pipe2EventID'', [\<lparr>ArgType = ''int[2]'', ArgName = ''pipefd''\<rparr>, \<lparr>ArgType = ''int'', ArgName = ''flags''\<rparr>]),
     (K ''InotifyInit1EventID'', [\<lparr>ArgType = ''int'', ArgName = ''flags''\<rparr>]),
     (K ''PreadvEventID'', [\<lparr>ArgType = ''int'', ArgName = ''fd''\<rparr>, \<lparr>ArgType = ''const struct iovec*'', ArgName = ''iov''\<rparr>, \<lparr>ArgType = ''unsigned long'', ArgName = ''iovcnt''\<rparr>, \<lparr>ArgType = ''unsigned long'', ArgName = ''pos_l''\<rparr>, \<lparr>ArgType = ''unsigned long'', ArgName = ''pos_h''\<rparr>]),
     (K ''PwritevEventID'', [\<lparr>ArgType = ''int'', ArgName = ''fd''\<rparr>, \<lparr>ArgType = ''const struct iovec*'', ArgName = ''iov''\<rparr>, \<lparr>ArgType = ''unsigned long'', ArgName = ''iovcnt''\<rparr>, \<lparr>ArgType = ''unsigned long'', ArgName = ''pos_l''\<rparr>, \<lparr>ArgType = ''unsigned long'', ArgName = ''pos_h''\<rparr>]),
     (K ''RtTgsigqueueinfoEventID'', [\<lparr>ArgType = ''pid_t'', ArgName = ''tgid''\<rparr>, \<lparr>ArgType = ''pid_t'', ArgName = ''tid''\<rparr>, \<lparr>ArgType = ''int'', ArgName = ''sig''\<rparr>, \<lparr>ArgType = ''siginfo_t*'', ArgName = ''info''\<rparr>]),
     (K ''PerfEventOpenEventID'', [\<lparr>ArgType = ''struct perf_event_attr*'', ArgName = ''attr''\<rparr>, \<lparr>ArgType = ''pid_t'', ArgName = ''pid''\<rparr>, \<lparr>ArgType = ''int'', ArgName = ''cpu''\<rparr>, \<lparr>ArgType = ''int'', ArgName = ''group_fd''\<rparr>, \<lparr>ArgType = ''unsigned long'', ArgName = ''flags''\<rparr>]),
     (K ''RecvmmsgEventID'', [\<lparr>ArgType = ''int'', ArgName = ''sockfd''\<rparr>, \<lparr>ArgType = ''struct mmsghdr*'', ArgName = ''msgvec''\<rparr>, \<lparr>ArgType = ''unsigned int'', ArgName = ''vlen''\<rparr>, \<lparr>ArgType = ''int'', ArgName = ''flags''\<rparr>, \<lparr>ArgType = ''struct timespec*'', ArgName = ''timeout''\<rparr>]),
     (K ''FanotifyInitEventID'', [\<lparr>ArgType = ''unsigned int'', ArgName = ''flags''\<rparr>, \<lparr>ArgType = ''unsigned int'', ArgName = ''event_f_flags''\<rparr>]),
     (K ''FanotifyMarkEventID'', [\<lparr>ArgType = ''int'', ArgName = ''fanotify_fd''\<rparr>, \<lparr>ArgType = ''unsigned int'', ArgName = ''flags''\<rparr>, \<lparr>ArgType = ''u64'', ArgName = ''mask''\<rparr>, \<lparr>ArgType = ''int'', ArgName = ''dirfd''\<rparr>, \<lparr>ArgType = ''const char*'', ArgName = ''pathname''\<rparr>]),
     (K ''Prlimit64EventID'', [\<lparr>ArgType = ''pid_t'', ArgName = ''pid''\<rparr>, \<lparr>ArgType = ''int'', ArgName = ''resource''\<rparr>, \<lparr>ArgType = ''const struct rlimit64*'', ArgName = ''new_limit''\<rparr>, \<lparr>ArgType = ''struct rlimit64*'', ArgName = ''old_limit''\<rparr>]),
     (K ''NameToHandleAtEventID'', [\<lparr>ArgType = ''int'', ArgName = ''dirfd''\<rparr>, \<lparr>ArgType = ''const char*'', ArgName = ''pathname''\<rparr>, \<lparr>ArgType = ''struct file_handle*'', ArgName = ''handle''\<rparr>, \<lparr>ArgType = ''int*'', ArgName = ''mount_id''\<rparr>, \<lparr>ArgType = ''int'', ArgName = ''flags''\<rparr>]),
     (K ''OpenByHandleAtEventID'', [\<lparr>ArgType = ''int'', ArgName = ''mount_fd''\<rparr>, \<lparr>ArgType = ''struct file_handle*'', ArgName = ''handle''\<rparr>, \<lparr>ArgType = ''int'', ArgName = ''flags''\<rparr>]),
     (K ''ClockAdjtimeEventID'', [\<lparr>ArgType = ''const clockid_t'', ArgName = ''clk_id''\<rparr>, \<lparr>ArgType = ''struct timex*'', ArgName = ''buf''\<rparr>]),
     (K ''SyncfsEventID'', [\<lparr>ArgType = ''int'', ArgName = ''fd''\<rparr>]),
     (K ''SendmmsgEventID'', [\<lparr>ArgType = ''int'', ArgName = ''sockfd''\<rparr>, \<lparr>ArgType = ''struct mmsghdr*'', ArgName = ''msgvec''\<rparr>, \<lparr>ArgType = ''unsigned int'', ArgName = ''vlen''\<rparr>, \<lparr>ArgType = ''int'', ArgName = ''flags''\<rparr>]),
     (K ''SetnsEventID'', [\<lparr>ArgType = ''int'', ArgName = ''fd''\<rparr>, \<lparr>ArgType = ''int'', ArgName = ''nstype''\<rparr>]),
     (K ''GetcpuEventID'', [\<lparr>ArgType = ''unsigned int*'', ArgName = ''cpu''\<rparr>, \<lparr>ArgType = ''unsigned int*'', ArgName = ''node''\<rparr>, \<lparr>ArgType = ''struct getcpu_cache*'', ArgName = ''tcache''\<rparr>]),
     (K ''ProcessVmReadvEventID'', [\<lparr>ArgType = ''pid_t'', ArgName = ''pid''\<rparr>, \<lparr>ArgType = ''const struct iovec*'', ArgName = ''local_iov''\<rparr>, \<lparr>ArgType = ''unsigned long'', ArgName = ''liovcnt''\<rparr>, \<lparr>ArgType = ''const struct iovec*'', ArgName = ''remote_iov''\<rparr>, \<lparr>ArgType = ''unsigned long'', ArgName = ''riovcnt''\<rparr>, \<lparr>ArgType = ''unsigned long'', ArgName = ''flags''\<rparr>]),
     (K ''ProcessVmWritevEventID'', [\<lparr>ArgType = ''pid_t'', ArgName = ''pid''\<rparr>, \<lparr>ArgType = ''const struct iovec*'', ArgName = ''local_iov''\<rparr>, \<lparr>ArgType = ''unsigned long'', ArgName = ''liovcnt''\<rparr>, \<lparr>ArgType = ''const struct iovec*'', ArgName = ''remote_iov''\<rparr>, \<lparr>ArgType = ''unsigned long'', ArgName = ''riovcnt''\<rparr>, \<lparr>ArgType = ''unsigned long'', ArgName = ''flags''\<rparr>])
    ]"

definition syscallParams_10 :: "constEnv \<Rightarrow> (int \<times> ArgMeta list) list" where
  "syscallParams_10 K = [
     (K ''KcmpEventID'', [\<lparr>ArgType = ''pid_t'', ArgName = ''pid1''\<rparr>, \<lparr>ArgType = ''pid_t'', ArgName = ''pid2''\<rparr>, \<lparr>ArgType = ''int'', ArgName = ''type''\<rparr>, \<lparr>ArgType = ''unsigned long'', ArgName = ''idx1''\<rparr>, \<lparr>ArgType = ''unsigned long'', ArgName = ''idx2''\<rparr>]),
     (K ''FinitModuleEventID'', [\<lparr>ArgType = ''int'', ArgName = ''fd''\<rparr>, \<lparr>ArgType = ''const char*'', ArgName = ''param_values''\<rparr>, \<lparr>ArgType = ''int'', ArgName = ''flags''\<rparr>]),
     (K ''SchedSetattrEventID'', [\<lparr>ArgType = ''pid_t'', ArgName = ''pid''\<rparr>, \<lparr>ArgType = ''struct sched_attr*'', ArgName = ''attr''\<rparr>, \<lparr>ArgType = ''unsigned int'', ArgName = ''flags''\<rparr>]),
     (K ''SchedGetattrEventID'', [\<lparr>ArgType = ''pid_t'', ArgName = ''pid''\<rparr>, \<lparr>ArgType = ''struct sched_attr*'', ArgName = ''attr''\<rparr>, \<lparr>ArgType = ''unsigned int'', ArgName = ''size''\<rparr>, \<lparr>ArgType = ''unsigned int'', ArgName = ''flags''\<rparr>]),
     (K ''Renameat2EventID'', [\<lparr>ArgType = ''int'', ArgName = ''olddirfd''\<rparr>, \<lparr>ArgType = ''const char*'', ArgName = ''oldpath''\<rparr>, \<lparr>ArgType = ''int'', ArgName = ''newdirfd''\<rparr>, \<lparr>ArgType = ''const char*'', ArgName = ''newpath''\<rparr>, \<lparr>ArgType = ''unsigned int'', ArgName = ''flags''\<rparr>]),
     (K ''SeccompEventID'', [\<lparr>ArgType = ''unsigned int'', ArgName = ''operation''\<rparr>, \<lparr>ArgType = ''unsigned int'', ArgName = ''flags''\<rparr>, \<lparr>ArgType = ''const void*'', ArgName = ''args''\<rparr>]),
     (K ''GetrandomEventID'', [\<lparr>ArgType = ''void*'', ArgName = ''buf''\<rparr>, \<lparr>ArgType = ''size_t'', ArgName = ''buflen''\<rparr>, \<lparr>ArgType = ''unsigned int'', ArgName = ''flags''\<rparr>]),
     (K ''MemfdCreateEventID'', [\<lparr>ArgType = ''const char*'', ArgName = ''name''\<rparr>, \<lparr>ArgType = ''unsigned int'', ArgName = ''flags''\<rparr>]),
     (K ''KexecFileLoadEventID'', [\<lparr>ArgType = ''int'', ArgName = ''kernel_fd''\<rparr>, \<lparr>ArgType = ''int'', ArgName = ''initrd_fd''\<rparr>, \<lparr>ArgType = ''unsigned long'', ArgName = ''cmdline_len''\<rparr>, \<lparr>ArgType = ''const char*'', ArgName = ''cmdline''\<rparr>, \<lparr>ArgType = ''unsigned long'', ArgName = ''flags''\<rparr>]),
     (K ''BpfEventID'', [\<lparr>ArgType = ''int'', ArgName = ''cmd''\<rparr>, \<lparr>ArgType = ''union bpf_attr*'', ArgName = ''attr''\<rparr>, \<lparr>ArgType = ''unsigned int'', ArgName = ''size''\<rparr>]),
     (K ''ExecveatEventID'', [\<lparr>ArgType = ''int'', ArgName = ''dirfd''\<rparr>, \<lparr>ArgType = ''const char*'', ArgName = ''pathname''\<rparr>, \<lparr>ArgType = ''const char*const*'', ArgName = ''argv''\<rparr>, \<lparr>ArgType = ''const char*const*'', ArgName = ''envp''\<rparr>, \<lparr>ArgType = ''int'', ArgName = ''flags''\<rparr>]),
     (K ''UserfaultfdEventID'', [\<lparr>ArgType = ''int'', ArgName = ''flags''\<rparr>]),
     (K ''MembarrierEventID'', [\<lparr>ArgType = ''int'', ArgName = ''cmd''\<rparr>, \<lparr>ArgType = ''int'', ArgName = ''flags''\<rparr>]),
     (K ''Mlock2EventID'', [\<lparr>ArgType = ''const void*'', ArgName = ''addr''\<rparr>, \<lparr>ArgType = ''size_t'', ArgName = ''len''\<rparr>, \<lparr>ArgType = ''int'', ArgName = ''flags''\<rparr>]),
     (K ''CopyFileRangeEventID'', [\<lparr>ArgType = ''int'', ArgName = ''fd_in''\<rparr>, \<lparr>ArgType = ''off_t*'', ArgName = ''off_in''\<rparr>, \<lparr>ArgType = ''int'', ArgName = ''fd_out''\<rparr>, \<lparr>ArgType = ''off_t*'', ArgName = ''off_out''\<rparr>, \<lparr>ArgType = ''size_t'', ArgName = ''len''\<rparr>, \<lparr>ArgType = ''unsigned int'', ArgName = ''flags''\<rparr>]),
     (K ''Preadv2EventID'', [\<lparr>ArgType = ''int'', ArgName = ''fd''\<rparr>, \<lparr>ArgType = ''const struct iovec*'', ArgName = ''iov''\<rparr>, \<lparr>ArgType = ''unsigned long'', ArgName = ''iovcnt''\<rparr>, \<lparr>ArgType = ''unsigned long'', ArgName = ''pos_l''\<rparr>, \<lparr>ArgType = ''unsigned long'', ArgName = ''pos_h''\<rparr>, \<lparr>ArgType = ''int'', ArgName = ''flags''\<rparr>]),
     (K ''Pwritev2EventID'', [\<lparr>ArgType = ''int'', ArgName = ''fd''\<rparr>, \<lparr>ArgType = ''const struct iovec*'', ArgName = ''iov''\<rparr>, \<lparr>ArgType = ''unsigned long'', ArgName = ''iovcnt''\<rparr>, \<lparr>ArgType = ''unsigned long'', ArgName = ''pos_l''\<rparr>, \<lparr>ArgType = ''unsigned long'', ArgName = ''pos_h''\<rparr>, \<lparr>ArgType = ''int'', ArgName = ''flags''\<rparr>]),
     (K ''PkeyMprotectEventID'', [\<lparr>ArgType = ''void*'', ArgName = ''addr''\<rparr>, \<lparr>ArgType = ''size_t'', ArgName = ''len''\<rparr>, \<lparr>ArgType = ''int'', ArgName = ''prot''\<rparr>, \<lparr>ArgType = ''int'', ArgName = ''pkey''\<rparr>]),
     (K ''PkeyAllocEventID'', [\<lparr>ArgType = ''unsigned int'', ArgName = ''flags''\<rparr>, \<lparr>ArgType = ''unsigned long'', ArgName = ''access_rights''\<rparr>]),
     (K ''PkeyFreeEventID'', [\<lparr>ArgType = ''int'', ArgName = ''pkey''\<rparr>]),
     (K ''StatxEventID'', [\<lparr>ArgType = ''int'', ArgName = ''dirfd''\<rparr>, \<lparr>ArgType = ''const char*'', ArgName = ''pathname''\<rparr>, \<lparr>ArgType = ''int'', ArgName = ''flags''\<rparr>, \<lparr>ArgType = ''unsigned int'', ArgName = ''mask''\<rparr>, \<lparr>ArgType = ''struct statx*'', ArgName = ''statxbuf''\<rparr>]),
     (K ''IoPgeteventsEventID'', [\<lparr>ArgType = ''aio_context_t'', ArgName = ''ctx_id''\<rparr>, \<lparr>ArgType = ''long'', ArgName = ''min_nr''\<rparr>, \<lparr>ArgType = ''long'', ArgName = ''nr''\<rparr>, \<lparr>ArgType = ''struct io_event*'', ArgName = ''events''\<rparr>, \<lparr>ArgType = ''struct timespec*'', ArgName = ''timeout''\<rparr>, \<lparr>ArgType = ''const struct __aio_sigset*'', ArgName = ''usig''\<rparr>]),
     (K ''RseqEventID'', [\<lparr>ArgType = ''struct rseq*'', ArgName = ''rseq''\<rparr>, \<lparr>ArgType = ''u32'', ArgName = ''rseq_len''\<rparr>, \<lparr>ArgType = ''int'', ArgName = ''flags''\<rparr>, \<lparr>ArgType = ''u32'', ArgName = ''sig''\<rparr>]),
     (K ''PidfdSendSignalEventID'', [\<lparr>ArgType = ''int'', ArgName = ''pidfd''\<rparr>, \<lparr>ArgType = ''int'', ArgName = ''sig''\<rparr>, \<lparr>ArgType = ''siginfo_t*'', ArgName = ''info''\<rparr>, \<lparr>ArgType = ''unsigned int'', ArgName = ''flags''\<rparr>]),
     (K ''IoUringSetupEventID'', [\<lparr>ArgType = ''unsigned int'', ArgName = ''entries''\<rparr>, \<lparr>ArgType = ''struct io_uring_params*'', ArgName = ''p''\<rparr>]),
     (K ''IoUringEnterEventID'', [\<lparr>ArgType = ''unsigned int'', ArgName = ''fd''\<rparr>, \<lparr>ArgType = ''unsigned int'', ArgName = ''to_submit''\<rparr>, \<lparr>ArgType = ''unsigned int'', ArgName = ''min_complete''\<rparr>, \<lparr>ArgType = ''unsigned int'', ArgName = ''flags''\<rparr>, \<lparr>ArgType = ''sigset_t*'', ArgName = ''sig''\<rparr>]),
     (K ''IoUringRegisterEventID'', [\<lparr>ArgType = ''unsigned int'', ArgName = ''fd''\<rparr>, \<lparr>ArgType = ''unsigned int'', ArgName = ''opcode''\<rparr>, \<lparr>ArgType = ''void*'', ArgName = ''arg''\<rparr>, \<lparr>ArgType = ''unsigned int'', ArgName = ''nr_args''\<rparr>]),
     (K ''OpenTreeEventID'', [\<lparr>ArgType = ''int'', ArgName = ''dfd''\<rparr>, \<lparr>ArgType = ''const char*'', ArgName = ''filename''\<rparr>, \<lparr>ArgType = ''unsigned int'', ArgName = ''flags''\<rparr>]),
     (K ''MoveMountEventID'', [\<lparr>ArgType = ''int'', ArgName = ''from_dfd''\<rparr>, \<lparr>ArgType = ''const char*'', ArgName = ''from_path''\<rparr>, \<lparr>ArgType = ''int'', ArgName = ''to_dfd''\<rparr>, \<lparr>ArgType = ''const char*'', ArgName = ''to_path''\<rparr>, \<lparr>ArgType = ''unsigned int'', ArgName = ''flags''\<rparr>]),
     (K ''FsopenEventID'', [\<lparr>ArgType = ''const char*'', ArgName = ''fsname''\<rparr>, \<lparr>ArgType = ''unsigned int'', ArgName = ''flags''\<rparr>])
    ]"

definition syscallParams_11 :: "constEnv \<Rightarrow> (int \<times> ArgMeta list) list" where
  "syscallParams_11 K = [
     (K ''FsconfigEventID'', [\<lparr>ArgType = ''int*'', ArgName = ''fs_fd''\<rparr>, \<lparr>ArgType = ''unsigned int'', ArgName = ''cmd''\<rparr>, \<lparr>ArgType = ''const char*'', ArgName = ''key''\<rparr>, \<lparr>ArgType = ''const void*'', ArgName = ''value''\<rparr>, \<lparr>ArgType = ''int'', ArgName = ''aux''\<rparr>]),
     (K ''FsmountEventID'', [\<lparr>ArgType = ''int'', ArgName = ''fsfd''\<rparr>, \<lparr>ArgType = ''unsigned int'', ArgName = ''flags''\<rparr>, \<lparr>ArgType = ''unsigned int'', ArgName = ''ms_flags''\<rparr>]),
     (K ''FspickEventID'', [\<lparr>ArgType = ''int'', ArgName = ''dirfd''\<rparr>, \<lparr>ArgType = ''const char*'', ArgName = ''pathname''\<rparr>, \<lparr>ArgType = ''unsigned int'', ArgName = ''flags''\<rparr>]),
     (K ''PidfdOpenEventID'', [\<lparr>ArgType = ''pid_t'', ArgName = ''pid''\<rparr>, \<lparr>ArgType = ''unsigned int'', ArgName = ''flags''\<rparr>]),
     (K ''Clone3EventID'', [\<lparr>ArgType = ''struct clone_args*'', ArgName = ''cl_args''\<rparr>, \<lparr>ArgType = ''size_t'', ArgName = ''size''\<rparr>]),
     (K ''CloseRangeEventID'', [\<lparr>ArgType = ''unsigned int'', ArgName = ''first''\<rparr>, \<lparr>ArgType = ''unsigned int'', ArgName = ''last''\<rparr>]),
     (K ''Openat2EventID'', [\<lparr>ArgType = ''int'', ArgName = ''dirfd''\<rparr>, \<lparr>ArgType = ''const char*'', ArgName = ''pathname''\<rparr>, \<lparr>ArgType = ''struct open_how*'', ArgName = ''how''\<rparr>, \<lparr>ArgType = ''size_t'', ArgName = ''size''\<rparr>]),
     (K ''PidfdGetfdEventID'', [\<lparr>ArgType = ''int'', ArgName = ''pidfd''\<rparr>, \<lparr>ArgType = ''int'', ArgName = ''targetfd''\<rparr>, \<lparr>ArgType = ''unsigned int'', ArgName = ''flags''\<rparr>]),
     (K ''Faccessat2EventID'', [\<lparr>ArgType = ''int'', ArgName = ''fd''\<rparr>, \<lparr>ArgType = ''const char*'', ArgName = ''path''\<rparr>, \<lparr>ArgType = ''int'', ArgName = ''mode''\<rparr>, \<lparr>ArgType = ''int'', ArgName = ''flag''\<rparr>]),
     (K ''ProcessMadviseEventID'', [\<lparr>ArgType = ''int'', ArgName = ''pidfd''\<rparr>, \<lparr>ArgType = ''void*'', ArgName = ''addr''\<rparr>, \<lparr>ArgType = ''size_t'', ArgName = ''length''\<rparr>, \<lparr>ArgType = ''int'', ArgName = ''advice''\<rparr>, \<lparr>ArgType = ''unsigned long'', ArgName = ''flags''\<rparr>]),
     (K ''EpollPwait2EventID'', [\<lparr>ArgType = ''int'', ArgName = ''fd''\<rparr>, \<lparr>ArgType = ''struct epoll_event*'', ArgName = ''events''\<rparr>, \<lparr>ArgType = ''int'', ArgName = ''maxevents''\<rparr>, \<lparr>ArgType = ''const struct timespec*'', ArgName = ''timeout''\<rparr>, \<lparr>ArgType = ''const sigset_t*'', ArgName = ''sigset''\<rparr>])
    ]"

definition syscallParams :: "constEnv \<Rightarrow> (int \<times> ArgMeta list) list" where
  "syscallParams K =
     syscallParams_0 K @
     syscallParams_1 K @
     syscallParams_2 K @
     syscallParams_3 K @
     syscallParams_4 K @
     syscallParams_5 K @
     syscallParams_6 K @
     syscallParams_7 K @
     syscallParams_8 K @
     syscallParams_9 K @
     syscallParams_10 K @
     syscallParams_11 K"

definition nonSyscallParams :: "(int \<times> ArgMeta list) list" where
  "nonSyscallParams = [
     (SysEnterEventID, [\<lparr>ArgType = ''int'', ArgName = ''syscall''\<rparr>]),
     (SysExitEventID, [\<lparr>ArgType = ''int'', ArgName = ''syscall''\<rparr>]),
     (SchedProcessForkEventID, [\<lparr>ArgType = ''int'', ArgName = ''parent_tid''\<rparr>, \<lparr>ArgType = ''int'', ArgName = ''parent_ns_tid''\<rparr>, \<lparr>ArgType = ''int'', ArgName = ''child_tid''\<rparr>, \<lparr>ArgType = ''int'', ArgName = ''child_ns_tid''\<rparr>]),
     (SchedProcessExecEventID, [\<lparr>ArgType = ''const char*'', ArgName = ''cmdpath''\<rparr>, \<lparr>ArgType = ''const char*'', ArgName = ''pathname''\<rparr>, \<lparr>ArgType = ''const char**'', ArgName = ''argv''\<rparr>, \<lparr>ArgType = ''const char**'', ArgName = ''env''\<rparr>, \<lparr>ArgType = ''dev_t'', ArgName = ''dev''\<rparr>, \<lparr>ArgType = ''unsigned long'', ArgName = ''inode''\<rparr>, \<lparr>ArgType = ''int'', ArgName = ''invoked_from_kernel''\<rparr>, \<lparr>ArgType = ''unsigned long'', ArgName = ''ctime''\<rparr>]),
     (SchedProcessExitEventID, [\<lparr>ArgType = ''long'', ArgName = ''exit_code''\<rparr>]),
     (SchedSwitchEventID, [\<lparr>ArgType = ''int'', ArgName = ''cpu''\<rparr>, \<lparr>ArgType = ''int'', ArgName = ''prev_tid''\<rparr>, \<lparr>ArgType = ''const char*'', ArgName = ''prev_comm''\<rparr>, \<lparr>ArgType = ''int'', ArgName = ''next_tid''\<rparr>, \<lparr>ArgType = ''const char*'', ArgName = ''next_comm''\<rparr>]),
     (DoExitEventID, []),
     (CapCapableEventID, [\<lparr>ArgType = ''int'', ArgName = ''cap''\<rparr>, \<lparr>ArgType = ''int'', ArgName = ''syscall''\<rparr>]),
     (VfsWriteEventID, [\<lparr>ArgType = ''const char*'', ArgName = ''pathname''\<rparr>, \<lparr>ArgType = ''dev_t'', ArgName = ''dev''\<rparr>, \<lparr>ArgType = ''unsigned long'', ArgName = ''inode''\<rparr>, \<lparr>ArgType = ''size_t'', ArgName = ''count''\<rparr>, \<lparr>ArgType = ''off_t'', ArgName = ''pos''\<rparr>]),
     (VfsWritevEventID, [\<lparr>ArgType = ''const char*'', ArgName = ''pathname''\<rparr>, \<lparr>ArgType = ''dev_t'', ArgName = ''dev''\<rparr>, \<lparr>ArgType = ''unsigned long'', ArgName = ''inode''\<rparr>, \<lparr>ArgType = ''unsigned long'', ArgName = ''vlen''\<rparr>, \<lparr>ArgType = ''off_t'', ArgName = ''pos''\<rparr>]),
     (MemProtAlertEventID, [\<lparr>ArgType = ''u32'', ArgName = ''alert''\<rparr>]),
     (CommitCredsEventID, [\<lparr>ArgType = ''slim_cred_t'', ArgName = ''old_cred''\<rparr>, \<lparr>ArgType = ''slim_cred_t'', ArgName = ''new_cred''\<rparr>, \<lparr>ArgType = ''int'', ArgName = ''syscall''\<rparr>]),
     (SwitchTaskNSEventID, [\<lparr>ArgType = ''pid_t'', ArgName = ''pid''\<rparr>, \<lparr>ArgType = ''u32'', ArgName = ''new_mnt''\<rparr>, \<lparr>ArgType = ''u32'', ArgName = ''new_pid''\<rparr>, \<lparr>ArgType = ''u32'', ArgName = ''new_uts''\<rparr>, \<lparr>ArgType = ''u32'', ArgName = ''new_ipc''\<rparr>, \<lparr>ArgType = ''u32'', ArgName = ''new_net''\<rparr>, \<lparr>ArgType = ''u32'', ArgName = ''new_cgroup''\<rparr>]),
     (MagicWriteEventID, [\<lparr>ArgType = ''const char*'', ArgName = ''pathname''\<rparr>, \<lparr>ArgType = ''bytes'', ArgName = ''bytes''\<rparr>, \<lparr>ArgType = ''dev_t'', ArgName = ''dev''\<rparr>, \<lparr>ArgType = ''unsigned long'', ArgName = ''inode''\<rparr>]),
     (CgroupAttachTaskEventID, [\<lparr>ArgType = ''const char*'', ArgName = ''cgroup_path''\<rparr>, \<lparr>ArgType = ''const char*'', ArgName = ''comm''\<rparr>, \<lparr>ArgType = ''pid_t'', ArgName = ''pid''\<rparr>]),
     (CgroupMkdirEventID, [\<lparr>ArgType = ''u64'', ArgName = ''cgroup_id''\<rparr>, \<lparr>ArgType = ''const char*'', ArgName = ''cgroup_path''\<rparr>]),
     (CgroupRmdirEventID, [\<lparr>ArgType = ''u64'', ArgName = ''cgroup_id''\<rparr>, \<lparr>ArgType = ''const char*'', ArgName = ''cgroup_path''\<rparr>]),
     (SecurityBprmCheckEventID, [\<lparr>ArgType = ''const char*'', ArgName = ''pathname''\<rparr>, \<lparr>ArgType = ''dev_t'', ArgName = ''dev''\<rparr>, \<lparr>ArgType = ''unsigned long'', ArgName = ''inode''\<rparr>]),
     (SecurityFileOpenEventID, [\<lparr>ArgType = ''const char*'', ArgName = ''pathname''\<rparr>, \<lparr>ArgType = ''int'', ArgName = ''flags''\<rparr>, \<lparr>ArgType = ''dev_t'', ArgName = ''dev''\<rparr>, \<lparr>ArgType = ''unsigned long'', ArgName = ''inode''\<rparr>, \<lparr>ArgType = ''int'', ArgName = ''syscall''\<rparr>]),
     (SecurityInodeUnlinkEventID, [\<lparr>ArgType = ''const char*'', ArgName = ''pathname''\<rparr>]),
     (SecuritySocketCreateEventID, [\<lparr>ArgType = ''int'', ArgName = ''family''\<rparr>, \<lparr>ArgType = ''int'', ArgName = ''type''\<rparr>, \<lparr>ArgType = ''int'', ArgName = ''protocol''\<rparr>, \<lparr>ArgType = ''int'', ArgName = ''kern''\<rparr>]),
     (SecuritySocketListenEventID, [\<lparr>ArgType = ''int'', ArgName = ''sockfd''\<rparr>, \<lparr>ArgType = ''struct sockaddr*'', ArgName = ''local_addr''\<rparr>, \<lparr>ArgType = ''int'', ArgName = ''backlog''\<rparr>]),
     (SecuritySocketConnectEventID, [\<lparr>ArgType = ''int'', ArgName = ''sockfd''\<rparr>, \<lparr>ArgType = ''struct sockaddr*'', ArgName = ''remote_addr''\<rparr>]),
     (SecuritySocketAcceptEventID, [\<lparr>ArgType = ''int'', ArgName = ''sockfd''\<rparr>, \<lparr>ArgType = ''struct sockaddr*'', ArgName = ''local_addr''\<rparr>]),
     (SecuritySocketBindEventID, [\<lparr>ArgType = ''int'', ArgName = ''sockfd''\<rparr>, \<lparr>ArgType = ''struct sockaddr*'', ArgName = ''local_addr''\<rparr>]),
     (SecuritySbMountEventID, [\<lparr>ArgType = ''const char*'', ArgName = ''dev_name''\<rparr>, \<lparr>ArgType = ''const char*'', ArgName = ''path''\<rparr>, \<lparr>ArgType = ''const char*'', ArgName = ''type''\<rparr>, \<lparr>ArgType = ''unsigned long'', ArgName = ''flags''\<rparr>]),
     (SecurityBPFEventID, [\<lparr>ArgType = ''int'', ArgName = ''cmd''\<rparr>]),
     (SecurityBPFMapEventID, [\<lparr>ArgType = ''unsigned int'', ArgName = ''map_id''\<rparr>, \<lparr>ArgType = ''const char*'', ArgName = ''map_name''\<rparr>]),
     (SecurityKernelReadFileEventID, [\<lparr>ArgType = ''const char*'', ArgName = ''pathname''\<rparr>, \<lparr>ArgType = ''dev_t'', ArgName = ''dev''\<rparr>, \<lparr>ArgType = ''unsigned long'', ArgName = ''inode''\<rparr>, \<lparr>ArgType = ''int'', ArgName = ''type''\<rparr>]),
     (SecurityPostReadFileEventID, [\<lparr>ArgType = ''const char*'', ArgName = ''pathname''\<rparr>, \<lparr>ArgType = ''long'', ArgName = ''size''\<rparr>, \<lparr>ArgType = ''int'', ArgName = ''type''\<rparr>]),
     (SecurityInodeMknodEventID, [\<lparr>ArgType = ''const char*'', ArgName = ''file_name''\<rparr>, \<lparr>ArgType = ''umode_t'', ArgName = ''mode''\<rparr>, \<lparr>ArgType = ''dev_t'', ArgName = ''dev''\<rparr>]),
     (InitNamespacesEventID, [\<lparr>ArgType = ''u32'', ArgName = ''cgroup''\<rparr>, \<lparr>ArgType = ''u32'', ArgName = ''ipc''\<rparr>, \<lparr>ArgType = ''u32'', ArgName = ''mnt''\<rparr>, \<lparr>ArgType = ''u32'', ArgName = ''net''\<rparr>, \<lparr>ArgType = ''u32'', ArgName = ''pid''\<rparr>, \<lparr>ArgType = ''u32'', ArgName = ''pid_for_children''\<rparr>, \<lparr>ArgType = ''u32'', ArgName = ''time''\<rparr>, \<lparr>ArgType = ''u32'', ArgName = ''time_for_children''\<rparr>, \<lparr>ArgType = ''u32'', ArgName = ''user''\<rparr>, \<lparr>ArgType = ''u32'', ArgName = ''uts''\<rparr>]),
     (SocketDupEventID, [\<lparr>ArgType = ''int'', ArgName = ''oldfd''\<rparr>, \<lparr>ArgType = ''int'', ArgName = ''newfd''\<rparr>, \<lparr>ArgType = ''struct sockaddr*'', ArgName = ''remote_addr''\<rparr>])
    ]"

definition EventsIDToParams :: "constEnv \<Rightarrow> (int \<times> ArgMeta list) list" where
  "EventsIDToParams K = syscallParams K @ nonSyscallParams"

text \<open>
  An index expression \<open>m[k]\<close> on a Go map yields the zero value of the element type
  when the key is absent.
\<close>

definition zeroEventConfig :: EventConfig where
  "zeroEventConfig = \<lparr>ID = 0, ID32Bit = 0, Name = [], Probes = [], EssentialEvent = False, Sets = []\<rparr>"

definition EventsIDToEvent_at :: "constEnv \<Rightarrow> int \<Rightarrow> EventConfig" where
  "EventsIDToEvent_at K k = (case map_of (EventsIDToEvent K) k of None \<Rightarrow> zeroEventConfig | Some e \<Rightarrow> e)"

definition EventsIDToParams_at :: "constEnv \<Rightarrow> int \<Rightarrow> ArgMeta list" where
  "EventsIDToParams_at K k = (case map_of (EventsIDToParams K) k of None \<Rightarrow> [] | Some ps \<Rightarrow> ps)"

text \<open>
  The names of the system-call identifiers, in the order in which \<open>EventsIDToEvent\<close>
  uses them as keys; those among them that \<open>EventsIDToParams\<close> does not use as a key;
  the compatibility identifiers of the system-call entries and the display names of all
  entries, both in the order of \<open>EventsIDToEvent\<close>; and the system-call identifiers
  that \<open>EventsIDToParams\<close> does use as keys, which it uses in the same order.
\<close>

definition sysEventNames :: "string list" where
  "sysEventNames = [
     ''ReadEventID'', ''WriteEventID'', ''OpenEventID'', ''CloseEventID'', ''StatEventID'',
     ''FstatEventID'', ''LstatEventID'', ''PollEventID'', ''LseekEventID'', ''MmapEventID'',
     ''MprotectEventID'', ''MunmapEventID'', ''BrkEventID'', ''RtSigactionEventID'',
     ''RtSigprocmaskEventID'', ''RtSigreturnEventID'', ''IoctlEventID'', ''Pread64EventID'',
     ''Pwrite64EventID'', ''ReadvEventID'', ''WritevEventID'', ''AccessEventID'',
     ''PipeEventID'', ''SelectEventID'', ''SchedYieldEventID'', ''MremapEventID'',
     ''MsyncEventID'', ''MincoreEventID'', ''MadviseEventID'', ''ShmgetEventID'',
     ''ShmatEventID'', ''ShmctlEventID'', ''DupEventID'', ''Dup2EventID'', ''PauseEventID'',
     ''NanosleepEventID'', ''GetitimerEventID'', ''AlarmEventID'', ''SetitimerEventID'',
     ''GetpidEventID'', ''SendfileEventID'', ''SocketEventID'', ''ConnectEventID'',
     ''AcceptEventID'', ''SendtoEventID'', ''RecvfromEventID'', ''SendmsgEventID'',
     ''RecvmsgEventID'', ''ShutdownEventID'', ''BindEventID'', ''ListenEventID'',
     ''GetsocknameEventID'', ''GetpeernameEventID'', ''SocketpairEventID'',
     ''SetsockoptEventID'', ''GetsockoptEventID'', ''CloneEventID'', ''ForkEventID'',
     ''VforkEventID'', ''ExecveEventID'', ''ExitEventID'', ''Wait4EventID'', ''KillEventID'',
     ''UnameEventID'', ''SemgetEventID'', ''SemopEventID'', ''SemctlEventID'',
     ''ShmdtEventID'', ''MsggetEventID'', ''MsgsndEventID'', ''MsgrcvEventID'',
     ''MsgctlEventID'', ''FcntlEventID'', ''FlockEventID'', ''FsyncEventID'',
     ''FdatasyncEventID'', ''TruncateEventID'', ''FtruncateEventID'', ''GetdentsEventID'',
     ''GetcwdEventID'', ''ChdirEventID'', ''FchdirEventID'', ''RenameEventID'',
     ''MkdirEventID'', ''RmdirEventID'', ''CreatEventID'', ''LinkEventID'', ''UnlinkEventID'',
     ''SymlinkEventID'', ''ReadlinkEventID'', ''ChmodEventID'', ''FchmodEventID'',
     ''ChownEventID'', ''FchownEventID'', ''LchownEventID'', ''UmaskEventID'',
     ''GettimeofdayEventID'', ''GetrlimitEventID'', ''GetrusageEventID'', ''SysinfoEventID'',
     ''TimesEventID'', ''PtraceEventID'', ''GetuidEventID'', ''SyslogEventID'',
     ''GetgidEventID'', ''SetuidEventID'', ''SetgidEventID'', ''GeteuidEventID'',
     ''GetegidEventID'', ''SetpgidEventID'', ''GetppidEventID'', ''GetpgrpEventID'',
     ''SetsidEventID'', ''SetreuidEventID'', ''SetregidEventID'', ''GetgroupsEventID'',
     ''SetgroupsEventID'', ''SetresuidEventID'', ''GetresuidEventID'', ''SetresgidEventID'',
     ''GetresgidEventID'', ''GetpgidEventID'', ''SetfsuidEventID'', ''SetfsgidEventID'',
     ''GetsidEventID'', ''CapgetEventID'', ''CapsetEventID'', ''RtSigpendingEventID'',
     ''RtSigtimedwaitEventID'', ''RtSigqueueinfoEventID'', ''RtSigsuspendEventID'',
     ''SigaltstackEventID'', ''UtimeEventID'', ''MknodEventID'', ''UselibEventID'',
     ''PersonalityEventID'', ''UstatEventID'', ''StatfsEventID'', ''FstatfsEventID'',
     ''SysfsEventID'', ''GetpriorityEventID'', ''SetpriorityEventID'',
     ''SchedSetparamEventID'', ''SchedGetparamEventID'', ''SchedSetschedulerEventID'',
     ''SchedGetschedulerEventID'', ''SchedGetPriorityMaxEventID'',
     ''SchedGetPriorityMinEventID'', ''SchedRrGetIntervalEventID'', ''MlockEventID'',
     ''MunlockEventID'', ''MlockallEventID'', ''MunlockallEventID'', ''VhangupEventID'',
     ''ModifyLdtEventID'', ''PivotRootEventID'', ''SysctlEventID'', ''PrctlEventID'',
     ''ArchPrctlEventID'', ''AdjtimexEventID'', ''SetrlimitEventID'', ''ChrootEventID'',
     ''SyncEventID'', ''AcctEventID'', ''SettimeofdayEventID'', ''MountEventID'',
     ''UmountEventID'', ''SwaponEventID'', ''SwapoffEventID'', ''RebootEventID'',
     ''SethostnameEventID'', ''SetdomainnameEventID'', ''IoplEventID'', ''IopermEventID'',
     ''CreateModuleEventID'', ''InitModuleEventID'', ''DeleteModuleEventID'',
     ''GetKernelSymsEventID'', ''QueryModuleEventID'', ''QuotactlEventID'',
     ''NfsservctlEventID'', ''GetpmsgEventID'', ''PutpmsgEventID'', ''AfsEventID'',
     ''TuxcallEventID'', ''SecurityEventID'', ''GettidEventID'', ''ReadaheadEventID'',
     ''SetxattrEventID'', ''LsetxattrEventID'', ''FsetxattrEventID'', ''GetxattrEventID'',
     ''LgetxattrEventID'', ''FgetxattrEventID'', ''ListxattrEventID'', ''LlistxattrEventID'',
     ''FlistxattrEventID'', ''RemovexattrEventID'', ''LremovexattrEventID'',
     ''FremovexattrEventID'', ''TkillEventID'', ''TimeEventID'', ''FutexEventID'',
     ''SchedSetaffinityEventID'', ''SchedGetaffinityEventID'', ''SetThreadAreaEventID'',
     ''IoSetupEventID'', ''IoDestroyEventID'', ''IoGeteventsEventID'', ''IoSubmitEventID'',
     ''IoCancelEventID'', ''GetThreadAreaEventID'', ''LookupDcookieEventID'',
     ''EpollCreateEventID'', ''EpollCtlOldEventID'', ''EpollWaitOldEventID'',
     ''RemapFilePagesEventID'', ''Getdents64EventID'', ''SetTidAddressEventID'',
     ''RestartSyscallEventID'', ''SemtimedopEventID'', ''Fadvise64EventID'',
     ''TimerCreateEventID'', ''TimerSettimeEventID'', ''TimerGettimeEventID'',
     ''TimerGetoverrunEventID'', ''TimerDeleteEventID'', ''ClockSettimeEventID'',
     ''ClockGettimeEventID'', ''ClockGetresEventID'', ''ClockNanosleepEventID'',
     ''ExitGroupEventID'', ''EpollWaitEventID'', ''EpollCtlEventID'', ''TgkillEventID'',
     ''UtimesEventID'', ''VserverEventID'', ''MbindEventID'', ''SetMempolicyEventID'',
     ''GetMempolicyEventID'', ''MqOpenEventID'', ''MqUnlinkEventID'', ''MqTimedsendEventID'',
     ''MqTimedreceiveEventID'', ''MqNotifyEventID'', ''MqGetsetattrEventID'',
     ''KexecLoadEventID'', ''WaitidEventID'', ''AddKeyEventID'', ''RequestKeyEventID'',
     ''KeyctlEventID'', ''IoprioSetEventID'', ''IoprioGetEventID'', ''InotifyInitEventID'',
     ''InotifyAddWatchEventID'', ''InotifyRmWatchEventID'', ''MigratePagesEventID'',
     ''OpenatEventID'', ''MkdiratEventID'', ''MknodatEventID'', ''FchownatEventID'',
     ''FutimesatEventID'', ''NewfstatatEventID'', ''UnlinkatEventID'', ''RenameatEventID'',
     ''LinkatEventID'', ''SymlinkatEventID'', ''ReadlinkatEventID'', ''FchmodatEventID'',
     ''FaccessatEventID'', ''Pselect6EventID'', ''PpollEventID'', ''UnshareEventID'',
     ''SetRobustListEventID'', ''GetRobustListEventID'', ''SpliceEventID'', ''TeeEventID'',
     ''SyncFileRangeEventID'', ''VmspliceEventID'', ''MovePagesEventID'', ''UtimensatEventID'',
     ''EpollPwaitEventID'', ''SignalfdEventID'', ''TimerfdCreateEventID'', ''EventfdEventID'',
     ''FallocateEventID'', ''TimerfdSettimeEventID'', ''TimerfdGettimeEventID'',
     ''Accept4EventID'', ''Signalfd4EventID'', ''Eventfd2EventID'', ''EpollCreate1EventID'',
     ''Dup3EventID'', ''Pipe2EventID'', ''InotifyInit1EventID'', ''PreadvEventID'',
     ''PwritevEventID'', ''RtTgsigqueueinfoEventID'', ''PerfEventOpenEventID'',
     ''RecvmmsgEventID'', ''FanotifyInitEventID'', ''FanotifyMarkEventID'',
     ''Prlimit64EventID'', ''NameToHandleAtEventID'', ''OpenByHandleAtEventID'',
     ''ClockAdjtimeEventID'', ''SyncfsEventID'', ''SendmmsgEventID'', ''SetnsEventID'',
     ''GetcpuEventID'', ''ProcessVmReadvEventID'', ''ProcessVmWritevEventID'', ''KcmpEventID'',
     ''FinitModuleEventID'', ''SchedSetattrEventID'', ''SchedGetattrEventID'',
     ''Renameat2EventID'', ''SeccompEventID'', ''GetrandomEventID'', ''MemfdCreateEventID'',
     ''KexecFileLoadEventID'', ''BpfEventID'', ''ExecveatEventID'', ''UserfaultfdEventID'',
     ''MembarrierEventID'', ''Mlock2EventID'', ''CopyFileRangeEventID'', ''Preadv2EventID'',
     ''Pwritev2EventID'', ''PkeyMprotectEventID'', ''PkeyAllocEventID'', ''PkeyFreeEventID'',
     ''StatxEventID'', ''IoPgeteventsEventID'', ''RseqEventID'', ''PidfdSendSignalEventID'',
     ''IoUringSetupEventID'', ''IoUringEnterEventID'', ''IoUringRegisterEventID'',
     ''OpenTreeEventID'', ''MoveMountEventID'', ''FsopenEventID'', ''FsconfigEventID'',
     ''FsmountEventID'', ''FspickEventID'', ''PidfdOpenEventID'', ''Clone3EventID'',
     ''CloseRangeEventID'', ''Openat2EventID'', ''PidfdGetfdEventID'', ''Faccessat2EventID'',
     ''ProcessMadviseEventID'', ''EpollPwait2EventID''
    ]"

definition noSchemaNames :: "string list" where
  "noSchemaNames = [
     ''CreateModuleEventID'', ''GetKernelSymsEventID'', ''QueryModuleEventID'',
     ''NfsservctlEventID'', ''GetpmsgEventID'', ''PutpmsgEventID'', ''AfsEventID'',
     ''TuxcallEventID'', ''SecurityEventID'', ''EpollCtlOldEventID'', ''EpollWaitOldEventID'',
     ''VserverEventID''
    ]"

definition sysCompatNames :: "string list" where
  "sysCompatNames = [
     ''sys32read'', ''sys32write'', ''sys32open'', ''sys32close'', ''sys32stat'',
     ''sys32fstat'', ''sys32lstat'', ''sys32poll'', ''sys32lseek'', ''sys32mmap'',
     ''sys32mprotect'', ''sys32munmap'', ''sys32brk'', ''sys32rt_sigaction'',
     ''sys32rt_sigprocmask'', ''sys32rt_sigreturn'', ''sys32ioctl'', ''sys32pread64'',
     ''sys32pwrite64'', ''sys32readv'', ''sys32writev'', ''sys32access'', ''sys32pipe'',
     ''sys32select'', ''sys32sched_yield'', ''sys32mremap'', ''sys32msync'', ''sys32mincore'',
     ''sys32madvise'', ''sys32shmget'', ''sys32shmat'', ''sys32shmctl'', ''sys32dup'',
     ''sys32dup2'', ''sys32pause'', ''sys32nanosleep'', ''sys32getitimer'', ''sys32alarm'',
     ''sys32setitimer'', ''sys32getpid'', ''sys32sendfile'', ''sys32socket'', ''sys32connect'',
     ''sys32undefined'', ''sys32sendto'', ''sys32recvfrom'', ''sys32sendmsg'',
     ''sys32recvmsg'', ''sys32shutdown'', ''sys32bind'', ''sys32listen'', ''sys32getsockname'',
     ''sys32getpeername'', ''sys32socketpair'', ''sys32setsockopt'', ''sys32getsockopt'',
     ''sys32clone'', ''sys32fork'', ''sys32vfork'', ''sys32execve'', ''sys32exit'',
     ''sys32wait4'', ''sys32kill'', ''sys32uname'', ''sys32semget'', ''sys32undefined'',
     ''sys32semctl'', ''sys32shmdt'', ''sys32msgget'', ''sys32msgsnd'', ''sys32msgrcv'',
     ''sys32msgctl'', ''sys32fcntl'', ''sys32flock'', ''sys32fsync'', ''sys32fdatasync'',
     ''sys32truncate'', ''sys32ftruncate'', ''sys32getdents'', ''sys32getcwd'', ''sys32chdir'',
     ''sys32fchdir'', ''sys32rename'', ''sys32mkdir'', ''sys32rmdir'', ''sys32creat'',
     ''sys32link'', ''sys32unlink'', ''sys32symlink'', ''sys32readlink'', ''sys32chmod'',
     ''sys32fchmod'', ''sys32chown'', ''sys32fchown'', ''sys32lchown'', ''sys32umask'',
     ''sys32gettimeofday'', ''sys32getrlimit'', ''sys32getrusage'', ''sys32sysinfo'',
     ''sys32times'', ''sys32ptrace'', ''sys32getuid'', ''sys32syslog'', ''sys32getgid'',
     ''sys32setuid'', ''sys32setgid'', ''sys32geteuid'', ''sys32getegid'', ''sys32setpgid'',
     ''sys32getppid'', ''sys32getpgrp'', ''sys32setsid'', ''sys32setreuid'', ''sys32setregid'',
     ''sys32getgroups'', ''sys32setgroups'', ''sys32setresuid'', ''sys32getresuid'',
     ''sys32setresgid'', ''sys32getresgid'', ''sys32getpgid'', ''sys32setfsuid'',
     ''sys32setfsgid'', ''sys32getsid'', ''sys32capget'', ''sys32capset'',
     ''sys32rt_sigpending'', ''sys32rt_sigtimedwait'', ''sys32rt_sigqueueinfo'',
     ''sys32rt_sigsuspend'', ''sys32sigaltstack'', ''sys32utime'', ''sys32mknod'',
     ''sys32uselib'', ''sys32personality'', ''sys32ustat'', ''sys32statfs'', ''sys32fstatfs'',
     ''sys32sysfs'', ''sys32getpriority'', ''sys32setpriority'', ''sys32sched_setparam'',
     ''sys32sched_getparam'', ''sys32sched_setscheduler'', ''sys32sched_getscheduler'',
     ''sys32sched_get_priority_max'', ''sys32sched_get_priority_min'',
     ''sys32sched_rr_get_interval'', ''sys32mlock'', ''sys32munlock'', ''sys32mlockall'',
     ''sys32munlockall'', ''sys32vhangup'', ''sys32modify_ldt'', ''sys32pivot_root'',
     ''sys32undefined'', ''sys32prctl'', ''sys32arch_prctl'', ''sys32adjtimex'',
     ''sys32setrlimit'', ''sys32chroot'', ''sys32sync'', ''sys32acct'', ''sys32settimeofday'',
     ''sys32mount'', ''sys32umount'', ''sys32swapon'', ''sys32swapoff'', ''sys32reboot'',
     ''sys32sethostname'', ''sys32setdomainname'', ''sys32iopl'', ''sys32ioperm'',
     ''sys32create_module'', ''sys32init_module'', ''sys32delete_module'',
     ''sys32get_kernel_syms'', ''sys32query_module'', ''sys32quotactl'', ''sys32nfsservctl'',
     ''sys32getpmsg'', ''sys32putpmsg'', ''sys32undefined'', ''sys32undefined'',
     ''sys32undefined'', ''sys32gettid'', ''sys32readahead'', ''sys32setxattr'',
     ''sys32lsetxattr'', ''sys32fsetxattr'', ''sys32getxattr'', ''sys32lgetxattr'',
     ''sys32fgetxattr'', ''sys32listxattr'', ''sys32llistxattr'', ''sys32flistxattr'',
     ''sys32removexattr'', ''sys32lremovexattr'', ''sys32fremovexattr'', ''sys32tkill'',
     ''sys32time'', ''sys32futex'', ''sys32sched_setaffinity'', ''sys32sched_getaffinity'',
     ''sys32set_thread_area'', ''sys32io_setup'', ''sys32io_destroy'', ''sys32io_getevents'',
     ''sys32io_submit'', ''sys32io_cancel'', ''sys32get_thread_area'', ''sys32lookup_dcookie'',
     ''sys32epoll_create'', ''sys32undefined'', ''sys32undefined'', ''sys32remap_file_pages'',
     ''sys32getdents64'', ''sys32set_tid_address'', ''sys32restart_syscall'',
     ''sys32semtimedop_time64'', ''sys32fadvise64'', ''sys32timer_create'',
     ''sys32timer_settime'', ''sys32timer_gettime'', ''sys32timer_getoverrun'',
     ''sys32timer_delete'', ''sys32clock_settime'', ''sys32clock_gettime'',
     ''sys32clock_getres'', ''sys32clock_nanosleep'', ''sys32exit_group'', ''sys32epoll_wait'',
     ''sys32epoll_ctl'', ''sys32tgkill'', ''sys32utimes'', ''sys32vserver'', ''sys32mbind'',
     ''sys32set_mempolicy'', ''sys32get_mempolicy'', ''sys32mq_open'', ''sys32mq_unlink'',
     ''sys32mq_timedsend'', ''sys32mq_timedreceive'', ''sys32mq_notify'',
     ''sys32mq_getsetattr'', ''sys32kexec_load'', ''sys32waitid'', ''sys32add_key'',
     ''sys32request_key'', ''sys32keyctl'', ''sys32ioprio_set'', ''sys32ioprio_get'',
     ''sys32inotify_init'', ''sys32inotify_add_watch'', ''sys32inotify_rm_watch'',
     ''sys32migrate_pages'', ''sys32openat'', ''sys32mkdirat'', ''sys32mknodat'',
     ''sys32fchownat'', ''sys32futimesat'', ''sys32fstatat64'', ''sys32unlinkat'',
     ''sys32renameat'', ''sys32linkat'', ''sys32symlinkat'', ''sys32readlinkat'',
     ''sys32fchmodat'', ''sys32faccessat'', ''sys32pselect6'', ''sys32ppoll'',
     ''sys32unshare'', ''sys32set_robust_list'', ''sys32get_robust_list'', ''sys32splice'',
     ''sys32tee'', ''sys32sync_file_range'', ''sys32vmsplice'', ''sys32move_pages'',
     ''sys32utimensat'', ''sys32epoll_pwait'', ''sys32signalfd'', ''sys32timerfd_create'',
     ''sys32eventfd'', ''sys32fallocate'', ''sys32timerfd_settime'', ''sys32timerfd_gettime'',
     ''sys32accept4'', ''sys32signalfd4'', ''sys32eventfd2'', ''sys32epoll_create1'',
     ''sys32dup3'', ''sys32pipe2'', ''sys32inotify_init1'', ''sys32preadv'', ''sys32pwritev'',
     ''sys32rt_tgsigqueueinfo'', ''sys32perf_event_open'', ''sys32recvmmsg'',
     ''sys32fanotify_init'', ''sys32fanotify_mark'', ''sys32prlimit64'',
     ''sys32name_to_handle_at'', ''sys32open_by_handle_at'', ''sys32clock_adjtime'',
     ''sys32syncfs'', ''sys32sendmmsg'', ''sys32setns'', ''sys32getcpu'',
     ''sys32process_vm_readv'', ''sys32process_vm_writev'', ''sys32kcmp'',
     ''sys32finit_module'', ''sys32sched_setattr'', ''sys32sched_getattr'', ''sys32renameat2'',
     ''sys32seccomp'', ''sys32getrandom'', ''sys32memfd_create'', ''sys32undefined'',
     ''sys32bpf'', ''sys32execveat'', ''sys32userfaultfd'', ''sys32membarrier'',
     ''sys32mlock2'', ''sys32copy_file_range'', ''sys32preadv2'', ''sys32pwritev2'',
     ''sys32pkey_mprotect'', ''sys32pkey_alloc'', ''sys32pkey_free'', ''sys32statx'',
     ''sys32io_pgetevents'', ''sys32rseq'', ''sys32pidfd_send_signal'',
     ''sys32io_uring_setup'', ''sys32io_uring_enter'', ''sys32io_uring_register'',
     ''sys32open_tree'', ''sys32move_mount'', ''sys32fsopen'', ''sys32fsconfig'',
     ''sys32fsmount'', ''sys32fspick'', ''sys32pidfd_open'', ''sys32clone3'',
     ''sys32close_range'', ''sys32openat2'', ''sys32pidfd_getfd'', ''sys32faccessat2'',
     ''sys32process_madvise'', ''sys32epoll_pwait2''
    ]"

definition eventNames :: "string list" where
  "eventNames = [
     ''read'', ''write'', ''open'', ''close'', ''stat'', ''fstat'', ''lstat'', ''poll'',
     ''lseek'', ''mmap'', ''mprotect'', ''munmap'', ''brk'', ''rt_sigaction'',
     ''rt_sigprocmask'', ''rt_sigreturn'', ''ioctl'', ''pread64'', ''pwrite64'', ''readv'',
     ''writev'', ''access'', ''pipe'', ''select'', ''sched_yield'', ''mremap'', ''msync'',
     ''mincore'', ''madvise'', ''shmget'', ''shmat'', ''shmctl'', ''dup'', ''dup2'', ''pause'',
     ''nanosleep'', ''getitimer'', ''alarm'', ''setitimer'', ''getpid'', ''sendfile'',
     ''socket'', ''connect'', ''accept'', ''sendto'', ''recvfrom'', ''sendmsg'', ''recvmsg'',
     ''shutdown'', ''bind'', ''listen'', ''getsockname'', ''getpeername'', ''socketpair'',
     ''setsockopt'', ''getsockopt'', ''clone'', ''fork'', ''vfork'', ''execve'', ''exit'',
     ''wait4'', ''kill'', ''uname'', ''semget'', ''semop'', ''semctl'', ''shmdt'', ''msgget'',
     ''msgsnd'', ''msgrcv'', ''msgctl'', ''fcntl'', ''flock'', ''fsync'', ''fdatasync'',
     ''truncate'', ''ftruncate'', ''getdents'', ''getcwd'', ''chdir'', ''fchdir'', ''rename'',
     ''mkdir'', ''rmdir'', ''creat'', ''link'', ''unlink'', ''symlink'', ''readlink'',
     ''chmod'', ''fchmod'', ''chown'', ''fchown'', ''lchown'', ''umask'', ''gettimeofday'',
     ''getrlimit'', ''getrusage'', ''sysinfo'', ''times'', ''ptrace'', ''getuid'', ''syslog'',
     ''getgid'', ''setuid'', ''setgid'', ''geteuid'', ''getegid'', ''setpgid'', ''getppid'',
     ''getpgrp'', ''setsid'', ''setreuid'', ''setregid'', ''getgroups'', ''setgroups'',
     ''setresuid'', ''getresuid'', ''setresgid'', ''getresgid'', ''getpgid'', ''setfsuid'',
     ''setfsgid'', ''getsid'', ''capget'', ''capset'', ''rt_sigpending'', ''rt_sigtimedwait'',
     ''rt_sigqueueinfo'', ''rt_sigsuspend'', ''sigaltstack'', ''utime'', ''mknod'', ''uselib'',
     ''personality'', ''ustat'', ''statfs'', ''fstatfs'', ''sysfs'', ''getpriority'',
     ''setpriority'', ''sched_setparam'', ''sched_getparam'', ''sched_setscheduler'',
     ''sched_getscheduler'', ''sched_get_priority_max'', ''sched_get_priority_min'',
     ''sched_rr_get_interval'', ''mlock'', ''munlock'', ''mlockall'', ''munlockall'',
     ''vhangup'', ''modify_ldt'', ''pivot_root'', ''sysctl'', ''prctl'', ''arch_prctl'',
     ''adjtimex'', ''setrlimit'', ''chroot'', ''sync'', ''acct'', ''settimeofday'', ''mount'',
     ''umount'', ''swapon'', ''swapoff'', ''reboot'', ''sethostname'', ''setdomainname'',
     ''iopl'', ''ioperm'', ''create_module'', ''init_module'', ''delete_module'',
     ''get_kernel_syms'', ''query_module'', ''quotactl'', ''nfsservctl'', ''getpmsg'',
     ''putpmsg'', ''afs'', ''tuxcall'', ''security'', ''gettid'', ''readahead'', ''setxattr'',
     ''lsetxattr'', ''fsetxattr'', ''getxattr'', ''lgetxattr'', ''fgetxattr'', ''listxattr'',
     ''llistxattr'', ''flistxattr'', ''removexattr'', ''lremovexattr'', ''fremovexattr'',
     ''tkill'', ''time'', ''futex'', ''sched_setaffinity'', ''sched_getaffinity'',
     ''set_thread_area'', ''io_setup'', ''io_destroy'', ''io_getevents'', ''io_submit'',
     ''io_cancel'', ''get_thread_area'', ''lookup_dcookie'', ''epoll_create'',
     ''epoll_ctl_old'', ''epoll_wait_old'', ''remap_file_pages'', ''getdents64'',
     ''set_tid_address'', ''restart_syscall'', ''semtimedop'', ''fadvise64'', ''timer_create'',
     ''timer_settime'', ''timer_gettime'', ''timer_getoverrun'', ''timer_delete'',
     ''clock_settime'', ''clock_gettime'', ''clock_getres'', ''clock_nanosleep'',
     ''exit_group'', ''epoll_wait'', ''epoll_ctl'', ''tgkill'', ''utimes'', ''vserver'',
     ''mbind'', ''set_mempolicy'', ''get_mempolicy'', ''mq_open'', ''mq_unlink'',
     ''mq_timedsend'', ''mq_timedreceive'', ''mq_notify'', ''mq_getsetattr'', ''kexec_load'',
     ''waitid'', ''add_key'', ''request_key'', ''keyctl'', ''ioprio_set'', ''ioprio_get'',
     ''inotify_init'', ''inotify_add_watch'', ''inotify_rm_watch'', ''migrate_pages'',
     ''openat'', ''mkdirat'', ''mknodat'', ''fchownat'', ''futimesat'', ''newfstatat'',
     ''unlinkat'', ''renameat'', ''linkat'', ''symlinkat'', ''readlinkat'', ''fchmodat'',
     ''faccessat'', ''pselect6'', ''ppoll'', ''unshare'', ''set_robust_list'',
     ''get_robust_list'', ''splice'', ''tee'', ''sync_file_range'', ''vmsplice'',
     ''move_pages'', ''utimensat'', ''epoll_pwait'', ''signalfd'', ''timerfd_create'',
     ''eventfd'', ''fallocate'', ''timerfd_settime'', ''timerfd_gettime'', ''accept4'',
     ''signalfd4'', ''eventfd2'', ''epoll_create1'', ''dup3'', ''pipe2'', ''inotify_init1'',
     ''preadv'', ''pwritev'', ''rt_tgsigqueueinfo'', ''perf_event_open'', ''recvmmsg'',
     ''fanotify_init'', ''fanotify_mark'', ''prlimit64'', ''name_to_handle_at'',
     ''open_by_handle_at'', ''clock_adjtime'', ''syncfs'', ''sendmmsg'', ''setns'', ''getcpu'',
     ''process_vm_readv'', ''process_vm_writev'', ''kcmp'', ''finit_module'',
     ''sched_setattr'', ''sched_getattr'', ''renameat2'', ''seccomp'', ''getrandom'',
     ''memfd_create'', ''kexec_file_load'', ''bpf'', ''execveat'', ''userfaultfd'',
     ''membarrier'', ''mlock2'', ''copy_file_range'', ''preadv2'', ''pwritev2'',
     ''pkey_mprotect'', ''pkey_alloc'', ''pkey_free'', ''statx'', ''io_pgetevents'', ''rseq'',
     ''pidfd_send_signal'', ''io_uring_setup'', ''io_uring_enter'', ''io_uring_register'',
     ''open_tree'', ''move_mount'', ''fsopen'', ''fsconfig'', ''fsmount'', ''fspick'',
     ''pidfd_open'', ''clone3'', ''close_range'', ''openat2'', ''pidfd_getfd'', ''faccessat2'',
     ''process_madvise'', ''epoll_pwait2'', ''sys_enter'', ''sys_exit'',
     ''sched_process_fork'', ''sched_process_exec'', ''sched_process_exit'', ''sched_switch'',
     ''do_exit'', ''cap_capable'', ''vfs_write'', ''vfs_writev'', ''mem_prot_alert'',
     ''commit_creds'', ''switch_task_ns'', ''magic_write'', ''cgroup_attach_task'',
     ''cgroup_mkdir'', ''cgroup_rmdir'', ''security_bprm_check'', ''security_file_open'',
     ''security_inode_unlink'', ''security_socket_create'', ''security_socket_listen'',
     ''security_socket_connect'', ''security_socket_accept'', ''security_socket_bind'',
     ''security_sb_mount'', ''security_bpf'', ''security_bpf_map'',
     ''security_kernel_read_file'', ''security_kernel_post_read_file'',
     ''security_inode_mknod'', ''init_namespaces'', ''socket_dup''
    ]"

definition schemaSysNames :: "string list" where
  "schemaSysNames = filter (\<lambda>n. n \<notin> set noSchemaNames) sysEventNames"

text \<open>
  What is required of the absent constants: different system-call identifiers have
  different values, and all of them lie below the band that starts at
  \<open>SysEnterEventID\<close>. (The Go compiler rejects a map literal in which two constant
  keys are equal, so every environment under which the file compiles gives the keys of
  each table pairwise different values.)
\<close>

definition wf_consts :: "constEnv \<Rightarrow> bool" where
  "wf_consts K \<longleftrightarrow>
     inj_on K (set sysEventNames) \<and> (\<forall>n\<in>set sysEventNames. K n < SysEnterEventID)"

fun indexOf :: "'a list \<Rightarrow> 'a \<Rightarrow> nat" where
  "indexOf [] a = 0"
| "indexOf (x # xs) a = (if x = a then 0 else Suc (indexOf xs a))"

text \<open>
  Modelled from the spec: the values of the system-call identifiers, whose declarations
  are not among the sources. The spec places them in a low numeric range, contiguous, one
  identifier per system call; \<open>declOrder\<close> numbers them from 0 in the order of the
  registry. Every other absent constant (the compatibility identifiers, of which the spec
  gives no values) gets the next number. \<open>declOrder\<close> serves as a concrete instance of
  the parameter \<open>K\<close>.
\<close>

definition declOrder :: constEnv where
  "declOrder n = int (indexOf sysEventNames n)"

text \<open>
  Modelled from the spec: the lookup of an identifier by display name, which is built
  outside the two files. The spec says that, given a display name, it returns the
  associated identifier, and that an unknown name is reported as not found.
\<close>

definition EventsNameToID :: "constEnv \<Rightarrow> string \<Rightarrow> int option" where
  "EventsNameToID K name = map_of (map (\<lambda>(k, e). (Name e, ID e)) (EventsIDToEvent K)) name"

text \<open>The lookup of a display name by identifier, as \<open>EventsIDToEvent[id].Name\<close> with
  the absent key made explicit.\<close>

definition EventsIDToName :: "constEnv \<Rightarrow> int \<Rightarrow> string option" where
  "EventsIDToName K k = map_option Name (map_of (EventsIDToEvent K) k)"

text \<open>A string read as a number in base 256; used to compare names.\<close>

definition strKey :: "string \<Rightarrow> nat" where
  "strKey s = foldl (\<lambda>a c. a * 256 + of_char c) 0 s"

subsection \<open>The namespace directory\<close>

text \<open>
  The state of the file system as the code observes it: what \<open>ioutil.ReadDir\<close>
  returns for a directory (the names of its entries, sorted, or an error) and what
  \<open>os.Readlink\<close> returns for a path (the target, or an error). On an error
  \<open>ioutil.ReadDir\<close> returns a nil slice and \<open>os.Readlink\<close> the empty string.
  \<open>filepath.Join\<close> is applied to a directory and the name of one of its entries only.
\<close>

definition InitProcNsDir :: string where
  "InitProcNsDir = ''/proc/1/ns''"

record procfs =
  ReadDir :: "string \<Rightarrow> error + string list"
  Readlink :: "string \<Rightarrow> error + string"

definition ioutil_ReadDir :: "procfs \<Rightarrow> string \<Rightarrow> string list \<times> error option" where
  "ioutil_ReadDir fs dirname =
     (case ReadDir fs dirname of Inl e \<Rightarrow> ([], Some e) | Inr names \<Rightarrow> (names, None))"

definition os_Readlink :: "procfs \<Rightarrow> string \<Rightarrow> string \<times> error option" where
  "os_Readlink fs name =
     (case Readlink fs name of Inl e \<Rightarrow> ([], Some e) | Inr target \<Rightarrow> (target, None))"

definition filepath_Join :: "string \<Rightarrow> string \<Rightarrow> string" where
  "filepath_Join dir name = dir @ ''/'' @ name"

subsection \<open>Library functions used by \<open>fetchInitNamespaces\<close>\<close>

text \<open>
  The regular expression of the source is a colon, then any number of characters that are
  an opening square bracket or a decimal digit, then a closing square bracket.
  \<open>matchAt\<close> is the match that starts at the head of the string: the closing bracket is
  not in the character class, so the repetition can only end where the run of class
  characters ends. \<open>FindString\<close> returns the leftmost match, or the empty string.
\<close>

definition isDigit :: "char \<Rightarrow> bool" where
  "isDigit c \<longleftrightarrow> 48 \<le> (of_char c :: nat) \<and> (of_char c :: nat) \<le> 57"

definition inClass :: "char \<Rightarrow> bool" where
  "inClass c \<longleftrightarrow> c = CHR ''['' \<or> isDigit c"

fun matchAt :: "string \<Rightarrow> string option" where
  "matchAt [] = None"
| "matchAt (c # s) =
     (if c = CHR '':'' then
        (case dropWhile inClass s of
           [] \<Rightarrow> None
         | r # _ \<Rightarrow> if r = CHR '']'' then Some (c # takeWhile inClass s @ [r]) else None)
      else None)"

fun FindString :: "string \<Rightarrow> string" where
  "FindString [] = []"
| "FindString (c # s) = (case matchAt (c # s) of Some m \<Rightarrow> m | None \<Rightarrow> FindString s)"

text \<open>\<open>strings.Trim\<close>: leading and trailing characters of the cutset are removed.\<close>

definition Trim :: "string \<Rightarrow> string \<Rightarrow> string" where
  "Trim s cutset =
     rev (dropWhile (\<lambda>c. c \<in> set cutset) (rev (dropWhile (\<lambda>c. c \<in> set cutset) s)))"

text \<open>
  \<open>strconv.ParseUint\<close> with base 10 and bit size 32. The accumulator is a
  \<open>uint64\<close>. A character that is not a decimal digit is a syntax error with result 0
  (a letter is a digit of value at least 10, which base 10 rejects). When the accumulator
  reaches the cutoff, or the next digit takes it above \<open>maxVal\<close>, the function returns
  \<open>maxVal\<close> together with a range error, without reading the rest of the string.
\<close>

definition maxUint64 :: "64 word" where
  "maxUint64 = 18446744073709551615"

definition cutoff :: "64 word" where
  "cutoff = maxUint64 div 10 + 1"

definition maxVal :: "64 word" where
  "maxVal = push_bit 32 1 - 1"

fun ParseUint_loop :: "64 word \<Rightarrow> string \<Rightarrow> 64 word \<times> error option" where
  "ParseUint_loop n [] = (n, None)"
| "ParseUint_loop n (c # s) =
     (if isDigit c then
        (let d = (of_nat (of_char c - 48) :: 64 word) in
         if n \<ge> cutoff then (maxVal, Some ErrRange)
         else (let n' = n * 10; n1 = n' + d in
               if n1 < n' \<or> n1 > maxVal then (maxVal, Some ErrRange)
               else ParseUint_loop n1 s))
      else (0, Some ErrSyntax))"

definition ParseUint :: "string \<Rightarrow> 64 word \<times> error option" where
  "ParseUint s = (if s = [] then (0, Some ErrSyntax) else ParseUint_loop 0 s)"

text \<open>The decimal value of a string of digits, continuing from \<open>a\<close>.\<close>

definition decimal :: "nat \<Rightarrow> string \<Rightarrow> nat" where
  "decimal a ds = foldl (\<lambda>a c. 10 * a + (of_char c - 48)) a ds"

subsection \<open>The synthesis of the event\<close>

text \<open>
  \<open>namespaceNumberOf\<close> is the part of the loop body of \<open>fetchInitNamespaces\<close> that
  turns the link string into a number; the error of \<open>ParseUint\<close> is dropped and the
  result is converted to \<open>uint32\<close>.
\<close>

definition namespaceNumberOf :: "string \<Rightarrow> 32 word" where
  "namespaceNumberOf linkString =
     (let trim = Trim (FindString linkString) ''[]:'';
          namespaceNumber = fst (ParseUint trim)
      in ucast namespaceNumber)"

definition fetchInitNamespaces :: "procfs \<Rightarrow> (string \<rightharpoonup> 32 word)" where
  "fetchInitNamespaces fs =
     (let namespacesLinks = fst (ioutil_ReadDir fs InitProcNsDir)
      in foldl (\<lambda>initNamespacesMap namespaceLink.
                  let linkString = fst (os_Readlink fs (filepath_Join InitProcNsDir namespaceLink))
                  in initNamespacesMap(namespaceLink \<mapsto> namespaceNumberOf linkString))
               Map.empty namespacesLinks)"

text \<open>
  \<open>getInitNamespaceArguments\<close> allocates one zero \<open>Argument\<close> per entry of the
  schema and fills the slice by index. \<open>CreateInitNamespacesEvent\<close> takes the reading
  of the clock (\<open>time.Now().UnixNano()\<close>) and the state of the file system as inputs.
\<close>

definition mapIndex :: "(string \<rightharpoonup> 32 word) \<Rightarrow> string \<Rightarrow> 32 word" where
  "mapIndex m k = (case m k of None \<Rightarrow> 0 | Some v \<Rightarrow> v)"

definition zeroArgument :: Argument where
  "zeroArgument = \<lparr>ArgType = [], ArgName = [], Value = NilValue\<rparr>"

definition getInitNamespaceArguments :: "constEnv \<Rightarrow> procfs \<Rightarrow> Argument list" where
  "getInitNamespaceArguments K fs =
     (let initNamespaces = fetchInitNamespaces fs;
          schema = EventsIDToParams_at K InitNamespacesEventID;
          initNamespacesArgs = replicate (length schema) zeroArgument
      in foldl (\<lambda>args i.
                  let arg = args ! i;
                      arg = arg\<lparr>ArgName := ArgName (schema ! i), ArgType := ArgType (schema ! i)\<rparr>;
                      arg = arg\<lparr>Value := Uint32Value (mapIndex initNamespaces (ArgName arg))\<rparr>
                  in args[i := arg])
               initNamespacesArgs [0..<length initNamespacesArgs])"

definition CreateInitNamespacesEvent :: "constEnv \<Rightarrow> int \<Rightarrow> procfs \<Rightarrow> Event \<times> error option" where
  "CreateInitNamespacesEvent K now fs =
     (let initNamespacesArgs = getInitNamespaceArguments K fs;
          initNamespacesEvent = \<lparr>
            Timestamp = now,
            ProcessName = ''tracee-ebpf'',
            EventID = InitNamespacesEventID,
            EventName = Name (EventsIDToEvent_at K InitNamespacesEventID),
            ArgsNum = int (length initNamespacesArgs),
            Args = initNamespacesArgs\<rparr>
      in (initNamespacesEvent, None))"

text \<open>States of the directory, used as concrete inputs.\<close>

definition exampleNsDir :: procfs where
  "exampleNsDir = \<lparr>
     ReadDir = (\<lambda>d. if d = ''/proc/1/ns'' then Inr [''net'', ''pid''] else Inl PathError),
     Readlink = (\<lambda>p. if p = ''/proc/1/ns/pid'' then Inr ''pid:[12]''
                      else if p = ''/proc/1/ns/net'' then Inr ''net:[4026531840]''
                      else Inl PathError)\<rparr>"

definition overflowNsDir :: procfs where
  "overflowNsDir = \<lparr>
     ReadDir = (\<lambda>d. if d = ''/proc/1/ns'' then Inr [''net'', ''pid''] else Inl PathError),
     Readlink = (\<lambda>p. if p = ''/proc/1/ns/pid'' then Inr ''pid:[4294967296]''
                      else if p = ''/proc/1/ns/net'' then Inr ''net:[4026531840]''
                      else Inl PathError)\<rparr>"

definition brokenNsDir :: procfs where
  "brokenNsDir = \<lparr>
     ReadDir = (\<lambda>d. if d = ''/proc/1/ns'' then Inr [''net'', ''pid''] else Inl PathError),
     Readlink = (\<lambda>p. if p = ''/proc/1/ns/net'' then Inr ''net:[4026531840]''
                      else Inl PathError)\<rparr>"

definition unreadableNsDir :: procfs where
  "unreadableNsDir = \<lparr>ReadDir = (\<lambda>d. Inl PathError), Readlink = (\<lambda>p. Inl PathError)\<rparr>"


definition malformedNsDir :: procfs where
  "malformedNsDir = \<lparr>
     ReadDir = (\<lambda>d. if d = ''/proc/1/ns'' then Inr [''net'', ''pid''] else Inl PathError),
     Readlink = (\<lambda>p. if p = ''/proc/1/ns/pid'' then Inr ''pid:[12]junk''
                      else if p = ''/proc/1/ns/net'' then Inr ''net:12]''
                      else Inl PathError)\<rparr>"

text \<open>
  A state that has the same namespace directory as \<open>exampleNsDir\<close> and differs from it
  elsewhere in the file system.
\<close>

definition exampleNsDirElsewhere :: procfs where
  "exampleNsDirElsewhere = \<lparr>
     ReadDir = (\<lambda>d. if d = ''/proc/1/ns'' then Inr [''net'', ''pid'']
                     else if d = ''/proc/self/ns'' then Inr [''pid''] else Inl PathError),
     Readlink = (\<lambda>p. if p = ''/proc/1/ns/pid'' then Inr ''pid:[12]''
                      else if p = ''/proc/1/ns/net'' then Inr ''net:[4026531840]''
                      else if p = ''/proc/self/ns/pid'' then Inr ''pid:[99]''
                      else Inl PathError)\<rparr>"

text \<open>
  Following the words of the spec: a link target has the form \<open>kind:[number]\<close>, that
  is a kind without a colon, a colon, an opening bracket, a decimal number and a closing
  bracket, and nothing else.
\<close>

definition kindNumberForm :: "string \<Rightarrow> bool" where
  "kindNumberForm t \<longleftrightarrow>
     (\<exists>kind ds. t = kind @ '':['' @ ds @ '']'' \<and> kind \<noteq> [] \<and> CHR '':'' \<notin> set kind
        \<and> ds \<noteq> [] \<and> (\<forall>c\<in>set ds. isDigit c))"

section \<open>Properties\<close>

subsection \<open>The absent constants\<close>

lemmas syscallEvents_defs =
  syscallEvents_0_def syscallEvents_1_def syscallEvents_2_def syscallEvents_3_def
  syscallEvents_4_def syscallEvents_5_def syscallEvents_6_def syscallEvents_7_def
  syscallEvents_8_def syscallEvents_9_def syscallEvents_10_def syscallEvents_11_def
  syscallEvents_def

lemmas syscallParams_defs =
  syscallParams_0_def syscallParams_1_def syscallParams_2_def syscallParams_3_def
  syscallParams_4_def syscallParams_5_def syscallParams_6_def syscallParams_7_def
  syscallParams_8_def syscallParams_9_def syscallParams_10_def syscallParams_11_def
  syscallParams_def

lemmas eventID_defs =
  SysEnterEventID_def SysExitEventID_def SchedProcessForkEventID_def
  SchedProcessExecEventID_def SchedProcessExitEventID_def SchedSwitchEventID_def
  DoExitEventID_def CapCapableEventID_def VfsWriteEventID_def VfsWritevEventID_def
  MemProtAlertEventID_def CommitCredsEventID_def SwitchTaskNSEventID_def
  MagicWriteEventID_def CgroupAttachTaskEventID_def CgroupMkdirEventID_def
  CgroupRmdirEventID_def SecurityBprmCheckEventID_def SecurityFileOpenEventID_def
  SecurityInodeUnlinkEventID_def SecuritySocketCreateEventID_def
  SecuritySocketListenEventID_def SecuritySocketConnectEventID_def
  SecuritySocketAcceptEventID_def SecuritySocketBindEventID_def SecuritySbMountEventID_def
  SecurityBPFEventID_def SecurityBPFMapEventID_def SecurityKernelReadFileEventID_def
  SecurityInodeMknodEventID_def SecurityPostReadFileEventID_def SocketDupEventID_def
  MaxEventID_def InitNamespacesEventID_def

lemma indexOf_less: "a \<in> set xs \<Longrightarrow> indexOf xs a < length xs"
  by (induction xs) auto

lemma nth_indexOf: "a \<in> set xs \<Longrightarrow> xs ! indexOf xs a = a"
  by (induction xs) auto

lemma inj_on_indexOf: "inj_on (indexOf xs) (set xs)"
  by (metis inj_onI nth_indexOf)

lemma length_sysEventNames: "length sysEventNames = 353"
  by (simp add: sysEventNames_def)

lemma declOrder_wf: "wf_consts declOrder"
proof -
  have "declOrder n < SysEnterEventID" if "n \<in> set sysEventNames" for n
    using indexOf_less[OF that] by (simp add: declOrder_def length_sysEventNames SysEnterEventID_def)
  moreover have "inj_on declOrder (set sysEventNames)"
    using inj_on_indexOf[of sysEventNames] by (simp add: inj_on_def declOrder_def)
  ultimately show ?thesis by (simp add: wf_consts_def)
qed

subsection \<open>Lookups above the system-call band\<close>

lemma map_of_append_skip: "k \<notin> fst ` set xs \<Longrightarrow> map_of (xs @ ys) k = map_of ys k"
  by (induction xs) auto

lemma syscallEvents_keys: "map fst (syscallEvents K) = map K sysEventNames"
  by (simp add: syscallEvents_defs sysEventNames_def)

lemma syscallParams_keys: "map fst (syscallParams K) = map K schemaSysNames"
  by (simp add: syscallParams_defs schemaSysNames_def sysEventNames_def noSchemaNames_def)

lemma syscallEvents_below:
  assumes "wf_consts K" and "k \<in> fst ` set (syscallEvents K)"
  shows "k < SysEnterEventID"
proof -
  have "k \<in> set (map fst (syscallEvents K))" using assms(2) by simp
  then have "k \<in> K ` set sysEventNames" by (simp add: syscallEvents_keys)
  then show ?thesis using assms(1) by (auto simp: wf_consts_def)
qed

lemma syscallParams_below:
  assumes "wf_consts K" and "k \<in> fst ` set (syscallParams K)"
  shows "k < SysEnterEventID"
proof -
  have "k \<in> set (map fst (syscallParams K))" using assms(2) by simp
  then have "k \<in> K ` set schemaSysNames" by (simp add: syscallParams_keys)
  then have "k \<in> K ` set sysEventNames" by (auto simp: schemaSysNames_def)
  then show ?thesis using assms(1) by (auto simp: wf_consts_def)
qed

lemma EventsIDToEvent_above:
  assumes "wf_consts K" and "SysEnterEventID \<le> k"
  shows "map_of (EventsIDToEvent K) k = map_of (nonSyscallEvents K) k"
  unfolding EventsIDToEvent_def
  using syscallEvents_below[OF assms(1), of k] assms(2) by (intro map_of_append_skip) auto

lemma EventsIDToParams_above:
  assumes "wf_consts K" and "SysEnterEventID \<le> k"
  shows "map_of (EventsIDToParams K) k = map_of nonSyscallParams k"
  unfolding EventsIDToParams_def
  using syscallParams_below[OF assms(1), of k] assms(2) by (intro map_of_append_skip) auto

lemma EventsIDToParams_at_InitNamespaces:
  assumes "wf_consts K"
  shows "EventsIDToParams_at K InitNamespacesEventID =
    [\<lparr>ArgType = ''u32'', ArgName = ''cgroup''\<rparr>, \<lparr>ArgType = ''u32'', ArgName = ''ipc''\<rparr>,
     \<lparr>ArgType = ''u32'', ArgName = ''mnt''\<rparr>, \<lparr>ArgType = ''u32'', ArgName = ''net''\<rparr>,
     \<lparr>ArgType = ''u32'', ArgName = ''pid''\<rparr>, \<lparr>ArgType = ''u32'', ArgName = ''pid_for_children''\<rparr>,
     \<lparr>ArgType = ''u32'', ArgName = ''time''\<rparr>, \<lparr>ArgType = ''u32'', ArgName = ''time_for_children''\<rparr>,
     \<lparr>ArgType = ''u32'', ArgName = ''user''\<rparr>, \<lparr>ArgType = ''u32'', ArgName = ''uts''\<rparr>]"
proof -
  have "SysEnterEventID \<le> InitNamespacesEventID"
    by (simp add: SysEnterEventID_def InitNamespacesEventID_def)
  then have "map_of (EventsIDToParams K) InitNamespacesEventID =
      map_of nonSyscallParams InitNamespacesEventID"
    by (rule EventsIDToParams_above[OF assms])
  then show ?thesis
    by (simp add: EventsIDToParams_at_def nonSyscallParams_def eventID_defs)
qed

lemma EventsIDToEvent_at_InitNamespaces:
  assumes "wf_consts K"
  shows "Name (EventsIDToEvent_at K InitNamespacesEventID) = ''init_namespaces''"
proof -
  have "SysEnterEventID \<le> InitNamespacesEventID"
    by (simp add: SysEnterEventID_def InitNamespacesEventID_def)
  then have "map_of (EventsIDToEvent K) InitNamespacesEventID =
      map_of (nonSyscallEvents K) InitNamespacesEventID"
    by (rule EventsIDToEvent_above[OF assms])
  then show ?thesis
    by (simp add: EventsIDToEvent_at_def nonSyscallEvents_def eventID_defs)
qed

subsection \<open>The inventory and the arguments\<close>

subsection \<open>Keys, names and flags of the registry\<close>

lemma nonSyscallEvents_keys: "map fst (nonSyscallEvents K) = map fst nonSyscallParams"
  by (simp add: nonSyscallEvents_def nonSyscallParams_def)

lemma nonSyscallParams_keys_above: "\<forall>k\<in>set (map fst nonSyscallParams). SysEnterEventID \<le> k"
  by (simp add: nonSyscallParams_def eventID_defs)

lemma nonSyscallParams_keys_distinct: "distinct (map fst nonSyscallParams)"
  by (simp add: nonSyscallParams_def eventID_defs)

lemma syscallEvents_compat:
  "map (\<lambda>(k, e). ID32Bit e) (syscallEvents K) = map K sysCompatNames"
  by (simp add: syscallEvents_defs sysCompatNames_def)

lemma EventsIDToEvent_names: "map (\<lambda>(k, e). Name e) (EventsIDToEvent K) = eventNames"
  by (simp add: EventsIDToEvent_def syscallEvents_defs nonSyscallEvents_def eventNames_def)

lemma EventsIDToEvent_ids: "list_all (\<lambda>(k, e). ID e = k) (EventsIDToEvent K)"
  by (simp add: EventsIDToEvent_def syscallEvents_defs nonSyscallEvents_def)

lemma EventsIDToEvent_essential:
  "list_all (\<lambda>(k, e). EssentialEvent e \<longrightarrow> Probes e \<noteq> []) (EventsIDToEvent K)"
  by (simp add: EventsIDToEvent_def syscallEvents_defs nonSyscallEvents_def)

lemma noSchemaNames_subset: "set noSchemaNames \<subseteq> set sysEventNames"
  by (simp add: noSchemaNames_def sysEventNames_def)

lemma distinct_keys_sysEventNames: "distinct (map strKey sysEventNames)"
  by (simp add: sysEventNames_def strKey_def)

lemma distinct_keys_eventNames: "distinct (map strKey eventNames)"
  by (simp add: eventNames_def strKey_def)

lemma distinct_sysEventNames: "distinct sysEventNames"
  using distinct_keys_sysEventNames by (simp add: distinct_map)

lemma distinct_eventNames: "distinct eventNames"
  using distinct_keys_eventNames by (simp add: distinct_map)

lemma EventsIDToEvent_keys:
  "map fst (EventsIDToEvent K) = map K sysEventNames @ map fst nonSyscallParams"
  by (simp add: EventsIDToEvent_def syscallEvents_keys nonSyscallEvents_keys)

lemma EventsIDToParams_keys:
  "map fst (EventsIDToParams K) = map K schemaSysNames @ map fst nonSyscallParams"
  by (simp add: EventsIDToParams_def syscallParams_keys)

lemma EventsIDToEvent_keys_distinct:
  assumes "wf_consts K"
  shows "distinct (map fst (EventsIDToEvent K))"
proof -
  have "distinct (map K sysEventNames)"
    using assms distinct_sysEventNames by (simp add: distinct_map wf_consts_def)
  moreover have "set (map K sysEventNames) \<inter> set (map fst nonSyscallParams) = {}"
    using assms nonSyscallParams_keys_above by (fastforce simp: wf_consts_def)
  ultimately show ?thesis
    by (simp add: EventsIDToEvent_keys nonSyscallParams_keys_distinct)
qed

lemma schema_key_iff:
  assumes "wf_consts K" and "n \<in> set sysEventNames"
  shows "K n \<in> set (map fst (EventsIDToParams K)) \<longleftrightarrow> n \<notin> set noSchemaNames"
proof
  assume "K n \<in> set (map fst (EventsIDToParams K))"
  moreover have "K n \<notin> set (map fst nonSyscallParams)"
    using assms nonSyscallParams_keys_above by (fastforce simp: wf_consts_def)
  ultimately have "K n \<in> K ` set schemaSysNames"
    by (simp add: EventsIDToParams_keys)
  then obtain m where m: "m \<in> set schemaSysNames" "K m = K n" by auto
  then have "m \<in> set sysEventNames" by (simp add: schemaSysNames_def)
  then have "m = n"
    using assms m(2) by (auto simp: wf_consts_def inj_on_def)
  then show "n \<notin> set noSchemaNames"
    using m(1) by (simp add: schemaSysNames_def)
next
  assume "n \<notin> set noSchemaNames"
  then have "n \<in> set schemaSysNames"
    using assms(2) by (simp add: schemaSysNames_def)
  then show "K n \<in> set (map fst (EventsIDToParams K))"
    by (simp add: EventsIDToParams_keys)
qed

lemma noSchema_image_iff:
  assumes "wf_consts K" and "n \<in> set sysEventNames"
  shows "K n \<in> K ` set noSchemaNames \<longleftrightarrow> n \<in> set noSchemaNames"
proof
  assume "K n \<in> K ` set noSchemaNames"
  then obtain m where m: "m \<in> set noSchemaNames" "K m = K n" by auto
  then have "m \<in> set sysEventNames" using noSchemaNames_subset by auto
  then have "m = n"
    using assms m(2) by (auto simp: wf_consts_def inj_on_def)
  then show "n \<in> set noSchemaNames" using m(1) by simp
qed simp

lemma map_of_None_iff_key: "map_of xs k = None \<longleftrightarrow> k \<notin> set (map fst xs)"
  by (simp add: map_of_eq_None_iff)

lemma roundtrip_by_key:
  assumes "distinct (map fst xs)" and "distinct (map f xs)" and "(k, e) \<in> set xs"
  shows "map_of xs k = Some e" and "map_of (map (\<lambda>p. (f p, g p)) xs) (f (k, e)) = Some (g (k, e))"
proof -
  show "map_of xs k = Some e"
    using assms(1,3) by (rule map_of_is_SomeI)
  have "distinct (map fst (map (\<lambda>p. (f p, g p)) xs))"
    using assms(2) by (simp add: comp_def)
  moreover have "(f (k, e), g (k, e)) \<in> set (map (\<lambda>p. (f p, g p)) xs)"
    using assms(3) by force
  ultimately show "map_of (map (\<lambda>p. (f p, g p)) xs) (f (k, e)) = Some (g (k, e))"
    by (rule map_of_is_SomeI)
qed

lemma foldl_map_upd:
  "foldl (\<lambda>m n. m(n \<mapsto> f n)) m ns k = (if k \<in> set ns then Some (f k) else m k)"
  by (induction ns arbitrary: m) auto

lemma fetchInitNamespaces_apply:
  "fetchInitNamespaces fs k =
     (case ReadDir fs InitProcNsDir of
        Inl e \<Rightarrow> None
      | Inr names \<Rightarrow>
          if k \<in> set names
          then Some (namespaceNumberOf (fst (os_Readlink fs (filepath_Join InitProcNsDir k))))
          else None)"
  by (simp add: fetchInitNamespaces_def ioutil_ReadDir_def foldl_map_upd split: sum.splits)

lemma fill_by_index:
  "k \<le> length xs \<Longrightarrow>
   foldl (\<lambda>args i. args[i := g i]) xs [0..<k] = map g [0..<k] @ drop k xs"
proof (induction k)
  case 0
  then show ?case by simp
next
  case (Suc k)
  then have "k < length xs" by simp
  then have "(drop k xs)[0 := g k] = g k # drop (Suc k) xs"
    by (metis Cons_nth_drop_Suc list_update_code(2))
  with Suc show ?case
    by (simp add: list_update_append)
qed

lemma overwrite_argument:
  "(arg :: Argument)\<lparr>ArgName := n, ArgType := t\<rparr>\<lparr>Value := v\<rparr> = \<lparr>ArgType = t, ArgName = n, Value = v\<rparr>"
  by (cases arg) simp

lemma fill_arguments:
  "foldl (\<lambda>args i.
            let arg = args ! i;
                arg = arg\<lparr>ArgName := ArgName (schema ! i), ArgType := ArgType (schema ! i)\<rparr>;
                arg = arg\<lparr>Value := Uint32Value (mapIndex ns (ArgName arg))\<rparr>
            in args[i := arg])
         (replicate (length schema) z) [0..<length (replicate (length schema) z)] =
   map (\<lambda>m. \<lparr>ArgType = ArgType m, ArgName = ArgName m,
              Value = Uint32Value (mapIndex ns (ArgName m))\<rparr>) schema"
proof -
  let ?g = "\<lambda>i. \<lparr>ArgType = ArgType (schema ! i), ArgName = ArgName (schema ! i),
      Value = Uint32Value (mapIndex ns (ArgName (schema ! i)))\<rparr>"
  have step: "(\<lambda>(args :: Argument list) i.
            let arg = args ! i;
                arg = arg\<lparr>ArgName := ArgName (schema ! i), ArgType := ArgType (schema ! i)\<rparr>;
                arg = arg\<lparr>Value := Uint32Value (mapIndex ns (ArgName arg))\<rparr>
            in args[i := arg]) = (\<lambda>args i. args[i := ?g i])"
    by (intro ext) (simp add: Let_def overwrite_argument)
  have "foldl (\<lambda>args i. args[i := ?g i]) (replicate (length schema) z) [0..<length schema]
        = map ?g [0..<length schema]"
    by (simp add: fill_by_index)
  also have "\<dots> = map (\<lambda>m. \<lparr>ArgType = ArgType m, ArgName = ArgName m,
              Value = Uint32Value (mapIndex ns (ArgName m))\<rparr>) schema"
    by (rule nth_equalityI) simp_all
  finally show ?thesis
    by (simp only: step length_replicate)
qed

lemma getInitNamespaceArguments_map:
  "getInitNamespaceArguments K fs =
     map (\<lambda>m. \<lparr>ArgType = ArgType m, ArgName = ArgName m,
                Value = Uint32Value (mapIndex (fetchInitNamespaces fs) (ArgName m))\<rparr>)
         (EventsIDToParams_at K InitNamespacesEventID)"
  by (simp only: getInitNamespaceArguments_def Let_def fill_arguments [unfolded Let_def])

lemma ParseUint_loop_syntax_zero:
  "snd (ParseUint_loop n s) = Some ErrSyntax \<Longrightarrow> fst (ParseUint_loop n s) = 0"
  by (induction s arbitrary: n) (auto simp: Let_def split: if_splits)

lemma ParseUint_syntax_zero:
  "snd (ParseUint s) = Some ErrSyntax \<Longrightarrow> fst (ParseUint s) = 0"
  by (auto simp: ParseUint_def ParseUint_loop_syntax_zero split: if_splits)

lemma namespaceNumberOf_no_match:
  "FindString t = [] \<Longrightarrow> namespaceNumberOf t = 0"
  by (simp add: namespaceNumberOf_def Trim_def ParseUint_def)

lemma namespaceNumberOf_syntax:
  "snd (ParseUint (Trim (FindString t) ''[]:'')) = Some ErrSyntax \<Longrightarrow> namespaceNumberOf t = 0"
  by (simp add: namespaceNumberOf_def ParseUint_syntax_zero)

lemma decimal_ge: "a \<le> decimal a ds"
  unfolding decimal_def
proof (induction ds arbitrary: a)
  case Nil
  then show ?case by simp
next
  case (Cons c ds)
  have "a \<le> 10 * a + (of_char c - 48)" by simp
  also have "\<dots> \<le> foldl (\<lambda>a c. 10 * a + (of_char c - 48)) (10 * a + (of_char c - 48)) ds"
    by (rule Cons.IH)
  finally show ?case by simp
qed

lemma cutoff_val: "cutoff = 1844674407370955162"
  by (simp add: cutoff_def maxUint64_def)

lemma maxVal_val: "maxVal = 4294967295"
  by (simp add: maxVal_def)

lemma ParseUint_loop_digits:
  assumes "\<forall>c\<in>set s. isDigit c" and "unat n \<le> 4294967295"
  shows "ParseUint_loop n s =
     (if decimal (unat n) s \<le> 4294967295
      then (of_nat (decimal (unat n) s), None)
      else (4294967295, Some ErrRange))"
  using assms
proof (induction s arbitrary: n)
  case Nil
  then show ?case by (simp add: decimal_def)
next
  case (Cons c s)
  define d :: nat where "d = of_char c - 48"
  have dig: "isDigit c" and rest: "\<forall>c\<in>set s. isDigit c"
    using Cons.prems(1) by simp_all
  have d9: "d \<le> 9"
    using dig unfolding isDigit_def d_def by linarith
  have nb: "unat n \<le> 4294967295" by (rule Cons.prems(2))
  have below: "\<not> cutoff \<le> n"
    using nb by (simp add: cutoff_val word_le_nat_alt)
  have u10: "unat (n * 10) = unat n * 10"
    using nb by (simp add: unat_word_ariths)
  have ud: "unat (of_nat d :: 64 word) = d"
    using d9 by (simp add: unat_of_nat)
  have u1: "unat (n * 10 + of_nat d) = unat n * 10 + d"
    using nb d9 by (simp add: unat_word_ariths u10 ud)
  have nowrap: "\<not> n * 10 + of_nat d < n * 10"
    by (simp add: word_less_nat_alt u1 u10)
  have step: "decimal (unat n) (c # s) = decimal (unat n * 10 + d) s"
    by (simp add: decimal_def d_def mult.commute)
  show ?case
  proof (cases "unat n * 10 + d \<le> 4294967295")
    case True
    then have fits: "\<not> n * 10 + of_nat d > maxVal"
      by (simp add: maxVal_val word_less_nat_alt u1)
    have "ParseUint_loop (n * 10 + of_nat d) s =
        (if decimal (unat (n * 10 + of_nat d)) s \<le> 4294967295
         then (of_nat (decimal (unat (n * 10 + of_nat d)) s), None)
         else (4294967295, Some ErrRange))"
      using True by (intro Cons.IH rest) (simp add: u1)
    then show ?thesis
      using dig below nowrap fits by (simp add: Let_def d_def[symmetric] step u1)
  next
    case False
    then have over: "n * 10 + of_nat d > maxVal"
      by (simp add: maxVal_val word_less_nat_alt u1)
    have "unat n * 10 + d \<le> decimal (unat n * 10 + d) s" by (rule decimal_ge)
    then have "\<not> decimal (unat n) (c # s) \<le> 4294967295"
      using False step by simp
    then show ?thesis
      using dig below over by (simp add: Let_def d_def[symmetric] maxVal_val)
  qed
qed

lemma ParseUint_digits:
  assumes "\<forall>c\<in>set s. isDigit c" and "s \<noteq> []"
  shows "ParseUint s =
     (if decimal 0 s \<le> 4294967295 then (of_nat (decimal 0 s), None)
      else (4294967295, Some ErrRange))"
  using ParseUint_loop_digits[OF assms(1), of 0] assms(2) by (simp add: ParseUint_def)

lemma FindString_skip:
  "CHR '':'' \<notin> set kind \<Longrightarrow> FindString (kind @ s) = FindString s"
  by (induction kind) auto

lemma not_inClass_close: "\<not> inClass CHR '']''"
  by (simp add: inClass_def isDigit_def)

lemma FindString_bracketed:
  assumes "\<forall>c\<in>set ds. isDigit c"
  shows "FindString ('':['' @ ds @ '']'') = '':['' @ ds @ '']''"
proof -
  have cls: "\<forall>c\<in>set (CHR ''['' # ds). inClass c"
    using assms by (simp add: inClass_def)
  have "dropWhile inClass ((CHR ''['' # ds) @ '']'') = '']''"
    using cls not_inClass_close by (simp add: dropWhile_append)
  moreover have "takeWhile inClass ((CHR ''['' # ds) @ '']'') = CHR ''['' # ds"
    using cls not_inClass_close by (simp add: takeWhile_append)
  ultimately show ?thesis by simp
qed

lemma digit_not_cut: "isDigit c \<Longrightarrow> c \<notin> set ''[]:''"
  by (auto simp: isDigit_def)

lemma Trim_bracketed:
  assumes "\<forall>c\<in>set ds. isDigit c"
  shows "Trim ('':['' @ ds @ '']'') ''[]:'' = ds"
proof (cases ds rule: rev_cases)
  case Nil
  then show ?thesis by (simp add: Trim_def)
next
  case (snoc ds' l)
  from snoc have "ds \<noteq> []" by simp
  then obtain f ds'' where ds: "ds = f # ds''" by (cases ds) auto
  have f: "f \<notin> set ''[]:''" and l: "l \<notin> set ''[]:''"
    using assms snoc ds digit_not_cut by (metis list.set_intros(1), metis in_set_conv_decomp)
  have "dropWhile (\<lambda>c. c \<in> set ''[]:'') ('':['' @ ds @ '']'') = ds @ '']''"
    using f ds by simp
  moreover have "dropWhile (\<lambda>c. c \<in> set ''[]:'') (rev (ds @ '']'')) = rev ds"
    using l snoc by simp
  ultimately show ?thesis by (simp add: Trim_def)
qed

lemma namespaceNumberOf_overflow:
  assumes "CHR '':'' \<notin> set kind" and "\<forall>c\<in>set ds. isDigit c" and "4294967295 < decimal 0 ds"
  shows "namespaceNumberOf (kind @ '':['' @ ds @ '']'') = 4294967295"
proof -
  have ne: "ds \<noteq> []" using assms(3) by (auto simp: decimal_def)
  have "FindString (kind @ '':['' @ ds @ '']'') = '':['' @ ds @ '']''"
    using FindString_skip[OF assms(1)] FindString_bracketed[OF assms(2)] by simp
  moreover have "fst (ParseUint ds) = 4294967295"
    using ParseUint_digits[OF assms(2) ne] assms(3) by simp
  ultimately show ?thesis
    using Trim_bracketed[OF assms(2)] by (simp add: namespaceNumberOf_def)
qed

lemma Args_CreateInitNamespacesEvent:
  assumes "wf_consts K"
  shows "Args (fst (CreateInitNamespacesEvent K now fs)) =
    map (\<lambda>n. \<lparr>ArgType = ''u32'', ArgName = n,
                Value = Uint32Value (mapIndex (fetchInitNamespaces fs) n)\<rparr>)
      [''cgroup'', ''ipc'', ''mnt'', ''net'', ''pid'', ''pid_for_children'', ''time'',
       ''time_for_children'', ''user'', ''uts'']"
  by (simp add: CreateInitNamespacesEvent_def Let_def getInitNamespaceArguments_map
      EventsIDToParams_at_InitNamespaces[OF assms])

lemma path_pid: "filepath_Join InitProcNsDir ''pid'' = ''/proc/1/ns/pid''"
  by (simp add: filepath_Join_def InitProcNsDir_def)

lemma path_net: "filepath_Join InitProcNsDir ''net'' = ''/proc/1/ns/net''"
  by (simp add: filepath_Join_def InitProcNsDir_def)

lemma number_12: "namespaceNumberOf ''pid:[12]'' = 12"
  by (simp add: namespaceNumberOf_def Trim_def ParseUint_def isDigit_def inClass_def cutoff_val maxVal_val word_le_nat_alt word_less_nat_alt)

lemma number_4026531840: "namespaceNumberOf ''net:[4026531840]'' = 4026531840"
  by (simp add: namespaceNumberOf_def Trim_def ParseUint_def isDigit_def inClass_def cutoff_val maxVal_val word_le_nat_alt word_less_nat_alt)

lemma number_overflow: "namespaceNumberOf ''pid:[4294967296]'' = 4294967295"
  by (simp add: namespaceNumberOf_def Trim_def ParseUint_def isDigit_def inClass_def cutoff_val maxVal_val word_le_nat_alt word_less_nat_alt)

lemma mapIndex_listed:
  assumes "ReadDir fs InitProcNsDir = Inr names" and "k \<in> set names"
  shows "mapIndex (fetchInitNamespaces fs) k =
    namespaceNumberOf (fst (os_Readlink fs (filepath_Join InitProcNsDir k)))"
  using assms by (simp add: mapIndex_def fetchInitNamespaces_apply)

lemma mapIndex_unreadable:
  assumes "ReadDir fs InitProcNsDir = Inl e"
  shows "mapIndex (fetchInitNamespaces fs) k = 0"
  using assms by (simp add: mapIndex_def fetchInitNamespaces_apply)

text \<open>
  C1. Whatever the state of the namespace directory, the event built by
  \<open>CreateInitNamespacesEvent\<close> has one argument per entry of the schema of
  \<open>InitNamespacesEventID\<close>, in the order of the schema; the value of each argument is
  the number the inventory holds under the argument's name, and zero when the inventory has
  no such name. When the listing contains \<open>pid\<close> and \<open>net\<close> and these links
  resolve to \<open>pid:[12]\<close> and \<open>net:[4026531840]\<close>, the \<open>pid\<close> argument
  is 12 and the \<open>net\<close> argument is 4026531840.
\<close>

theorem C1_arguments_follow_schema:
  assumes "wf_consts K"
  shows "(let ev = fst (CreateInitNamespacesEvent K now fs);
              schema = EventsIDToParams_at K InitNamespacesEventID;
              inventory = fetchInitNamespaces fs
          in map (\<lambda>a. \<lparr>ArgType = ArgType a, ArgName = ArgName a\<rparr>) (Args ev) = schema
           \<and> map ArgName (Args ev) =
               [''cgroup'', ''ipc'', ''mnt'', ''net'', ''pid'', ''pid_for_children'', ''time'',
                ''time_for_children'', ''user'', ''uts'']
           \<and> ArgsNum ev = int (length schema)
           \<and> map Value (Args ev) =
               map (\<lambda>m. Uint32Value (case inventory (ArgName m) of None \<Rightarrow> 0 | Some v \<Rightarrow> v)) schema
           \<and> (\<forall>a\<in>set (Args ev). inventory (ArgName a) = None \<longrightarrow> Value a = Uint32Value 0)
           \<and> (ReadDir fs InitProcNsDir = Inr names \<and> ''pid'' \<in> set names \<and> ''net'' \<in> set names
                \<and> Readlink fs ''/proc/1/ns/pid'' = Inr ''pid:[12]''
                \<and> Readlink fs ''/proc/1/ns/net'' = Inr ''net:[4026531840]''
              \<longrightarrow> Args ev ! 4 = \<lparr>ArgType = ''u32'', ArgName = ''pid'', Value = Uint32Value 12\<rparr>
                \<and> Args ev ! 3 = \<lparr>ArgType = ''u32'', ArgName = ''net'', Value = Uint32Value 4026531840\<rparr>))"
proof -
  have ex: "mapIndex (fetchInitNamespaces fs) ''pid'' = 12 \<and>
            mapIndex (fetchInitNamespaces fs) ''net'' = 4026531840"
    if "ReadDir fs InitProcNsDir = Inr names" "''pid'' \<in> set names" "''net'' \<in> set names"
       "Readlink fs ''/proc/1/ns/pid'' = Inr ''pid:[12]''"
       "Readlink fs ''/proc/1/ns/net'' = Inr ''net:[4026531840]''"
    using that
    by (simp add: mapIndex_listed[OF that(1)] path_pid path_net os_Readlink_def number_12
        number_4026531840)
  show ?thesis
    using ex
    by (simp add: Let_def Args_CreateInitNamespacesEvent[OF assms]
        EventsIDToParams_at_InitNamespaces[OF assms] mapIndex_def
        CreateInitNamespacesEvent_def getInitNamespaceArguments_map)
qed

theorem C1_arguments_follow_schema_witness:
  "wf_consts declOrder
   \<and> ReadDir exampleNsDir InitProcNsDir = Inr [''net'', ''pid'']
   \<and> Readlink exampleNsDir ''/proc/1/ns/pid'' = Inr ''pid:[12]''
   \<and> Readlink exampleNsDir ''/proc/1/ns/net'' = Inr ''net:[4026531840]''
   \<and> fetchInitNamespaces exampleNsDir ''uts'' = None
   \<and> Args (fst (CreateInitNamespacesEvent declOrder 0 exampleNsDir)) ! 4 =
       \<lparr>ArgType = ''u32'', ArgName = ''pid'', Value = Uint32Value 12\<rparr>
   \<and> Args (fst (CreateInitNamespacesEvent declOrder 0 exampleNsDir)) ! 3 =
       \<lparr>ArgType = ''u32'', ArgName = ''net'', Value = Uint32Value 4026531840\<rparr>
   \<and> Args (fst (CreateInitNamespacesEvent declOrder 0 exampleNsDir)) ! 9 =
       \<lparr>ArgType = ''u32'', ArgName = ''uts'', Value = Uint32Value 0\<rparr>"
proof -
  have listing: "ReadDir exampleNsDir InitProcNsDir = Inr [''net'', ''pid'']"
    and pid: "Readlink exampleNsDir ''/proc/1/ns/pid'' = Inr ''pid:[12]''"
    and net: "Readlink exampleNsDir ''/proc/1/ns/net'' = Inr ''net:[4026531840]''"
    by (simp_all add: exampleNsDir_def InitProcNsDir_def)
  have uts: "fetchInitNamespaces exampleNsDir ''uts'' = None"
    by (simp add: fetchInitNamespaces_apply listing)
  show ?thesis
    using C1_arguments_follow_schema[OF declOrder_wf, of 0 exampleNsDir "[''net'', ''pid'']"]
      declOrder_wf listing pid net uts
    by (simp add: Let_def Args_CreateInitNamespacesEvent[OF declOrder_wf] mapIndex_def)
qed

lemma Create_no_error: "snd (CreateInitNamespacesEvent K now fs) = None"
  by (simp add: CreateInitNamespacesEvent_def Let_def)

lemma mapIndex_defect:
  assumes "ReadDir fs InitProcNsDir = Inr names" and "kind \<in> set names"
    and "Readlink fs (filepath_Join InitProcNsDir kind) = Inl e
       \<or> (\<exists>t. Readlink fs (filepath_Join InitProcNsDir kind) = Inr t
            \<and> (FindString t = [] \<or> snd (ParseUint (Trim (FindString t) ''[]:'')) = Some ErrSyntax))"
  shows "mapIndex (fetchInitNamespaces fs) kind = 0"
  using assms(3)
  by (auto simp: mapIndex_listed[OF assms(1,2)] os_Readlink_def namespaceNumberOf_no_match
      namespaceNumberOf_syntax)

lemma mapIndex_other:
  assumes "ReadDir fs InitProcNsDir = Inr names" and "ReadDir fs' InitProcNsDir = Inr names"
    and "Readlink fs' (filepath_Join InitProcNsDir n) = Readlink fs (filepath_Join InitProcNsDir n)"
  shows "mapIndex (fetchInitNamespaces fs') n = mapIndex (fetchInitNamespaces fs) n"
  using assms by (simp add: mapIndex_def fetchInitNamespaces_apply os_Readlink_def)

lemma ParseUint_loop_range_max:
  "snd (ParseUint_loop n s) = Some ErrRange \<Longrightarrow> fst (ParseUint_loop n s) = maxVal"
  by (induction s arbitrary: n) (auto simp: Let_def split: if_splits)

lemma namespaceNumberOf_range:
  assumes "snd (ParseUint (Trim (FindString t) ''[]:'')) = Some ErrRange"
  shows "namespaceNumberOf t = 4294967295"
proof -
  have "fst (ParseUint (Trim (FindString t) ''[]:'')) = maxVal"
    using assms by (auto simp: ParseUint_def ParseUint_loop_range_max split: if_splits)
  then show ?thesis
    by (simp add: namespaceNumberOf_def maxVal_val)
qed

lemma mapIndex_range:
  assumes "ReadDir fs InitProcNsDir = Inr names" and "kind \<in> set names"
    and "\<exists>t. Readlink fs (filepath_Join InitProcNsDir kind) = Inr t
            \<and> snd (ParseUint (Trim (FindString t) ''[]:'')) = Some ErrRange"
  shows "mapIndex (fetchInitNamespaces fs) kind = 4294967295"
  using assms(3)
  by (auto simp: mapIndex_listed[OF assms(1,2)] os_Readlink_def namespaceNumberOf_range)

text \<open>
  C5 (as amended). A defect of one entry of the namespace directory stays with that entry:
  whatever the link of a listed kind is, an event is returned with no error, it has its ten
  arguments, and every argument of another name is what it is for any directory that
  differs only in that one link. When the link cannot be read, or its target contains no
  match of the pattern of the source, or the text between the brackets is rejected as a
  syntax error, every argument of that name is 0. When the text is rejected with a range
  error, every argument of that name is 4294967295. Targets that are not of the form
  \<open>kind:[number]\<close> and still contain a match of the pattern are outside this statement.
\<close>

theorem C5_defect_stays_local:
  assumes "wf_consts K"
    and "ReadDir fs InitProcNsDir = Inr names" and "kind \<in> set names"
    and "ReadDir fs' InitProcNsDir = Inr names"
    and "\<forall>n. n \<noteq> kind \<longrightarrow>
           Readlink fs' (filepath_Join InitProcNsDir n) = Readlink fs (filepath_Join InitProcNsDir n)"
  shows "snd (CreateInitNamespacesEvent K now fs) = None
       \<and> length (Args (fst (CreateInitNamespacesEvent K now fs))) = 10
       \<and> (\<forall>i<10. ArgName (Args (fst (CreateInitNamespacesEvent K now fs)) ! i) \<noteq> kind \<longrightarrow>
             Args (fst (CreateInitNamespacesEvent K now fs)) ! i =
             Args (fst (CreateInitNamespacesEvent K now fs')) ! i)
       \<and> ((Readlink fs (filepath_Join InitProcNsDir kind) = Inl e
            \<or> (\<exists>t. Readlink fs (filepath_Join InitProcNsDir kind) = Inr t
                 \<and> (FindString t = []
                      \<or> snd (ParseUint (Trim (FindString t) ''[]:'')) = Some ErrSyntax)))
           \<longrightarrow> (\<forall>a\<in>set (Args (fst (CreateInitNamespacesEvent K now fs))).
                 ArgName a = kind \<longrightarrow> Value a = Uint32Value 0))
       \<and> ((\<exists>t. Readlink fs (filepath_Join InitProcNsDir kind) = Inr t
                 \<and> snd (ParseUint (Trim (FindString t) ''[]:'')) = Some ErrRange)
           \<longrightarrow> (\<forall>a\<in>set (Args (fst (CreateInitNamespacesEvent K now fs))).
                 ArgName a = kind \<longrightarrow> Value a = Uint32Value 4294967295))"
proof -
  let ?L = "[''cgroup'', ''ipc'', ''mnt'', ''net'', ''pid'', ''pid_for_children'', ''time'',
       ''time_for_children'', ''user'', ''uts'']"
  let ?mk = "\<lambda>fs n. \<lparr>ArgType = ''u32'', ArgName = n,
                Value = Uint32Value (mapIndex (fetchInitNamespaces fs) n)\<rparr>"
  have A: "Args (fst (CreateInitNamespacesEvent K now fs)) = map (?mk fs) ?L"
    and A': "Args (fst (CreateInitNamespacesEvent K now fs')) = map (?mk fs') ?L"
    by (rule Args_CreateInitNamespacesEvent[OF assms(1)])+
  have same: "mapIndex (fetchInitNamespaces fs') n = mapIndex (fetchInitNamespaces fs) n"
    if "n \<noteq> kind" for n
    using mapIndex_other[OF assms(2,4)] assms(5) that by simp
  have len: "length ?L = 10" by simp
  have zero: "\<forall>a\<in>set (map (?mk fs) ?L). ArgName a = kind \<longrightarrow> Value a = Uint32Value 0"
    if "Readlink fs (filepath_Join InitProcNsDir kind) = Inl e
            \<or> (\<exists>t. Readlink fs (filepath_Join InitProcNsDir kind) = Inr t
                 \<and> (FindString t = []
                      \<or> snd (ParseUint (Trim (FindString t) ''[]:'')) = Some ErrSyntax))"
    using mapIndex_defect[OF assms(2,3) that] by auto
  have range: "\<forall>a\<in>set (map (?mk fs) ?L). ArgName a = kind \<longrightarrow> Value a = Uint32Value 4294967295"
    if "\<exists>t. Readlink fs (filepath_Join InitProcNsDir kind) = Inr t
                 \<and> snd (ParseUint (Trim (FindString t) ''[]:'')) = Some ErrRange"
    using mapIndex_range[OF assms(2,3) that] by auto
  have others: "\<forall>i<10. ArgName (map (?mk fs) ?L ! i) \<noteq> kind \<longrightarrow>
      map (?mk fs) ?L ! i = map (?mk fs') ?L ! i"
  proof (intro allI impI)
    fix i :: nat
    assume i: "i < 10" and ne: "ArgName (map (?mk fs) ?L ! i) \<noteq> kind"
    from i have lt: "i < length ?L" by simp
    have "?L ! i \<noteq> kind"
      using ne by (simp only: nth_map[OF lt] ArgMeta.simps simp_thms)
    then have "?mk fs (?L ! i) = ?mk fs' (?L ! i)"
      using same by simp
    then show "map (?mk fs) ?L ! i = map (?mk fs') ?L ! i"
      by (simp only: nth_map[OF lt])
  qed
  show ?thesis
    unfolding A A' using zero range others
    by (simp only: Create_no_error length_map len simp_thms) blast
qed

theorem C5_defect_stays_local_witness:
  "wf_consts declOrder
   \<and> ReadDir brokenNsDir InitProcNsDir = Inr [''net'', ''pid'']
   \<and> Readlink brokenNsDir (filepath_Join InitProcNsDir ''pid'') = Inl PathError
   \<and> ReadDir exampleNsDir InitProcNsDir = Inr [''net'', ''pid'']
   \<and> Readlink exampleNsDir (filepath_Join InitProcNsDir ''net'') =
       Readlink brokenNsDir (filepath_Join InitProcNsDir ''net'')
   \<and> snd (CreateInitNamespacesEvent declOrder 0 brokenNsDir) = None
   \<and> Args (fst (CreateInitNamespacesEvent declOrder 0 brokenNsDir)) ! 4 =
       \<lparr>ArgType = ''u32'', ArgName = ''pid'', Value = Uint32Value 0\<rparr>
   \<and> Args (fst (CreateInitNamespacesEvent declOrder 0 brokenNsDir)) ! 3 =
       Args (fst (CreateInitNamespacesEvent declOrder 0 exampleNsDir)) ! 3
   \<and> ReadDir overflowNsDir InitProcNsDir = Inr [''net'', ''pid'']
   \<and> Readlink overflowNsDir (filepath_Join InitProcNsDir ''pid'') = Inr ''pid:[4294967296]''
   \<and> snd (ParseUint (Trim (FindString ''pid:[4294967296]'') ''[]:'')) = Some ErrRange
   \<and> Args (fst (CreateInitNamespacesEvent declOrder 0 overflowNsDir)) ! 4 =
       \<lparr>ArgType = ''u32'', ArgName = ''pid'', Value = Uint32Value 4294967295\<rparr>"
proof -
  have l1: "ReadDir brokenNsDir InitProcNsDir = Inr [''net'', ''pid'']"
    and l2: "ReadDir exampleNsDir InitProcNsDir = Inr [''net'', ''pid'']"
    and l3: "ReadDir overflowNsDir InitProcNsDir = Inr [''net'', ''pid'']"
    by (simp_all add: brokenNsDir_def exampleNsDir_def overflowNsDir_def InitProcNsDir_def)
  have broken: "Readlink brokenNsDir (filepath_Join InitProcNsDir ''pid'') = Inl PathError"
    by (simp add: brokenNsDir_def path_pid)
  have over: "Readlink overflowNsDir (filepath_Join InitProcNsDir ''pid'') = Inr ''pid:[4294967296]''"
    by (simp add: overflowNsDir_def path_pid)
  have parse: "snd (ParseUint (Trim (FindString ''pid:[4294967296]'') ''[]:'')) = Some ErrRange"
    by (simp add: Trim_def ParseUint_def isDigit_def inClass_def cutoff_val maxVal_val
        word_le_nat_alt word_less_nat_alt)
  have others: "\<forall>n. n \<noteq> ''pid'' \<longrightarrow>
      Readlink exampleNsDir (filepath_Join InitProcNsDir n) =
      Readlink brokenNsDir (filepath_Join InitProcNsDir n)"
    by (simp add: brokenNsDir_def exampleNsDir_def filepath_Join_def InitProcNsDir_def)
  have net: "Readlink exampleNsDir (filepath_Join InitProcNsDir ''net'') =
       Readlink brokenNsDir (filepath_Join InitProcNsDir ''net'')"
    using others by simp
  have mem: "''pid'' \<in> set [''net'', ''pid'']" by simp
  have B: "(\<forall>i<10. ArgName (Args (fst (CreateInitNamespacesEvent declOrder 0 brokenNsDir)) ! i) \<noteq> ''pid'' \<longrightarrow>
             Args (fst (CreateInitNamespacesEvent declOrder 0 brokenNsDir)) ! i =
             Args (fst (CreateInitNamespacesEvent declOrder 0 exampleNsDir)) ! i)
       \<and> (\<forall>a\<in>set (Args (fst (CreateInitNamespacesEvent declOrder 0 brokenNsDir))).
             ArgName a = ''pid'' \<longrightarrow> Value a = Uint32Value 0)"
    using C5_defect_stays_local[where now = 0 and e = PathError, OF declOrder_wf l1 mem l2 others]
      broken
    by blast
  have O: "\<forall>a\<in>set (Args (fst (CreateInitNamespacesEvent declOrder 0 overflowNsDir))).
             ArgName a = ''pid'' \<longrightarrow> Value a = Uint32Value 4294967295"
    using C5_defect_stays_local[where now = 0 and e = PathError and fs' = overflowNsDir,
        OF declOrder_wf l3 mem l3] over parse
    by blast
  from B have "ArgName (Args (fst (CreateInitNamespacesEvent declOrder 0 brokenNsDir)) ! 3) \<noteq> ''pid'' \<longrightarrow>
             Args (fst (CreateInitNamespacesEvent declOrder 0 brokenNsDir)) ! 3 =
             Args (fst (CreateInitNamespacesEvent declOrder 0 exampleNsDir)) ! 3"
    by simp
  then have three: "Args (fst (CreateInitNamespacesEvent declOrder 0 brokenNsDir)) ! 3 =
             Args (fst (CreateInitNamespacesEvent declOrder 0 exampleNsDir)) ! 3"
    by (simp add: Args_CreateInitNamespacesEvent[OF declOrder_wf])
  have four: "Args (fst (CreateInitNamespacesEvent declOrder 0 brokenNsDir)) ! 4 =
       \<lparr>ArgType = ''u32'', ArgName = ''pid'', Value = Uint32Value 0\<rparr>"
    using B by (simp add: Args_CreateInitNamespacesEvent[OF declOrder_wf])
  have four': "Args (fst (CreateInitNamespacesEvent declOrder 0 overflowNsDir)) ! 4 =
       \<lparr>ArgType = ''u32'', ArgName = ''pid'', Value = Uint32Value 4294967295\<rparr>"
    using O by (simp add: Args_CreateInitNamespacesEvent[OF declOrder_wf])
  show ?thesis
    using declOrder_wf l1 l2 l3 broken over parse net three four four'
    by (simp add: Create_no_error)
qed

text \<open>
  C5, the claim as stated fails in two ways. The number 4294967296 does not parse as a
  32-bit unsigned integer, and the \<open>pid\<close> argument is 4294967295, not 0. The targets
  \<open>pid:[12]junk\<close> and \<open>net:12]\<close> are not of the form \<open>kind:[number]\<close>, and the
  arguments are 12, not 0: the pattern is searched anywhere in the target, and its
  character class admits the opening bracket among the digits instead of requiring it once.
\<close>

theorem C5_counterexample:
  "Readlink overflowNsDir (filepath_Join InitProcNsDir ''pid'') = Inr ''pid:[4294967296]''
   \<and> ParseUint (Trim (FindString ''pid:[4294967296]'') ''[]:'') = (4294967295, Some ErrRange)
   \<and> Args (fst (CreateInitNamespacesEvent declOrder 0 overflowNsDir)) ! 4 =
       \<lparr>ArgType = ''u32'', ArgName = ''pid'', Value = Uint32Value 4294967295\<rparr>
   \<and> Value (Args (fst (CreateInitNamespacesEvent declOrder 0 overflowNsDir)) ! 4) \<noteq> Uint32Value 0
   \<and> Readlink malformedNsDir (filepath_Join InitProcNsDir ''pid'') = Inr ''pid:[12]junk''
   \<and> \<not> kindNumberForm ''pid:[12]junk''
   \<and> Args (fst (CreateInitNamespacesEvent declOrder 0 malformedNsDir)) ! 4 =
       \<lparr>ArgType = ''u32'', ArgName = ''pid'', Value = Uint32Value 12\<rparr>
   \<and> Readlink malformedNsDir (filepath_Join InitProcNsDir ''net'') = Inr ''net:12]''
   \<and> \<not> kindNumberForm ''net:12]''
   \<and> Args (fst (CreateInitNamespacesEvent declOrder 0 malformedNsDir)) ! 3 =
       \<lparr>ArgType = ''u32'', ArgName = ''net'', Value = Uint32Value 12\<rparr>"
proof -
  have listing: "ReadDir overflowNsDir InitProcNsDir = Inr [''net'', ''pid'']"
    and listing': "ReadDir malformedNsDir InitProcNsDir = Inr [''net'', ''pid'']"
    by (simp_all add: overflowNsDir_def malformedNsDir_def InitProcNsDir_def)
  have link: "Readlink overflowNsDir (filepath_Join InitProcNsDir ''pid'') = Inr ''pid:[4294967296]''"
    by (simp add: overflowNsDir_def path_pid)
  have junk: "Readlink malformedNsDir (filepath_Join InitProcNsDir ''pid'') = Inr ''pid:[12]junk''"
    and open_missing: "Readlink malformedNsDir (filepath_Join InitProcNsDir ''net'') = Inr ''net:12]''"
    by (simp_all add: malformedNsDir_def path_pid path_net)
  have parse: "ParseUint (Trim (FindString ''pid:[4294967296]'') ''[]:'') = (4294967295, Some ErrRange)"
    by (simp add: Trim_def ParseUint_def isDigit_def inClass_def cutoff_val maxVal_val
        word_le_nat_alt word_less_nat_alt)
  have n1: "namespaceNumberOf ''pid:[12]junk'' = 12"
    and n2: "namespaceNumberOf ''net:12]'' = 12"
    by (simp_all add: namespaceNumberOf_def Trim_def ParseUint_def isDigit_def inClass_def
        cutoff_val maxVal_val word_le_nat_alt word_less_nat_alt)
  have f1: "\<not> kindNumberForm ''pid:[12]junk''"
  proof
    assume "kindNumberForm ''pid:[12]junk''"
    then obtain kind ds where "''pid:[12]junk'' = kind @ '':['' @ ds @ '']''"
      by (auto simp: kindNumberForm_def)
    then have "last ''pid:[12]junk'' = last (kind @ '':['' @ ds @ '']'')" by simp
    then show False by simp
  qed
  have f2: "\<not> kindNumberForm ''net:12]''"
  proof
    assume "kindNumberForm ''net:12]''"
    then obtain kind ds where eq: "''net:12]'' = kind @ '':['' @ ds @ '']''"
      by (auto simp: kindNumberForm_def)
    have "CHR ''['' \<in> set ''net:12]''"
      by (subst eq) simp
    then show False by simp
  qed
  have m1: "mapIndex (fetchInitNamespaces overflowNsDir) ''pid'' = 4294967295"
    by (simp add: mapIndex_listed[OF listing] link os_Readlink_def number_overflow)
  have m2: "mapIndex (fetchInitNamespaces malformedNsDir) ''pid'' = 12"
    by (simp add: mapIndex_listed[OF listing'] junk os_Readlink_def n1)
  have m3: "mapIndex (fetchInitNamespaces malformedNsDir) ''net'' = 12"
    by (simp add: mapIndex_listed[OF listing'] open_missing os_Readlink_def n2)
  show ?thesis
    using link parse junk open_missing f1 f2 m1 m2 m3
    by (simp add: Args_CreateInitNamespacesEvent[OF declOrder_wf])
qed

text \<open>
  C6. When the directory cannot be listed at all, \<open>CreateInitNamespacesEvent\<close> still
  returns an event and no error, and every argument of the event is 0.
\<close>

theorem C6_unreadable_directory:
  assumes "wf_consts K" and "ReadDir fs InitProcNsDir = Inl e"
  shows "snd (CreateInitNamespacesEvent K now fs) = None
       \<and> map ArgName (Args (fst (CreateInitNamespacesEvent K now fs))) =
           [''cgroup'', ''ipc'', ''mnt'', ''net'', ''pid'', ''pid_for_children'', ''time'',
            ''time_for_children'', ''user'', ''uts'']
       \<and> (\<forall>a\<in>set (Args (fst (CreateInitNamespacesEvent K now fs))). Value a = Uint32Value 0)"
  by (simp add: Create_no_error Args_CreateInitNamespacesEvent[OF assms(1)]
      mapIndex_unreadable[OF assms(2)])

theorem C6_unreadable_directory_witness:
  "wf_consts declOrder \<and> ReadDir unreadableNsDir InitProcNsDir = Inl PathError
   \<and> snd (CreateInitNamespacesEvent declOrder 0 unreadableNsDir) = None
   \<and> map Value (Args (fst (CreateInitNamespacesEvent declOrder 0 unreadableNsDir))) =
       replicate 10 (Uint32Value 0)"
proof -
  have unreadable: "ReadDir unreadableNsDir InitProcNsDir = Inl PathError"
    by (simp add: unreadableNsDir_def)
  have "\<forall>a\<in>set (Args (fst (CreateInitNamespacesEvent declOrder 0 unreadableNsDir))).
      Value a = Uint32Value 0"
    using C6_unreadable_directory[OF declOrder_wf unreadable, of 0] by simp
  then have "map Value (Args (fst (CreateInitNamespacesEvent declOrder 0 unreadableNsDir))) =
       replicate 10 (Uint32Value 0)"
    by (simp add: Args_CreateInitNamespacesEvent[OF declOrder_wf] eval_nat_numeral)
  then show ?thesis
    using declOrder_wf unreadable by (simp add: Create_no_error)
qed

lemma fetchInitNamespaces_same:
  assumes "ReadDir fs2 InitProcNsDir = ReadDir fs1 InitProcNsDir"
    and "\<forall>names n. ReadDir fs1 InitProcNsDir = Inr names \<longrightarrow> n \<in> set names \<longrightarrow>
           Readlink fs2 (filepath_Join InitProcNsDir n) = Readlink fs1 (filepath_Join InitProcNsDir n)"
  shows "fetchInitNamespaces fs2 = fetchInitNamespaces fs1"
proof
  fix k
  show "fetchInitNamespaces fs2 k = fetchInitNamespaces fs1 k"
  proof (cases "ReadDir fs1 InitProcNsDir")
    case (Inl e)
    then show ?thesis using assms(1) by (simp add: fetchInitNamespaces_apply)
  next
    case (Inr names)
    then show ?thesis
      using assms by (simp add: fetchInitNamespaces_apply os_Readlink_def)
  qed
qed

text \<open>
  C7 (as amended). When the namespace directory is the same at two calls (the same
  listing, and the same result of reading the link of every listed entry), each call
  returns an event and a nil error, and the second event is the first with its
  \<open>Timestamp\<close> replaced: each event carries the clock reading of its own call, and all
  other fields agree (process name \<open>tracee-ebpf\<close>, the identifier and the name of the
  \<open>init_namespaces\<close> event, ten arguments in schema order with equal values). The rest of
  the file system may differ between the calls.
\<close>

theorem C7_equal_up_to_timestamp:
  assumes "wf_consts K"
    and "ReadDir fs2 InitProcNsDir = ReadDir fs1 InitProcNsDir"
    and "\<forall>names n. ReadDir fs1 InitProcNsDir = Inr names \<longrightarrow> n \<in> set names \<longrightarrow>
           Readlink fs2 (filepath_Join InitProcNsDir n) = Readlink fs1 (filepath_Join InitProcNsDir n)"
  shows "snd (CreateInitNamespacesEvent K t1 fs1) = None
       \<and> snd (CreateInitNamespacesEvent K t2 fs2) = None
       \<and> fst (CreateInitNamespacesEvent K t2 fs2) =
           (fst (CreateInitNamespacesEvent K t1 fs1))\<lparr>Timestamp := t2\<rparr>
       \<and> Timestamp (fst (CreateInitNamespacesEvent K t1 fs1)) = t1
       \<and> ProcessName (fst (CreateInitNamespacesEvent K t1 fs1)) = ''tracee-ebpf''
       \<and> EventID (fst (CreateInitNamespacesEvent K t1 fs1)) = InitNamespacesEventID
       \<and> EventName (fst (CreateInitNamespacesEvent K t1 fs1)) = ''init_namespaces''
       \<and> ArgsNum (fst (CreateInitNamespacesEvent K t1 fs1)) = 10
       \<and> map ArgName (Args (fst (CreateInitNamespacesEvent K t1 fs1))) =
           [''cgroup'', ''ipc'', ''mnt'', ''net'', ''pid'', ''pid_for_children'', ''time'',
            ''time_for_children'', ''user'', ''uts'']"
proof -
  have same: "fetchInitNamespaces fs2 = fetchInitNamespaces fs1"
    by (rule fetchInitNamespaces_same[OF assms(2,3)])
  show ?thesis
    by (simp add: CreateInitNamespacesEvent_def Let_def getInitNamespaceArguments_map same
        EventsIDToParams_at_InitNamespaces[OF assms(1)]
        EventsIDToEvent_at_InitNamespaces[OF assms(1)])
qed

theorem C7_equal_up_to_timestamp_witness:
  "wf_consts declOrder
   \<and> ReadDir exampleNsDirElsewhere InitProcNsDir = ReadDir exampleNsDir InitProcNsDir
   \<and> Readlink exampleNsDirElsewhere (filepath_Join InitProcNsDir ''pid'') =
       Readlink exampleNsDir (filepath_Join InitProcNsDir ''pid'')
   \<and> Readlink exampleNsDirElsewhere ''/proc/self/ns/pid'' \<noteq> Readlink exampleNsDir ''/proc/self/ns/pid''
   \<and> snd (CreateInitNamespacesEvent declOrder 1 exampleNsDir) = None
   \<and> snd (CreateInitNamespacesEvent declOrder 2 exampleNsDirElsewhere) = None
   \<and> fst (CreateInitNamespacesEvent declOrder 2 exampleNsDirElsewhere) =
       (fst (CreateInitNamespacesEvent declOrder 1 exampleNsDir))\<lparr>Timestamp := 2\<rparr>
   \<and> Timestamp (fst (CreateInitNamespacesEvent declOrder 1 exampleNsDir)) = 1"
proof -
  have dir: "ReadDir exampleNsDirElsewhere InitProcNsDir = ReadDir exampleNsDir InitProcNsDir"
    by (simp add: exampleNsDirElsewhere_def exampleNsDir_def InitProcNsDir_def)
  have links: "\<forall>names n. ReadDir exampleNsDir InitProcNsDir = Inr names \<longrightarrow> n \<in> set names \<longrightarrow>
      Readlink exampleNsDirElsewhere (filepath_Join InitProcNsDir n) =
      Readlink exampleNsDir (filepath_Join InitProcNsDir n)"
    by (auto simp: exampleNsDirElsewhere_def exampleNsDir_def InitProcNsDir_def filepath_Join_def)
  have pid: "Readlink exampleNsDirElsewhere (filepath_Join InitProcNsDir ''pid'') =
       Readlink exampleNsDir (filepath_Join InitProcNsDir ''pid'')"
    by (simp add: exampleNsDirElsewhere_def exampleNsDir_def path_pid)
  have differ: "Readlink exampleNsDirElsewhere ''/proc/self/ns/pid'' \<noteq>
      Readlink exampleNsDir ''/proc/self/ns/pid''"
    by (simp add: exampleNsDirElsewhere_def exampleNsDir_def)
  show ?thesis
    using C7_equal_up_to_timestamp[OF declOrder_wf dir links, of 1 2] declOrder_wf dir pid differ
    by simp
qed

text \<open>
  C7, the claim as stated fails: two calls on the same directory at different clock
  readings return different events.
\<close>

theorem C7_counterexample:
  "fst (CreateInitNamespacesEvent declOrder 1 exampleNsDir) \<noteq>
   fst (CreateInitNamespacesEvent declOrder 2 exampleNsDir)"
proof
  assume "fst (CreateInitNamespacesEvent declOrder 1 exampleNsDir) =
   fst (CreateInitNamespacesEvent declOrder 2 exampleNsDir)"
  then have "Timestamp (fst (CreateInitNamespacesEvent declOrder 1 exampleNsDir)) =
   Timestamp (fst (CreateInitNamespacesEvent declOrder 2 exampleNsDir))"
    by (rule arg_cong)
  then show False by (simp add: CreateInitNamespacesEvent_def Let_def)
qed

text \<open>
  C8. The configuration slots \<open>configDetectOrigSyscall\<close> to \<open>configCgroupV1\<close> are
  the numbers 1 to 20 in the order of their declaration: consecutive, pairwise distinct,
  with least value 1, and 0 is not among them.
\<close>

theorem C8_bpfConfig_slots:
  "bpfConfigSlots = map word_of_nat [1..<21]
   \<and> distinct bpfConfigSlots
   \<and> hd bpfConfigSlots = 1
   \<and> Min (set bpfConfigSlots) = 1
   \<and> 0 \<notin> set bpfConfigSlots"
  by (simp add: bpfConfigSlots_def configDetectOrigSyscall_def configExecEnv_def
      configCaptureFiles_def configExtractDynCode_def configTraceePid_def
      configStackAddresses_def configUIDFilter_def configMntNsFilter_def configPidNsFilter_def
      configUTSNsFilter_def configCommFilter_def configPidFilter_def configContFilter_def
      configFollowFilter_def configNewPidFilter_def configNewContFilter_def configDebugNet_def
      configProcTreeFilter_def configCaptureModules_def configCgroupV1_def upt_rec)

text \<open>
  C9. The tail-call slots \<open>tailVfsWrite\<close>, \<open>tailVfsWritev\<close>, \<open>tailSendBin\<close>
  and \<open>tailSendBinTP\<close> are the numbers 0 to 3 in the order of their declaration:
  the first is 0, they are consecutive and pairwise distinct.
\<close>

theorem C9_tail_slots:
  "tailSlots = map word_of_nat [0..<4]
   \<and> distinct tailSlots
   \<and> hd tailSlots = 0"
  by (simp add: tailSlots_def tailVfsWrite_def tailVfsWritev_def tailSendBin_def
      tailSendBinTP_def upt_rec)

text \<open>
  C10. A link target of the form \<open>kind:[number]\<close> whose number is larger than
  \<open>2^32 - 1\<close> is recorded as 4294967295: the parse stops with a range error and the
  clamped value it returns with the error is kept.
\<close>

theorem C10_out_of_range_saturates:
  assumes "ReadDir fs InitProcNsDir = Inr names" and "kind \<in> set names"
    and "Readlink fs (filepath_Join InitProcNsDir kind) = Inr (tag @ '':['' @ ds @ '']'')"
    and "CHR '':'' \<notin> set tag" and "\<forall>c\<in>set ds. isDigit c" and "4294967295 < decimal 0 ds"
  shows "fetchInitNamespaces fs kind = Some 4294967295
       \<and> ParseUint (Trim (FindString (tag @ '':['' @ ds @ '']'')) ''[]:'') = (4294967295, Some ErrRange)"
proof -
  have ne: "ds \<noteq> []" using assms(6) by (auto simp: decimal_def)
  have "FindString (tag @ '':['' @ ds @ '']'') = '':['' @ ds @ '']''"
    using FindString_skip[OF assms(4)] FindString_bracketed[OF assms(5)] by simp
  then have "Trim (FindString (tag @ '':['' @ ds @ '']'')) ''[]:'' = ds"
    using Trim_bracketed[OF assms(5)] by simp
  moreover have "ParseUint ds = (4294967295, Some ErrRange)"
    using ParseUint_digits[OF assms(5) ne] assms(6) by simp
  moreover have "fetchInitNamespaces fs kind =
      Some (namespaceNumberOf (tag @ '':['' @ ds @ '']''))"
    using assms(1,2,3) by (simp add: fetchInitNamespaces_apply os_Readlink_def)
  ultimately show ?thesis
    using namespaceNumberOf_overflow[OF assms(4,5,6)] by simp
qed

theorem C10_out_of_range_saturates_witness:
  "ReadDir overflowNsDir InitProcNsDir = Inr [''net'', ''pid'']
   \<and> Readlink overflowNsDir (filepath_Join InitProcNsDir ''pid'') = Inr (''pid'' @ '':['' @ ''4294967296'' @ '']'')
   \<and> 4294967295 < decimal 0 ''4294967296''
   \<and> fetchInitNamespaces overflowNsDir ''pid'' = Some 4294967295"
proof -
  have listing: "ReadDir overflowNsDir InitProcNsDir = Inr [''net'', ''pid'']"
    by (simp add: overflowNsDir_def InitProcNsDir_def)
  have link: "Readlink overflowNsDir (filepath_Join InitProcNsDir ''pid'') =
      Inr (''pid'' @ '':['' @ ''4294967296'' @ '']'')"
    by (simp add: overflowNsDir_def path_pid)
  have digits: "\<forall>c\<in>set ''4294967296''. isDigit c"
    by (simp add: isDigit_def)
  have big: "4294967295 < decimal 0 ''4294967296''"
    by (simp add: decimal_def)
  have tag: "CHR '':'' \<notin> set ''pid''" by simp
  show ?thesis
    using C10_out_of_range_saturates[OF listing _ link tag digits big] listing link big
    by simp
qed

subsection \<open>The claims about the registry\<close>

text \<open>
  C2 (as amended). Under constants as required, every identifier that is a key of
  \<open>EventsIDToEvent\<close> is a key of \<open>EventsIDToParams\<close> too, except the twelve
  system-call identifiers of \<open>noSchemaNames\<close> (system calls that the kernel does not
  implement); for these the table has no entry and the index expression yields the nil
  list. Every key below \<open>SysEnterEventID\<close> has a record whose \<open>ID32Bit\<close> is one of
  the compatibility constants, \<open>sys32undefined\<close> among them.
\<close>

theorem C2_schema_entries:
  assumes "wf_consts K" and "k \<in> set (map fst (EventsIDToEvent K))"
  shows "(map_of (EventsIDToParams K) k = None \<longleftrightarrow> k \<in> K ` set noSchemaNames)
       \<and> (k \<in> K ` set noSchemaNames \<longrightarrow> EventsIDToParams_at K k = [])
       \<and> (k < SysEnterEventID \<longrightarrow>
            (\<exists>e. map_of (EventsIDToEvent K) k = Some e \<and> ID32Bit e \<in> K ` set sysCompatNames))"
proof -
  have keys: "k \<in> K ` set sysEventNames \<or> k \<in> set (map fst nonSyscallParams)"
    using assms(2) by (auto simp: EventsIDToEvent_keys)
  have first: "map_of (EventsIDToParams K) k = None \<longleftrightarrow> k \<in> K ` set noSchemaNames"
  proof (cases "k \<in> K ` set sysEventNames")
    case True
    then obtain n where n: "n \<in> set sysEventNames" "k = K n" by auto
    show ?thesis
      using schema_key_iff[OF assms(1) n(1)] noSchema_image_iff[OF assms(1) n(1)]
      by (simp add: n(2) map_of_None_iff_key)
  next
    case False
    then have other: "k \<in> set (map fst nonSyscallParams)" using keys by simp
    then have "SysEnterEventID \<le> k" using nonSyscallParams_keys_above by blast
    moreover have "\<forall>m\<in>set noSchemaNames. K m < SysEnterEventID"
      using assms(1) noSchemaNames_subset by (auto simp: wf_consts_def)
    ultimately have "k \<notin> K ` set noSchemaNames" by fastforce
    moreover have "k \<in> set (map fst (EventsIDToParams K))"
      using other by (simp add: EventsIDToParams_keys)
    ultimately show ?thesis by (simp add: map_of_None_iff_key)
  qed
  have second: "k < SysEnterEventID \<longrightarrow>
      (\<exists>e. map_of (EventsIDToEvent K) k = Some e \<and> ID32Bit e \<in> K ` set sysCompatNames)"
  proof
    assume below: "k < SysEnterEventID"
    then have "k \<notin> set (map fst nonSyscallParams)"
      using nonSyscallParams_keys_above by fastforce
    then have notin: "k \<notin> fst ` set (nonSyscallEvents K)"
      by (metis nonSyscallEvents_keys set_map)
    obtain e where e: "map_of (EventsIDToEvent K) k = Some e"
      using assms(2) by (cases "map_of (EventsIDToEvent K) k") (auto simp: map_of_None_iff_key)
    then have "(k, e) \<in> set (EventsIDToEvent K)" by (rule map_of_SomeD)
    then have "(k, e) \<in> set (syscallEvents K)"
      using notin by (force simp: EventsIDToEvent_def)
    then have "ID32Bit e \<in> set (map (\<lambda>(k, e). ID32Bit e) (syscallEvents K))" by force
    then have "ID32Bit e \<in> K ` set sysCompatNames" by (simp add: syscallEvents_compat)
    then show "\<exists>e. map_of (EventsIDToEvent K) k = Some e \<and> ID32Bit e \<in> K ` set sysCompatNames"
      using e by blast
  qed
  show ?thesis
    using first second by (auto simp: EventsIDToParams_at_def)
qed

theorem C2_schema_entries_witness:
  "wf_consts declOrder
   \<and> declOrder ''ReadEventID'' \<in> set (map fst (EventsIDToEvent declOrder))
   \<and> declOrder ''ReadEventID'' < SysEnterEventID
   \<and> map_of (EventsIDToParams declOrder) (declOrder ''ReadEventID'') \<noteq> None
   \<and> (\<exists>e. map_of (EventsIDToEvent declOrder) (declOrder ''ReadEventID'') = Some e
          \<and> ID32Bit e \<in> declOrder ` set sysCompatNames)"
proof -
  have mem: "''ReadEventID'' \<in> set sysEventNames"
    by (simp add: sysEventNames_def)
  have key: "declOrder ''ReadEventID'' \<in> set (map fst (EventsIDToEvent declOrder))"
    using mem by (simp add: EventsIDToEvent_keys)
  have below: "declOrder ''ReadEventID'' < SysEnterEventID"
    using declOrder_wf mem by (simp add: wf_consts_def)
  have "''ReadEventID'' \<notin> set noSchemaNames"
    by (simp add: noSchemaNames_def)
  then have "declOrder ''ReadEventID'' \<notin> declOrder ` set noSchemaNames"
    using noSchema_image_iff[OF declOrder_wf mem] by simp
  then show ?thesis
    using C2_schema_entries[OF declOrder_wf key] declOrder_wf key below by simp
qed

theorem C2_counterexample:
  "declOrder ''PutpmsgEventID'' \<in> set (map fst (EventsIDToEvent declOrder))
   \<and> map_of (EventsIDToParams declOrder) (declOrder ''PutpmsgEventID'') = None"
proof -
  have no: "''PutpmsgEventID'' \<in> set noSchemaNames"
    by (simp add: noSchemaNames_def)
  then have mem: "''PutpmsgEventID'' \<in> set sysEventNames"
    using noSchemaNames_subset by blast
  have "declOrder ''PutpmsgEventID'' \<notin> set (map fst (EventsIDToParams declOrder))"
    using schema_key_iff[OF declOrder_wf mem] no by simp
  then have "map_of (EventsIDToParams declOrder) (declOrder ''PutpmsgEventID'') = None"
    by (simp add: map_of_None_iff_key)
  then show ?thesis
    using mem by (simp add: EventsIDToEvent_keys)
qed

text \<open>
  C3. Under constants as required, the identifiers of the registry are pairwise
  different, so are the display names, the \<open>ID\<close> of every record is its key, and the
  two lookups invert each other: the name found for a registered identifier resolves to
  that identifier, and the identifier found for a registered name has that name.
\<close>

theorem C3_ids_and_names_unique:
  assumes "wf_consts K"
  shows "distinct (map fst (EventsIDToEvent K))
       \<and> distinct (map (\<lambda>(k, e). Name e) (EventsIDToEvent K))
       \<and> (\<forall>(k, e)\<in>set (EventsIDToEvent K). ID e = k)
       \<and> (\<forall>k\<in>set (map fst (EventsIDToEvent K)).
             \<exists>n. EventsIDToName K k = Some n \<and> EventsNameToID K n = Some k)
       \<and> (\<forall>n\<in>set (map (\<lambda>(k, e). Name e) (EventsIDToEvent K)).
             \<exists>k. EventsNameToID K n = Some k \<and> EventsIDToName K k = Some n)"
proof -
  let ?E = "EventsIDToEvent K"
  have dk: "distinct (map fst ?E)"
    by (rule EventsIDToEvent_keys_distinct[OF assms])
  have dn: "distinct (map (\<lambda>(k, e). Name e) ?E)"
    by (simp add: EventsIDToEvent_names distinct_eventNames)
  have ids: "\<forall>(k, e)\<in>set ?E. ID e = k"
    using EventsIDToEvent_ids[of K] by (simp add: list_all_iff)
  have rt: "EventsIDToName K k = Some (Name e) \<and> EventsNameToID K (Name e) = Some k"
    if "(k, e) \<in> set ?E" for k e
  proof -
    have "ID e = k" using ids that by auto
    then show ?thesis
      using roundtrip_by_key(1)[OF dk dn that]
        roundtrip_by_key(2)[where g = "\<lambda>(k, e). ID e", OF dk dn that]
      by (simp add: EventsIDToName_def EventsNameToID_def case_prod_unfold)
  qed
  have "\<forall>k\<in>set (map fst ?E). \<exists>n. EventsIDToName K k = Some n \<and> EventsNameToID K n = Some k"
    using rt by fastforce
  moreover have "\<forall>n\<in>set (map (\<lambda>(k, e). Name e) ?E).
      \<exists>k. EventsNameToID K n = Some k \<and> EventsIDToName K k = Some n"
    using rt by fastforce
  ultimately show ?thesis
    using dk dn ids by blast
qed

theorem C3_ids_and_names_unique_witness:
  "wf_consts declOrder
   \<and> InitNamespacesEventID \<in> set (map fst (EventsIDToEvent declOrder))
   \<and> EventsIDToName declOrder InitNamespacesEventID = Some ''init_namespaces''
   \<and> EventsNameToID declOrder ''init_namespaces'' = Some InitNamespacesEventID"
proof -
  have above: "SysEnterEventID \<le> InitNamespacesEventID"
    by (simp add: SysEnterEventID_def InitNamespacesEventID_def)
  have "map_of (EventsIDToEvent declOrder) InitNamespacesEventID =
      map_of (nonSyscallEvents declOrder) InitNamespacesEventID"
    by (rule EventsIDToEvent_above[OF declOrder_wf above])
  then have name: "EventsIDToName declOrder InitNamespacesEventID = Some ''init_namespaces''"
    by (simp add: EventsIDToName_def nonSyscallEvents_def eventID_defs)
  have key: "InitNamespacesEventID \<in> set (map fst (EventsIDToEvent declOrder))"
    by (simp add: EventsIDToEvent_keys nonSyscallParams_def)
  have "\<exists>n. EventsIDToName declOrder InitNamespacesEventID = Some n
        \<and> EventsNameToID declOrder n = Some InitNamespacesEventID"
    using C3_ids_and_names_unique[OF declOrder_wf] key by blast
  then have "EventsNameToID declOrder ''init_namespaces'' = Some InitNamespacesEventID"
    using name by auto
  then show ?thesis
    using declOrder_wf key name by simp
qed

text \<open>
  C4. Every record of the registry whose \<open>EssentialEvent\<close> flag is set has at least
  one probe.
\<close>

theorem C4_essential_has_probes:
  assumes "(k, e) \<in> set (EventsIDToEvent K)" and "EssentialEvent e"
  shows "Probes e \<noteq> []"
  using EventsIDToEvent_essential[of K] assms by (auto simp: list_all_iff)

theorem C4_essential_has_probes_witness:
  "(SysEnterEventID,
      \<lparr>ID = SysEnterEventID, ID32Bit = declOrder ''sys32undefined'', Name = ''sys_enter'',
       Probes = [\<lparr>event = ''raw_syscalls:sys_enter'', attach = rawTracepoint,
                  fn = ''tracepoint__raw_syscalls__sys_enter''\<rparr>],
       EssentialEvent = True, Sets = []\<rparr>) \<in> set (EventsIDToEvent declOrder)
   \<and> Probes \<lparr>ID = SysEnterEventID, ID32Bit = declOrder ''sys32undefined'', Name = ''sys_enter'',
       Probes = [\<lparr>event = ''raw_syscalls:sys_enter'', attach = rawTracepoint,
                  fn = ''tracepoint__raw_syscalls__sys_enter''\<rparr>],
       EssentialEvent = True, Sets = []\<rparr> \<noteq> []"
proof -
  have mem: "(SysEnterEventID,
      \<lparr>ID = SysEnterEventID, ID32Bit = declOrder ''sys32undefined'', Name = ''sys_enter'',
       Probes = [\<lparr>event = ''raw_syscalls:sys_enter'', attach = rawTracepoint,
                  fn = ''tracepoint__raw_syscalls__sys_enter''\<rparr>],
       EssentialEvent = True, Sets = []\<rparr>) \<in> set (nonSyscallEvents declOrder)"
    by (simp add: nonSyscallEvents_def)
  then have mem': "(SysEnterEventID,
      \<lparr>ID = SysEnterEventID, ID32Bit = declOrder ''sys32undefined'', Name = ''sys_enter'',
       Probes = [\<lparr>event = ''raw_syscalls:sys_enter'', attach = rawTracepoint,
                  fn = ''tracepoint__raw_syscalls__sys_enter''\<rparr>],
       EssentialEvent = True, Sets = []\<rparr>) \<in> set (EventsIDToEvent declOrder)"
    by (simp add: EventsIDToEvent_def)
  show ?thesis
    using C4_essential_has_probes[OF mem'] mem' by simp
qed

end
